theory Spec2Isabelle
  imports Main "HOL-Library.Word"
begin

section \<open>Errors (internal/errors/errors.go)\<close>

datatype ErrorCode =
    ErrorCodeNotFound
  | ErrorCodeDuplicate
  | ErrorCodeValidation
  | ErrorCodeInternal
  | ErrorCodeBadRequest

text \<open>
  A Go \<^verbatim>\<open>error\<close> value is either a \<^verbatim>\<open>*ServiceError\<close> of this repository or an error
  made by a library (net/url, crypto/rand, net/http, encoding/json, fmt.Errorf), which
  is kept as its message. A nil \<^verbatim>\<open>error\<close> is \<open>None\<close> of \<open>go_error option\<close>.
\<close>

datatype ServiceError =
  ServiceError (Op: string) (Code: ErrorCode) (Message: string) (Err: "go_error option")
and go_error =
    LibError string
  | SvcError ServiceError

definition NewNotFoundError :: "string \<Rightarrow> string \<Rightarrow> ServiceError" where
  "NewNotFoundError op message = ServiceError op ErrorCodeNotFound message None"

definition NewValidationError :: "string \<Rightarrow> string \<Rightarrow> go_error option \<Rightarrow> ServiceError" where
  "NewValidationError op message err = ServiceError op ErrorCodeValidation message err"

definition NewDuplicateError :: "string \<Rightarrow> string \<Rightarrow> ServiceError" where
  "NewDuplicateError op message = ServiceError op ErrorCodeDuplicate message None"

definition NewInternalError :: "string \<Rightarrow> string \<Rightarrow> go_error option \<Rightarrow> ServiceError" where
  "NewInternalError op message err = ServiceError op ErrorCodeInternal message err"

text \<open>
  \<^verbatim>\<open>errors.As(err, &serviceErr)\<close> with a target of type \<^verbatim>\<open>*ServiceError\<close>: the first
  \<^verbatim>\<open>*ServiceError\<close> of the chain of \<open>err\<close>. A library error is a leaf of the chain.
\<close>

fun errors_As :: "go_error \<Rightarrow> ServiceError option" where
  "errors_As (SvcError e) = Some e"
| "errors_As (LibError m) = None"

text \<open>
  What a call of a Go function comes to: a value, a non-nil \<^verbatim>\<open>error\<close>, or a run-time panic
  (a negative length given to \<^verbatim>\<open>make\<close>, a nil pointer dereferenced).
\<close>

datatype 'a outcome = Return 'a | Error go_error | Panic string

section \<open>Strings\<close>

text \<open>
  A Go string is a sequence of bytes, and \<^verbatim>\<open>len\<close> counts bytes: it is a \<open>string\<close>, a list
  of 8-bit \<open>char\<close>s. \<^verbatim>\<open>for _, char := range s\<close> decodes the bytes as UTF-8 into runes; a
  byte that starts no valid encoding gives the rune \<^verbatim>\<open>utf8.RuneError\<close> and is one byte wide.
  \<open>decodeRune\<close> is the language's decoding step (unicode/utf8, \<^verbatim>\<open>DecodeRuneInString\<close>): the
  rune and the number of bytes it takes.
\<close>

type_synonym rune = int

definition RuneError :: rune where
  "RuneError = 0xFFFD"

fun decodeRune :: "string \<Rightarrow> rune \<times> nat" where
  "decodeRune [] = (RuneError, 0)"
| "decodeRune (c0 # rest) =
    (let s0 = (of_char c0 :: int) in
     if s0 < 0x80 then (s0, 1)
     else if s0 < 0xC2 \<or> 0xF4 < s0 then (RuneError, 1)
     else
       let sz = (if s0 < 0xE0 then 2 else if s0 < 0xF0 then 3 else (4::nat));
           lo = (if s0 = 0xE0 then 0xA0 else if s0 = 0xF0 then 0x90 else (0x80::int));
           hi = (if s0 = 0xED then 0x9F else if s0 = 0xF4 then 0x8F else (0xBF::int))
       in
         if Suc (length rest) < sz then (RuneError, 1)
         else
           let s1 = (of_char (rest ! 0) :: int) in
           if s1 < lo \<or> hi < s1 then (RuneError, 1)
           else if sz \<le> 2 then ((s0 mod 32) * 64 + s1 mod 64, 2)
           else
             let s2 = (of_char (rest ! 1) :: int) in
             if s2 < 0x80 \<or> 0xBF < s2 then (RuneError, 1)
             else if sz \<le> 3 then ((s0 mod 16) * 4096 + (s1 mod 64) * 64 + s2 mod 64, 3)
             else
               let s3 = (of_char (rest ! 2) :: int) in
               if s3 < 0x80 \<or> 0xBF < s3 then (RuneError, 1)
               else ((s0 mod 8) * 262144 + (s1 mod 64) * 4096 + (s2 mod 64) * 64
                       + s3 mod 64, 4))"

text \<open>A non-empty string gives a rune at least one byte wide, so the decoding loop ends.\<close>

lemma decodeRune_size: "s \<noteq> [] \<Longrightarrow> 1 \<le> snd (decodeRune s)"
  by (cases s) (simp_all add: Let_def)

function runes :: "string \<Rightarrow> rune list" where
  "runes s = (if s = [] then [] else fst (decodeRune s) # runes (drop (snd (decodeRune s)) s))"
  by pat_completeness auto
termination
proof (relation "measure length")
  show "wf (measure length)" by simp
next
  fix s :: string
  assume "s \<noteq> []"
  then have "1 \<le> snd (decodeRune s)" by (rule decodeRune_size)
  with \<open>s \<noteq> []\<close> show "(drop (snd (decodeRune s)) s, s) \<in> measure length"
    by (cases s) auto
qed

declare runes.simps [simp del]
declare decodeRune.simps [simp del]

text \<open>The functions of package \<^verbatim>\<open>strings\<close> that the code and net/url use.\<close>

definition strings_HasPrefix :: "string \<Rightarrow> string \<Rightarrow> bool" where
  "strings_HasPrefix s pre = (take (length pre) s = pre)"

definition strings_HasSuffix :: "string \<Rightarrow> string \<Rightarrow> bool" where
  "strings_HasSuffix s suf = (length suf \<le> length s \<and> drop (length s - length suf) s = suf)"

fun strings_Index :: "string \<Rightarrow> string \<Rightarrow> nat option" where
  "strings_Index [] substr = (if substr = [] then Some 0 else None)"
| "strings_Index (x # xs) substr =
     (if take (length substr) (x # xs) = substr then Some 0
      else map_option Suc (strings_Index xs substr))"

fun strings_LastIndex :: "string \<Rightarrow> string \<Rightarrow> nat option" where
  "strings_LastIndex [] substr = (if substr = [] then Some 0 else None)"
| "strings_LastIndex (x # xs) substr =
     (case strings_LastIndex xs substr of
        Some j \<Rightarrow> Some (Suc j)
      | None \<Rightarrow> if take (length substr) (x # xs) = substr then Some 0 else None)"

definition strings_Contains :: "string \<Rightarrow> string \<Rightarrow> bool" where
  "strings_Contains s substr = (strings_Index s substr \<noteq> None)"

definition strings_Cut :: "string \<Rightarrow> string \<Rightarrow> string \<times> string \<times> bool" where
  "strings_Cut s sep =
     (case strings_Index s sep of
        Some i \<Rightarrow> (take i s, drop (i + length sep) s, True)
      | None \<Rightarrow> (s, '''', False))"

text \<open>
  \<^verbatim>\<open>strings.ToLower\<close>: a string of ASCII bytes only has its letters \<open>A-Z\<close> mapped to \<open>a-z\<close>;
  any other string goes through \<^verbatim>\<open>strings.Map(unicode.ToLower, s)\<close>, whose Unicode tables
  are not modelled: \<open>ul\<close> stands for that mapping.
\<close>

definition ascii_lower :: "char \<Rightarrow> char" where
  "ascii_lower c =
     (if (of_char (CHR ''A'') :: nat) \<le> of_char c \<and> (of_char c :: nat) \<le> of_char (CHR ''Z'')
      then char_of ((of_char c :: nat) + 32) else c)"

definition strings_ToLower :: "(string \<Rightarrow> string) \<Rightarrow> string \<Rightarrow> string" where
  "strings_ToLower ul s =
     (if list_all (\<lambda>c. (of_char c :: nat) < 0x80) s then map ascii_lower s else ul s)"

section \<open>The code generator (internal/utils/shortcode.go)\<close>

definition base62Chars :: string where
  "base62Chars = ''0123456789abcdefghijklmnopqrstuvwxyzABCDEFGHIJKLMNOPQRSTUVWXYZ''"

text \<open>
  \<^verbatim>\<open>crypto/rand.Reader\<close> is the operating system's source: \<open>rd k\<close> is what its \<open>k\<close>-th use
  by \<^verbatim>\<open>rand.Int\<close> gives, an error or a number. \<^verbatim>\<open>rand.Int(rand.Reader, bound)\<close> returns a
  number in \<open>[0, bound)\<close>; the position in the source is the state.
\<close>

type_synonym rand_Reader = "nat \<Rightarrow> go_error + nat"

definition rand_Int :: "rand_Reader \<Rightarrow> nat \<Rightarrow> nat \<Rightarrow> (go_error + nat) \<times> nat" where
  "rand_Int rd bound p =
     ((case rd p of Inl err \<Rightarrow> Inl err | Inr n \<Rightarrow> Inr (n mod bound)), Suc p)"

text \<open>
  The loop \<^verbatim>\<open>for i := range result\<close> of \<^verbatim>\<open>GenerateShortCode\<close>: \<open>i\<close> runs over the indices
  of the byte slice \<open>result\<close>, and a failing draw returns its error at once.
\<close>

function GenerateShortCode_loop ::
  "rand_Reader \<Rightarrow> nat \<Rightarrow> char list \<Rightarrow> nat \<Rightarrow> string outcome \<times> nat" where
  "GenerateShortCode_loop rd i result p =
     (if i < length result then
        (case rand_Int rd (length base62Chars) p of
           (Inl err, p') \<Rightarrow> (Error err, p')
         | (Inr num, p') \<Rightarrow>
             GenerateShortCode_loop rd (Suc i) (result[i := base62Chars ! num]) p')
      else (Return result, p))"
  by pat_completeness auto
termination
  by (relation "measure (\<lambda>(rd, i, result, p). length result - i)") auto

declare GenerateShortCode_loop.simps [simp del]

text \<open>
  \<^verbatim>\<open>make([]byte, length)\<close> is the runtime's \<^verbatim>\<open>makeslice\<close> (runtime/slice.go): for a byte
  slice it panics with \<^verbatim>\<open>makeslice: len out of range\<close> when \<^verbatim>\<open>length < 0\<close> or
  \<^verbatim>\<open>length > maxAlloc\<close>, and gives \<^verbatim>\<open>length\<close> zero bytes otherwise. \<^verbatim>\<open>maxAlloc\<close>
  (runtime/malloc.go) is \<^verbatim>\<open>1 << 48\<close> bytes on the 64-bit platforms the service is built for
  (linux/amd64), where \<^verbatim>\<open>int\<close> has 64 bits. A length that passes this check is taken to be
  allocated: the heap of the machine running out below \<^verbatim>\<open>maxAlloc\<close> is a fatal error of the
  process, not a result of the function, and depends on the machine alone.
\<close>

definition maxAlloc :: int where
  "maxAlloc = 2 ^ 48"

definition GenerateShortCode :: "rand_Reader \<Rightarrow> int \<Rightarrow> nat \<Rightarrow> string outcome \<times> nat" where
  "GenerateShortCode rd len p =
     (if len < 0 \<or> maxAlloc < len then (Panic ''makeslice: len out of range'', p)
      else GenerateShortCode_loop rd 0 (replicate (nat len) (CHR 0x00)) p)"

text \<open>The draws \<open>p, ..., p + n - 1\<close> of the source all succeed.\<close>

definition rand_ok :: "rand_Reader \<Rightarrow> nat \<Rightarrow> nat \<Rightarrow> bool" where
  "rand_ok rd p n = list_all (\<lambda>k. \<not> isl (rd k)) [p ..< p + n]"

section \<open>Parsing a URL (Go's net/url)\<close>

text \<open>
  \<^verbatim>\<open>url.Parse\<close> belongs to Go's standard library, not to the repository. The validator
  reads two fields of its result, \<open>Scheme\<close> and \<open>Host\<close>, and whether it failed.
  Every general theorem below takes the parser as a parameter (\<open>url_Parse\<close> of the
  platform) and holds for any parser. The statements at explicit URLs are evaluated with
  \<open>net_url_Parse\<close>, which follows \<^verbatim>\<open>Parse\<close>, \<^verbatim>\<open>parse\<close>, \<^verbatim>\<open>getScheme\<close>, \<^verbatim>\<open>parseAuthority\<close>,
  \<^verbatim>\<open>parseHost\<close> and \<^verbatim>\<open>unescape\<close> of net/url/url.go (Go 1.22) as far as the error, the
  scheme and the host go.
\<close>

record url_URL =
  Scheme :: string
  Host :: string

datatype encoding =
    encodePath
  | encodePathSegment
  | encodeHost
  | encodeZone
  | encodeUserPassword
  | encodeQueryComponent
  | encodeFragment

definition url_Error :: "string \<Rightarrow> go_error" where
  "url_Error msg = LibError (''parse: '' @ msg)"

definition ishex :: "char \<Rightarrow> bool" where
  "ishex c \<longleftrightarrow>
     (let n = (of_char c :: nat) in
      (48 \<le> n \<and> n \<le> 57) \<or> (97 \<le> n \<and> n \<le> 102) \<or> (65 \<le> n \<and> n \<le> 70))"

definition unhex :: "char \<Rightarrow> nat" where
  "unhex c =
     (let n = (of_char c :: nat) in
      if 48 \<le> n \<and> n \<le> 57 then n - 48
      else if 97 \<le> n \<and> n \<le> 102 then n - 97 + 10
      else if 65 \<le> n \<and> n \<le> 70 then n - 65 + 10
      else 0)"

definition reserved_chars :: string where
  "reserved_chars = ''$&+,/:;=?@''"

definition shouldEscape :: "char \<Rightarrow> encoding \<Rightarrow> bool" where
  "shouldEscape c mode =
     (let n = (of_char c :: nat) in
      if (97 \<le> n \<and> n \<le> 122) \<or> (65 \<le> n \<and> n \<le> 90) \<or> (48 \<le> n \<and> n \<le> 57) then False
      else if (mode = encodeHost \<or> mode = encodeZone)
              \<and> c \<in> set (CHR 0x22 # ''!$&()*+,;=:[]<>'' @ [CHR 0x27])
        then False
      else if c \<in> set ''-_.~'' then False
      else if c \<in> set reserved_chars \<and> mode = encodePath then c = CHR ''?''
      else if c \<in> set reserved_chars \<and> mode = encodePathSegment
        then c = CHR ''/'' \<or> c = CHR '';'' \<or> c = CHR '','' \<or> c = CHR ''?''
      else if c \<in> set reserved_chars \<and> mode = encodeUserPassword
        then c = CHR ''@'' \<or> c = CHR ''/'' \<or> c = CHR ''?'' \<or> c = CHR '':''
      else if c \<in> set reserved_chars \<and> mode = encodeQueryComponent then True
      else if c \<in> set reserved_chars \<and> mode = encodeFragment then False
      else if mode = encodeFragment \<and> c \<in> set ''!()*'' then False
      else True)"

text \<open>The first loop of \<^verbatim>\<open>unescape\<close>: the checks of the escapes and of the host's bytes.\<close>

fun unescape_check :: "encoding \<Rightarrow> string \<Rightarrow> go_error option" where
  "unescape_check mode [] = None"
| "unescape_check mode (c # cs) =
     (if c = CHR ''%'' then
        (case cs of
           h1 # h2 # cs' \<Rightarrow>
             if \<not> ishex h1 \<or> \<not> ishex h2 then Some (url_Error ''invalid URL escape'')
             else if mode = encodeHost \<and> unhex h1 < 8 \<and> [c, h1, h2] \<noteq> ''%25''
               then Some (url_Error ''invalid URL escape'')
             else if mode = encodeZone \<and> [c, h1, h2] \<noteq> ''%25''
                     \<and> unhex h1 * 16 + unhex h2 \<noteq> 0x20
                     \<and> shouldEscape (char_of (unhex h1 * 16 + unhex h2)) encodeHost
               then Some (url_Error ''invalid URL escape'')
             else unescape_check mode cs'
         | _ \<Rightarrow> Some (url_Error ''invalid URL escape''))
      else if c = CHR ''+'' then unescape_check mode cs
      else if (mode = encodeHost \<or> mode = encodeZone) \<and> (of_char c :: nat) < 0x80
              \<and> shouldEscape c encodeHost
        then Some (url_Error ''invalid character in host name'')
      else unescape_check mode cs)"

text \<open>The second loop of \<^verbatim>\<open>unescape\<close>, run on a string that passed the checks.\<close>

fun unescape_decode :: "encoding \<Rightarrow> string \<Rightarrow> string" where
  "unescape_decode mode [] = []"
| "unescape_decode mode (c # cs) =
     (if c = CHR ''%'' then
        (case cs of
           h1 # h2 # cs' \<Rightarrow> char_of (unhex h1 * 16 + unhex h2) # unescape_decode mode cs'
         | _ \<Rightarrow> [])
      else if c = CHR ''+'' then
        (if mode = encodeQueryComponent then CHR 0x20 else CHR ''+'') # unescape_decode mode cs
      else c # unescape_decode mode cs)"

definition unescape :: "string \<Rightarrow> encoding \<Rightarrow> go_error + string" where
  "unescape s mode =
     (case unescape_check mode s of
        Some err \<Rightarrow> Inl err
      | None \<Rightarrow> Inr (unescape_decode mode s))"

definition stringContainsCTLByte :: "string \<Rightarrow> bool" where
  "stringContainsCTLByte s =
     list_ex (\<lambda>b. (of_char b :: nat) < 0x20 \<or> (of_char b :: nat) = 0x7f) s"

text \<open>The loop of \<^verbatim>\<open>getScheme\<close>: \<open>i\<close> is the index of the byte looked at, \<open>cs\<close> the bytes from it on.\<close>

fun getScheme_loop :: "string \<Rightarrow> nat \<Rightarrow> string \<Rightarrow> go_error + (string \<times> string)" where
  "getScheme_loop rawURL i [] = Inr ('''', rawURL)"
| "getScheme_loop rawURL i (c # cs) =
     (let n = (of_char c :: nat) in
      if (97 \<le> n \<and> n \<le> 122) \<or> (65 \<le> n \<and> n \<le> 90) then getScheme_loop rawURL (Suc i) cs
      else if (48 \<le> n \<and> n \<le> 57) \<or> c = CHR ''+'' \<or> c = CHR ''-'' \<or> c = CHR ''.'' then
        (if i = 0 then Inr ('''', rawURL) else getScheme_loop rawURL (Suc i) cs)
      else if c = CHR '':'' then
        (if i = 0 then Inl (url_Error ''missing protocol scheme'')
         else Inr (take i rawURL, drop (Suc i) rawURL))
      else Inr ('''', rawURL))"

definition getScheme :: "string \<Rightarrow> go_error + (string \<times> string)" where
  "getScheme rawURL = getScheme_loop rawURL 0 rawURL"

definition validOptionalPort :: "string \<Rightarrow> bool" where
  "validOptionalPort port =
     (if port = '''' then True
      else if hd port \<noteq> CHR '':'' then False
      else list_all (\<lambda>b. \<not> (b < of_char (CHR ''0'') \<or> b > of_char (CHR ''9''))) (runes (tl port)))"

definition validUserinfo :: "string \<Rightarrow> bool" where
  "validUserinfo s =
     list_all (\<lambda>r. (of_char (CHR ''A'') \<le> r \<and> r \<le> of_char (CHR ''Z''))
                  \<or> (of_char (CHR ''a'') \<le> r \<and> r \<le> of_char (CHR ''z''))
                  \<or> (of_char (CHR ''0'') \<le> r \<and> r \<le> of_char (CHR ''9''))
                  \<or> r \<in> set (map of_char (''-._:~!$&()*+,;=%@'' @ [CHR 0x27])))
       (runes s)"

definition parseHost :: "string \<Rightarrow> go_error + string" where
  "parseHost host =
     (if strings_HasPrefix host ''['' then
        (case strings_LastIndex host '']'' of
           None \<Rightarrow> Inl (url_Error ''missing ] in host'')
         | Some i \<Rightarrow>
             if \<not> validOptionalPort (drop (Suc i) host)
               then Inl (url_Error ''invalid port after host'')
             else
               (case strings_Index (take i host) ''%25'' of
                  Some zone \<Rightarrow>
                    (case unescape (take zone host) encodeHost of
                       Inl err \<Rightarrow> Inl err
                     | Inr host1 \<Rightarrow>
                         (case unescape (drop zone (take i host)) encodeZone of
                            Inl err \<Rightarrow> Inl err
                          | Inr host2 \<Rightarrow>
                              (case unescape (drop i host) encodeHost of
                                 Inl err \<Rightarrow> Inl err
                               | Inr host3 \<Rightarrow> Inr (host1 @ host2 @ host3))))
                | None \<Rightarrow> unescape host encodeHost))
      else
        (case strings_LastIndex host '':'' of
           Some i \<Rightarrow>
             if \<not> validOptionalPort (drop i host)
               then Inl (url_Error ''invalid port after host'')
             else unescape host encodeHost
         | None \<Rightarrow> unescape host encodeHost))"

text \<open>\<^verbatim>\<open>parseAuthority\<close>: the host of the authority, or the error of its host or user part.\<close>

definition parseAuthority :: "string \<Rightarrow> go_error + string" where
  "parseAuthority authority =
     (case strings_LastIndex authority ''@'' of
        None \<Rightarrow> parseHost authority
      | Some i \<Rightarrow>
          (case parseHost (drop (Suc i) authority) of
             Inl err \<Rightarrow> Inl err
           | Inr host \<Rightarrow>
               let userinfo = take i authority in
               if \<not> validUserinfo userinfo then Inl (url_Error ''net/url: invalid userinfo'')
               else if \<not> strings_Contains userinfo '':'' then
                 (case unescape userinfo encodeUserPassword of
                    Inl err \<Rightarrow> Inl err
                  | Inr _ \<Rightarrow> Inr host)
               else
                 (case strings_Cut userinfo '':'' of
                    (username, password, _) \<Rightarrow>
                      (case unescape username encodeUserPassword of
                         Inl err \<Rightarrow> Inl err
                       | Inr _ \<Rightarrow>
                           (case unescape password encodeUserPassword of
                              Inl err \<Rightarrow> Inl err
                            | Inr _ \<Rightarrow> Inr host)))))"

text \<open>
  \<^verbatim>\<open>parse(rawURL, viaRequest)\<close> with \<open>viaRequest = false\<close>, the way \<^verbatim>\<open>Parse\<close> calls it. The
  scheme is made of ASCII letters, digits, \<open>+\<close>, \<open>-\<close> and \<open>.\<close>, so lower-casing it never
  leaves the ASCII branch of \<^verbatim>\<open>strings.ToLower\<close>.
\<close>

definition net_url_parse :: "string \<Rightarrow> go_error + url_URL" where
  "net_url_parse rawURL =
     (if stringContainsCTLByte rawURL
        then Inl (url_Error ''net/url: invalid control character in URL'')
      else if rawURL = ''*'' then Inr \<lparr>Scheme = '''', Host = ''''\<rparr>
      else
        (case getScheme rawURL of
           Inl err \<Rightarrow> Inl err
         | Inr (scheme0, rest0) \<Rightarrow>
             let scheme = map ascii_lower scheme0;
                 rest1 = (if strings_HasSuffix rest0 ''?'' \<and> count_list rest0 (CHR ''?'') = 1
                          then butlast rest0 else fst (strings_Cut rest0 ''?''))
             in
               if \<not> strings_HasPrefix rest1 ''/'' \<and> scheme \<noteq> ''''
                 then Inr \<lparr>Scheme = scheme, Host = ''''\<rparr>
               else if \<not> strings_HasPrefix rest1 ''/''
                       \<and> strings_Contains (fst (strings_Cut rest1 ''/'')) '':''
                 then Inl (url_Error ''first path segment in URL cannot contain colon'')
               else if (scheme \<noteq> '''' \<or> \<not> strings_HasPrefix rest1 ''///'')
                       \<and> strings_HasPrefix rest1 ''//'' then
                 (let authority0 = drop 2 rest1;
                      authority = (case strings_Index authority0 ''/'' of
                                     Some i \<Rightarrow> take i authority0 | None \<Rightarrow> authority0);
                      rest2 = (case strings_Index authority0 ''/'' of
                                 Some i \<Rightarrow> drop i authority0 | None \<Rightarrow> '''')
                  in case parseAuthority authority of
                       Inl err \<Rightarrow> Inl err
                     | Inr host \<Rightarrow>
                         (case unescape rest2 encodePath of
                            Inl err \<Rightarrow> Inl err
                          | Inr _ \<Rightarrow> Inr \<lparr>Scheme = scheme, Host = host\<rparr>))
               else
                 (case unescape rest1 encodePath of
                    Inl err \<Rightarrow> Inl err
                  | Inr _ \<Rightarrow> Inr \<lparr>Scheme = scheme, Host = ''''\<rparr>)))"

text \<open>\<^verbatim>\<open>url.Parse\<close>: the fragment is cut off at the first \<open>#\<close> and checked after the rest.\<close>

definition net_url_Parse :: "string \<Rightarrow> go_error + url_URL" where
  "net_url_Parse rawURL =
     (case strings_Cut rawURL ''#'' of
        (u, frag, _) \<Rightarrow>
          (case net_url_parse u of
             Inl err \<Rightarrow> Inl err
           | Inr url \<Rightarrow>
               if frag = '''' then Inr url
               else (case unescape frag encodeFragment of
                       Inl err \<Rightarrow> Inl err
                     | Inr _ \<Rightarrow> Inr url)))"

section \<open>The platform\<close>

text \<open>
  What the program takes from outside the repository: the URL parser, the Unicode branch
  of \<^verbatim>\<open>strings.ToLower\<close>, the secure random source and \<^verbatim>\<open>time.Parse\<close> with the RFC 3339
  layout. A \<open>Time\<close> is an instant counted from the zero \<^verbatim>\<open>time.Time{}\<close>.
\<close>

type_synonym Time = int

record platform =
  url_Parse :: "string \<Rightarrow> go_error + url_URL"
  unicode_ToLower :: "string \<Rightarrow> string"
  rand_Reader :: rand_Reader
  time_Parse :: "string \<Rightarrow> go_error + Time"

section \<open>Constants (package constants)\<close>

definition DefaultShortCodeLength :: int where
  "DefaultShortCodeLength = 6"

definition MaxRetries :: int where
  "MaxRetries = 5"

definition MaxURLLength :: int where
  "MaxURLLength = 2048"

definition BlockedDomains :: "string list" where
  "BlockedDomains = [''malware.com'', ''phishing.com'']"

section \<open>The validator (package validator)\<close>

record URLValidator =
  maxURLLength :: int
  blockedDomains :: "string list"

definition NewURLValidator :: URLValidator where
  "NewURLValidator = \<lparr>maxURLLength = MaxURLLength, blockedDomains = BlockedDomains\<rparr>"

text \<open>\<^verbatim>\<open>slices.Contains\<close> is membership by \<open>==\<close>, here equality of strings.\<close>

definition isDomainBlocked :: "platform \<Rightarrow> URLValidator \<Rightarrow> string \<Rightarrow> bool" where
  "isDomainBlocked P v domain =
     (let domain = strings_ToLower (unicode_ToLower P) domain
      in domain \<in> set (blockedDomains v))"

definition ValidateURL :: "platform \<Rightarrow> URLValidator \<Rightarrow> string \<Rightarrow> go_error option" where
  "ValidateURL P v rawURL =
     (if int (length rawURL) > maxURLLength v then
        Some (SvcError (NewValidationError ''validator.ValidateURL'' ''URL too long'' None))
      else
        (case url_Parse P rawURL of
           Inl err \<Rightarrow>
             Some (SvcError (NewValidationError ''validator.ValidateURL''
               ''invalid URL format'' (Some err)))
         | Inr parsed \<Rightarrow>
             if Scheme parsed \<noteq> ''http'' \<and> Scheme parsed \<noteq> ''https'' then
               Some (SvcError (NewValidationError ''validator.ValidateURL''
                 ''only HTTP and HTTPS URLs are allowed'' None))
             else if isDomainBlocked P v (Host parsed) then
               Some (SvcError (NewValidationError ''validator.ValidateURL''
                 ''domain is blocked'' None))
             else None))"

definition isAlphaNumeric :: "rune \<Rightarrow> bool" where
  "isAlphaNumeric char \<longleftrightarrow>
     (char \<ge> of_char (CHR ''a'') \<and> char \<le> of_char (CHR ''z''))
     \<or> (char \<ge> of_char (CHR ''A'') \<and> char \<le> of_char (CHR ''Z''))
     \<or> (char \<ge> of_char (CHR ''0'') \<and> char \<le> of_char (CHR ''9''))"

text \<open>The loop \<^verbatim>\<open>for _, char := range code\<close> of \<^verbatim>\<open>ValidateShortCode\<close>, over the runes.\<close>

fun ValidateShortCode_loop :: "rune list \<Rightarrow> go_error option" where
  "ValidateShortCode_loop [] = None"
| "ValidateShortCode_loop (char # rest) =
     (if \<not> isAlphaNumeric char then
        Some (SvcError (NewValidationError ''validator.ValidateShortCode''
          ''short code can only contain alphanumeric characters'' None))
      else ValidateShortCode_loop rest)"

definition ValidateShortCode :: "URLValidator \<Rightarrow> string \<Rightarrow> go_error option" where
  "ValidateShortCode v code =
     (if length code < 4 \<or> length code > 20 then
        Some (SvcError (NewValidationError ''validator.ValidateShortCode''
          ''short code must be between 4 and 20 characters'' None))
      else ValidateShortCode_loop (runes code))"

section \<open>Records (internal/models/url.go, package dto)\<close>

record ShortURL =
  ID :: string
  URL :: string
  ShortCode :: string
  AccessCount :: "64 word"
  Created :: Time
  Updated :: Time

record CreateURLRequest =
  req_URL :: string
  req_CustomCode :: "string option"

record UpdateURLRequest =
  upd_URL :: string

record CreateURLResponse =
  created_ID :: string
  created_URL :: string
  created_ShortCode :: string
  created_CreatedAt :: Time
  created_UpdatedAt :: Time

record GetURLResponse =
  got_ID :: string
  got_URL :: string
  got_ShortCode :: string
  got_AccessCount :: "64 word"
  got_CreatedAt :: Time
  got_UpdatedAt :: Time

record UpdateURLResponse =
  updated_ID :: string
  updated_URL :: string
  updated_ShortCode :: string
  updated_AccessCount :: "64 word"
  updated_CreatedAt :: Time
  updated_UpdatedAt :: Time

record GetStatsResponse =
  stats_ID :: string
  stats_URL :: string
  stats_ShortCode :: string
  stats_AccessCount :: "64 word"
  stats_CreatedAt :: Time
  stats_UpdatedAt :: Time

section \<open>The repository (internal/repository/url_repository.go)\<close>

text \<open>
  The interface \<^verbatim>\<open>URLRepository\<close>: the service holds a value of it and knows nothing of the
  implementation. \<open>'s\<close> is the state of the store behind it. A method that returns
  \<^verbatim>\<open>(*ShortURL, error)\<close> gives an error or a pointer, \<open>None\<close> for nil; \<open>Create\<close> gives an
  error or the struct its argument points to after the call.
\<close>

record 's URLRepository =
  Create :: "ShortURL \<Rightarrow> 's \<Rightarrow> (go_error + ShortURL) \<times> 's"
  GetByShortCode :: "string \<Rightarrow> 's \<Rightarrow> (go_error + ShortURL option) \<times> 's"
  Update :: "string \<Rightarrow> string \<Rightarrow> 's \<Rightarrow> (go_error + ShortURL option) \<times> 's"
  Delete :: "string \<Rightarrow> 's \<Rightarrow> go_error option \<times> 's"
  IncrementAccessCount :: "string \<Rightarrow> 's \<Rightarrow> go_error option \<times> 's"
  ExistsByShortCode :: "string \<Rightarrow> 's \<Rightarrow> (go_error + bool) \<times> 's"

text \<open>
  The implementation over PocketBase. The HTTP exchange of \<^verbatim>\<open>GetByShortCode\<close> (build the
  request, send it, read the status, decode the JSON body) is what \<open>pb_lookup\<close> gives for
  a short code in a state of the server: the request could not be built, it could not be
  sent, or a response came with a status and a body that decodes to a list of records or
  fails to decode.
\<close>

record pocketBaseRecord =
  pb_ID :: string
  pb_Created :: string
  pb_Updated :: string
  pb_URL :: string
  pb_ShortCode :: string
  pb_AccessCount :: "64 word"

datatype lookup_exchange =
    NewRequestFailed go_error
  | DoFailed go_error
  | Response int "go_error + pocketBaseRecord list"

record 's PBClient =
  pb_lookup :: "string \<Rightarrow> 's \<Rightarrow> lookup_exchange"

definition http_StatusOK :: int where
  "http_StatusOK = 200"

text \<open>\<^verbatim>\<open>strings.Replace(s, old, new, 1)\<close>: the first \<open>old\<close> of \<open>s\<close> replaced.\<close>

definition strings_Replace_first :: "string \<Rightarrow> string \<Rightarrow> string \<Rightarrow> string" where
  "strings_Replace_first s old new =
     (case strings_Index s old of
        Some i \<Rightarrow> take i s @ new @ drop (i + length old) s
      | None \<Rightarrow> s)"

definition parsePBTime :: "platform \<Rightarrow> string \<Rightarrow> Time" where
  "parsePBTime P pbTime =
     (if pbTime = '''' then 0
      else
        (let rfc3339Time = strings_Replace_first pbTime [CHR 0x20] ''T''
         in case time_Parse P rfc3339Time of Inl err \<Rightarrow> 0 | Inr t \<Rightarrow> t))"

definition urlRepositoryImpl_GetByShortCode ::
  "platform \<Rightarrow> 's PBClient \<Rightarrow> string \<Rightarrow> 's \<Rightarrow> (go_error + ShortURL option) \<times> 's" where
  "urlRepositoryImpl_GetByShortCode P pb shortCode st =
     (case pb_lookup pb shortCode st of
        NewRequestFailed err \<Rightarrow>
          (Inl (SvcError (NewInternalError ''repository.GetByShortCode''
             ''failed to create request'' (Some err))), st)
      | DoFailed err \<Rightarrow>
          (Inl (SvcError (NewInternalError ''repository.GetByShortCode''
             ''failed to lookup record'' (Some err))), st)
      | Response status body \<Rightarrow>
          if status \<noteq> http_StatusOK then
            (Inl (SvcError (NewNotFoundError ''repository.GetByShortCode''
               ''short URL not found'')), st)
          else
            (case body of
               Inl err \<Rightarrow>
                 (Inl (SvcError (NewInternalError ''repository.GetByShortCode''
                    ''failed to decode response'' (Some err))), st)
             | Inr items \<Rightarrow>
                 if length items = 0 then
                   (Inl (SvcError (NewNotFoundError ''repository.GetByShortCode''
                      ''short URL not found'')), st)
                 else
                   (let record = items ! 0
                    in (Inr (Some \<lparr>ID = pb_ID record, URL = pb_URL record,
                                    ShortCode = pb_ShortCode record,
                                    AccessCount = pb_AccessCount record,
                                    Created = parsePBTime P (pb_Created record),
                                    Updated = parsePBTime P (pb_Updated record)\<rparr>), st))))"

definition urlRepositoryImpl_ExistsByShortCode ::
  "platform \<Rightarrow> 's PBClient \<Rightarrow> string \<Rightarrow> 's \<Rightarrow> (go_error + bool) \<times> 's" where
  "urlRepositoryImpl_ExistsByShortCode P pb shortCode st =
     (case urlRepositoryImpl_GetByShortCode P pb shortCode st of
        (Inl err, st') \<Rightarrow>
          (case errors_As err of
             Some serviceErr \<Rightarrow>
               if Code serviceErr = ErrorCodeNotFound then (Inr False, st')
               else (Inl err, st')
           | None \<Rightarrow> (Inl err, st'))
      | (Inr shortURL, st') \<Rightarrow> (Inr (shortURL \<noteq> None), st'))"

section \<open>The service (internal/services/url_service.go)\<close>

text \<open>
  The state a call of the service runs in: the state of the store, the number of draws
  taken from the random source, and \<open>calls\<close>, the list of the calls the service has made
  to its repository, in order. \<open>calls\<close> is no variable of the program: it is kept so
  that "is never called" and "is called once" can be said.
\<close>

datatype repo_call =
    CallCreate ShortURL
  | CallGetByShortCode string
  | CallUpdate string string
  | CallDelete string
  | CallIncrementAccessCount string
  | CallExistsByShortCode string

text \<open>The records handed to \<open>Create\<close> among a list of calls.\<close>

fun create_calls :: "repo_call list \<Rightarrow> ShortURL list" where
  "create_calls [] = []"
| "create_calls (CallCreate u # cs) = u # create_calls cs"
| "create_calls (c # cs) = create_calls cs"

record 's world =
  store :: 's
  rand_pos :: nat
  calls :: "repo_call list"

record 's urlServiceImpl =
  repo :: "'s URLRepository"
  validator :: URLValidator

definition NewURLService :: "'s URLRepository \<Rightarrow> 's urlServiceImpl" where
  "NewURLService r = \<lparr>repo = r, validator = NewURLValidator\<rparr>"

text \<open>A call \<^verbatim>\<open>s.repo.M(ctx, ...)\<close>: the method runs on the store and the call is recorded.\<close>

definition repo_Create ::
  "'s urlServiceImpl \<Rightarrow> ShortURL \<Rightarrow> 's world \<Rightarrow> (go_error + ShortURL) \<times> 's world" where
  "repo_Create S shortURL w =
     (case Create (repo S) shortURL (store w) of
        (res, st) \<Rightarrow> (res, w\<lparr>store := st, calls := calls w @ [CallCreate shortURL]\<rparr>))"

definition repo_GetByShortCode ::
  "'s urlServiceImpl \<Rightarrow> string \<Rightarrow> 's world \<Rightarrow> (go_error + ShortURL option) \<times> 's world" where
  "repo_GetByShortCode S shortCode w =
     (case GetByShortCode (repo S) shortCode (store w) of
        (res, st) \<Rightarrow> (res, w\<lparr>store := st, calls := calls w @ [CallGetByShortCode shortCode]\<rparr>))"

definition repo_Update ::
  "'s urlServiceImpl \<Rightarrow> string \<Rightarrow> string \<Rightarrow> 's world
     \<Rightarrow> (go_error + ShortURL option) \<times> 's world" where
  "repo_Update S shortCode url w =
     (case Update (repo S) shortCode url (store w) of
        (res, st) \<Rightarrow> (res, w\<lparr>store := st, calls := calls w @ [CallUpdate shortCode url]\<rparr>))"

definition repo_Delete ::
  "'s urlServiceImpl \<Rightarrow> string \<Rightarrow> 's world \<Rightarrow> go_error option \<times> 's world" where
  "repo_Delete S shortCode w =
     (case Delete (repo S) shortCode (store w) of
        (res, st) \<Rightarrow> (res, w\<lparr>store := st, calls := calls w @ [CallDelete shortCode]\<rparr>))"

definition repo_IncrementAccessCount ::
  "'s urlServiceImpl \<Rightarrow> string \<Rightarrow> 's world \<Rightarrow> go_error option \<times> 's world" where
  "repo_IncrementAccessCount S shortCode w =
     (case IncrementAccessCount (repo S) shortCode (store w) of
        (res, st) \<Rightarrow>
          (res, w\<lparr>store := st, calls := calls w @ [CallIncrementAccessCount shortCode]\<rparr>))"

definition repo_ExistsByShortCode ::
  "'s urlServiceImpl \<Rightarrow> string \<Rightarrow> 's world \<Rightarrow> (go_error + bool) \<times> 's world" where
  "repo_ExistsByShortCode S shortCode w =
     (case ExistsByShortCode (repo S) shortCode (store w) of
        (res, st) \<Rightarrow>
          (res, w\<lparr>store := st, calls := calls w @ [CallExistsByShortCode shortCode]\<rparr>))"

text \<open>\<^verbatim>\<open>utils.GenerateShortCode(6)\<close> as the service calls it, on the state of the service.\<close>

definition utils_GenerateShortCode ::
  "platform \<Rightarrow> int \<Rightarrow> 's world \<Rightarrow> string outcome \<times> 's world" where
  "utils_GenerateShortCode P len w =
     (case GenerateShortCode (rand_Reader P) len (rand_pos w) of
        (res, p) \<Rightarrow> (res, w\<lparr>rand_pos := p\<rparr>))"

text \<open>The loop \<^verbatim>\<open>for i := 0; i < 10; i++\<close> of \<^verbatim>\<open>generateUniqueShortCode\<close>, from \<open>i\<close> on.\<close>

function generateUniqueShortCode_loop ::
  "platform \<Rightarrow> 's urlServiceImpl \<Rightarrow> nat \<Rightarrow> 's world \<Rightarrow> string outcome \<times> 's world" where
  "generateUniqueShortCode_loop P S i w =
     (if i < 10 then
        (case utils_GenerateShortCode P 6 w of
           (Error err, w1) \<Rightarrow>
             (Error (SvcError (NewInternalError ''service.generateUniqueShortCode''
                ''failed to generate short code'' (Some err))), w1)
         | (Panic msg, w1) \<Rightarrow> (Panic msg, w1)
         | (Return code, w1) \<Rightarrow>
             (case repo_ExistsByShortCode S code w1 of
                (Inl err, w2) \<Rightarrow> (Error err, w2)
              | (Inr exists, w2) \<Rightarrow>
                  if \<not> exists then (Return code, w2)
                  else generateUniqueShortCode_loop P S (Suc i) w2))
      else
        (Error (SvcError (NewInternalError ''service.generateUniqueShortCode''
           ''failed to generate unique code after 10 attempts'' None)), w))"
  by pat_completeness auto
termination
  by (relation "measure (\<lambda>(P, S, i, w). 10 - i)") auto

declare generateUniqueShortCode_loop.simps [simp del]

definition generateUniqueShortCode ::
  "platform \<Rightarrow> 's urlServiceImpl \<Rightarrow> 's world \<Rightarrow> string outcome \<times> 's world" where
  "generateUniqueShortCode P S w = generateUniqueShortCode_loop P S 0 w"

text \<open>
  Lines 39 to 59 of \<^verbatim>\<open>CreateShortURL\<close>, the \<^verbatim>\<open>if req.CustomCode != nil ... else ...\<close> that
  either returns from \<^verbatim>\<open>CreateShortURL\<close> with an error or sets \<open>shortCode\<close>. The source has
  no function of its own for this block; the specification calls it \<open>resolveCode\<close>.
\<close>

definition resolveCode ::
  "platform \<Rightarrow> 's urlServiceImpl \<Rightarrow> string option \<Rightarrow> 's world \<Rightarrow> string outcome \<times> 's world" where
  "resolveCode P S CustomCode w =
     (case CustomCode of
        Some customCode \<Rightarrow>
          (case ValidateShortCode (validator S) customCode of
             Some err \<Rightarrow> (Error err, w)
           | None \<Rightarrow>
               (case repo_ExistsByShortCode S customCode w of
                  (Inl err, w1) \<Rightarrow>
                    (Error (SvcError (NewInternalError ''service.CreateShortURL''
                       ''failed to check code existence'' (Some err))), w1)
                | (Inr exists, w1) \<Rightarrow>
                    if exists then
                      (Error (SvcError (NewDuplicateError ''service.CreateShortURL''
                         ''short code already exists'')), w1)
                    else (Return customCode, w1)))
      | None \<Rightarrow>
          (case generateUniqueShortCode P S w of
             (Error err, w1) \<Rightarrow>
               (Error (SvcError (NewInternalError ''service.CreateShortURL''
                  ''failed to generate short code'' (Some err))), w1)
           | (Panic msg, w1) \<Rightarrow> (Panic msg, w1)
           | (Return code, w1) \<Rightarrow> (Return code, w1)))"

text \<open>
  \<^verbatim>\<open>CreateShortURL\<close>: validate the URL, run the block above, then build the record, hand
  it to the repository and copy the stored record into the response.
\<close>

definition CreateShortURL ::
  "platform \<Rightarrow> 's urlServiceImpl \<Rightarrow> CreateURLRequest \<Rightarrow> 's world
     \<Rightarrow> CreateURLResponse outcome \<times> 's world" where
  "CreateShortURL P S req w =
     (case ValidateURL P (validator S) (req_URL req) of
        Some err \<Rightarrow> (Error err, w)
      | None \<Rightarrow>
          (case resolveCode P S (req_CustomCode req) w of
             (Error err, w1) \<Rightarrow> (Error err, w1)
           | (Panic msg, w1) \<Rightarrow> (Panic msg, w1)
           | (Return shortCode, w1) \<Rightarrow>
               (let shortURL = \<lparr>ID = '''', URL = req_URL req, ShortCode = shortCode,
                                AccessCount = 0, Created = 0, Updated = 0\<rparr>
                in case repo_Create S shortURL w1 of
                     (Inl err, w2) \<Rightarrow> (Error err, w2)
                   | (Inr shortURL', w2) \<Rightarrow>
                       (Return \<lparr>created_ID = ID shortURL', created_URL = URL shortURL',
                                created_ShortCode = ShortCode shortURL',
                                created_CreatedAt = Created shortURL',
                                created_UpdatedAt = Updated shortURL'\<rparr>, w2))))"

text \<open>A nil \<^verbatim>\<open>*ShortURL\<close> returned with a nil error would be dereferenced: a panic.\<close>

definition nil_dereference :: string where
  "nil_dereference = ''invalid memory address or nil pointer dereference''"

definition GetOriginalURL ::
  "'s urlServiceImpl \<Rightarrow> string \<Rightarrow> 's world \<Rightarrow> GetURLResponse outcome \<times> 's world" where
  "GetOriginalURL S shortCode w =
     (case repo_GetByShortCode S shortCode w of
        (Inl err, w1) \<Rightarrow> (Error err, w1)
      | (Inr shortURL, w1) \<Rightarrow>
          (case repo_IncrementAccessCount S shortCode w1 of
             (Some err, w2) \<Rightarrow>
               (Error (SvcError (NewInternalError ''service.GetOriginalURL''
                  ''failed to increment access count'' (Some err))), w2)
           | (None, w2) \<Rightarrow>
               (case shortURL of
                  None \<Rightarrow> (Panic nil_dereference, w2)
                | Some u \<Rightarrow>
                    (Return \<lparr>got_ID = ID u, got_URL = URL u, got_ShortCode = ShortCode u,
                             got_AccessCount = 0, got_CreatedAt = Created u,
                             got_UpdatedAt = Updated u\<rparr>, w2))))"

definition UpdateShortURL ::
  "platform \<Rightarrow> 's urlServiceImpl \<Rightarrow> string \<Rightarrow> UpdateURLRequest \<Rightarrow> 's world
     \<Rightarrow> UpdateURLResponse outcome \<times> 's world" where
  "UpdateShortURL P S shortCode req w =
     (case ValidateURL P (validator S) (upd_URL req) of
        Some err \<Rightarrow> (Error err, w)
      | None \<Rightarrow>
          (case repo_Update S shortCode (upd_URL req) w of
             (Inl err, w1) \<Rightarrow> (Error err, w1)
           | (Inr updatedURL, w1) \<Rightarrow>
               (case updatedURL of
                  None \<Rightarrow> (Panic nil_dereference, w1)
                | Some u \<Rightarrow>
                    (Return \<lparr>updated_ID = ID u, updated_URL = URL u,
                             updated_ShortCode = ShortCode u,
                             updated_AccessCount = AccessCount u,
                             updated_CreatedAt = Created u,
                             updated_UpdatedAt = Updated u\<rparr>, w1))))"

definition DeleteShortURL ::
  "'s urlServiceImpl \<Rightarrow> string \<Rightarrow> 's world \<Rightarrow> go_error option \<times> 's world" where
  "DeleteShortURL S shortCode w = repo_Delete S shortCode w"

definition GetStatistics ::
  "'s urlServiceImpl \<Rightarrow> string \<Rightarrow> 's world \<Rightarrow> GetStatsResponse outcome \<times> 's world" where
  "GetStatistics S shortCode w =
     (case repo_GetByShortCode S shortCode w of
        (Inl err, w1) \<Rightarrow> (Error err, w1)
      | (Inr shortURL, w1) \<Rightarrow>
          (case shortURL of
             None \<Rightarrow> (Panic nil_dereference, w1)
           | Some u \<Rightarrow>
               (Return \<lparr>stats_ID = ID u, stats_URL = URL u, stats_ShortCode = ShortCode u,
                        stats_AccessCount = AccessCount u, stats_CreatedAt = Created u,
                        stats_UpdatedAt = Updated u\<rparr>, w1)))"

section \<open>Stores and platforms for the examples\<close>

text \<open>
  The service is given its repository and its platform from outside. The statements at
  explicit inputs below need explicit ones: stand-ins for PocketBase of the kind a test
  would use. They are inputs of the program, not parts of it.

  \<open>go_platform\<close> parses with \<open>net_url_Parse\<close>; its random source gives the numbers
  \<open>0, 1, 2, ...\<close>, its Unicode lower-casing and its time parser are never reached by the
  examples (their hosts are ASCII, their timestamps empty).
\<close>

definition go_platform :: platform where
  "go_platform = \<lparr>url_Parse = net_url_Parse, unicode_ToLower = (\<lambda>s. s),
                   rand_Reader = (\<lambda>k. Inr k),
                   time_Parse = (\<lambda>s. Inl (LibError ''parsing time''))\<rparr>"

text \<open>The same platform with a random source that is unavailable.\<close>

definition go_platform_no_entropy :: platform where
  "go_platform_no_entropy = go_platform\<lparr>rand_Reader := (\<lambda>k. Inl (LibError ''EOF''))\<rparr>"

text \<open>
  \<open>mem_PBClient\<close> answers a lookup from a list of records; \<open>down_PBClient\<close> cannot be
  reached; \<open>full_PBClient\<close> has a record for every code.
\<close>

definition mem_PBClient :: "(pocketBaseRecord list) PBClient" where
  "mem_PBClient =
     \<lparr>pb_lookup = (\<lambda>code st. Response 200 (Inr (filter (\<lambda>r. pb_ShortCode r = code) st)))\<rparr>"

definition down_PBClient :: "(pocketBaseRecord list) PBClient" where
  "down_PBClient = \<lparr>pb_lookup = (\<lambda>code st. DoFailed (LibError ''connection refused''))\<rparr>"

definition full_PBClient :: "(pocketBaseRecord list) PBClient" where
  "full_PBClient =
     \<lparr>pb_lookup = (\<lambda>code st. Response 200 (Inr [\<lparr>pb_ID = ''x'', pb_Created = '''',
         pb_Updated = '''', pb_URL = ''https://example.com/taken'', pb_ShortCode = code,
         pb_AccessCount = 0\<rparr>]))\<rparr>"

text \<open>
  A repository over such a client: lookups and existence checks are the implementation's
  (\<open>urlRepositoryImpl_GetByShortCode\<close>, \<open>urlRepositoryImpl_ExistsByShortCode\<close>); the
  writes act on the list.
\<close>

definition example_repo ::
  "platform \<Rightarrow> (pocketBaseRecord list) PBClient \<Rightarrow> (pocketBaseRecord list) URLRepository" where
  "example_repo P pb =
     \<lparr>Create = (\<lambda>u st.
         if list_ex (\<lambda>r. pb_ShortCode r = ShortCode u) st then
           (Inl (SvcError (NewDuplicateError ''repository.Create''
              ''short code already exists'')), st)
         else
           (Inr (u\<lparr>ID := ''id-'' @ ShortCode u\<rparr>),
            st @ [\<lparr>pb_ID = ''id-'' @ ShortCode u, pb_Created = '''', pb_Updated = '''',
                   pb_URL = URL u, pb_ShortCode = ShortCode u, pb_AccessCount = 0\<rparr>])),
      GetByShortCode = urlRepositoryImpl_GetByShortCode P pb,
      Update = (\<lambda>code url st.
         case urlRepositoryImpl_GetByShortCode P pb code st of
           (Inl err, st') \<Rightarrow> (Inl err, st')
         | (Inr None, st') \<Rightarrow> (Inr None, st')
         | (Inr (Some u), st') \<Rightarrow>
             (Inr (Some (u\<lparr>URL := url\<rparr>)),
              map (\<lambda>r. if pb_ShortCode r = code then r\<lparr>pb_URL := url\<rparr> else r) st')),
      Delete = (\<lambda>code st.
         case urlRepositoryImpl_GetByShortCode P pb code st of
           (Inl err, st') \<Rightarrow> (Some err, st')
         | (Inr _, st') \<Rightarrow> (None, filter (\<lambda>r. pb_ShortCode r \<noteq> code) st')),
      IncrementAccessCount = (\<lambda>code st.
         case urlRepositoryImpl_GetByShortCode P pb code st of
           (Inl err, st') \<Rightarrow> (Some err, st')
         | (Inr _, st') \<Rightarrow>
             (None, map (\<lambda>r. if pb_ShortCode r = code
                              then r\<lparr>pb_AccessCount := pb_AccessCount r + 1\<rparr> else r) st')),
      ExistsByShortCode = urlRepositoryImpl_ExistsByShortCode P pb\<rparr>"

definition example_service ::
  "(pocketBaseRecord list) PBClient \<Rightarrow> (pocketBaseRecord list) urlServiceImpl" where
  "example_service pb = NewURLService (example_repo go_platform pb)"

definition golang_record :: pocketBaseRecord where
  "golang_record = \<lparr>pb_ID = ''id-golang'', pb_Created = '''', pb_Updated = '''',
     pb_URL = ''https://go.dev/'', pb_ShortCode = ''golang'', pb_AccessCount = 0\<rparr>"

definition world0 :: "pocketBaseRecord list \<Rightarrow> (pocketBaseRecord list) world" where
  "world0 st = \<lparr>store = st, rand_pos = 0, calls = []\<rparr>"

text \<open>
  A record whose code has two characters: \<^verbatim>\<open>ValidateShortCode\<close> would reject the code, but
  records reach PocketBase by other ways than \<^verbatim>\<open>CreateShortURL\<close> too.
\<close>

definition ab_record :: pocketBaseRecord where
  "ab_record = \<lparr>pb_ID = ''id-ab'', pb_Created = '''', pb_Updated = '''',
     pb_URL = ''https://example.com/ab'', pb_ShortCode = ''ab'', pb_AccessCount = 7\<rparr>"

section \<open>Properties of the code generator\<close>

lemma rand_ok_Suc: "rand_ok rd p (Suc n) \<longleftrightarrow> \<not> isl (rd p) \<and> rand_ok rd (Suc p) n"
  by (simp add: rand_ok_def upt_conv_Cons del: upt_Suc)

lemma base62Chars_length: "length base62Chars = 62"
  by (simp add: base62Chars_def)

text \<open>
  The loop from index \<open>i\<close> on: with \<open>length result - i\<close> good draws ahead it returns a
  string as long as \<open>result\<close>, takes exactly that many draws, and keeps the bytes in the
  alphabet if those before \<open>i\<close> were.
\<close>

lemma GenerateShortCode_loop_ok:
  "rand_ok rd p (length result - i) \<Longrightarrow> i \<le> length result \<Longrightarrow>
   set (take i result) \<subseteq> set base62Chars \<Longrightarrow>
   \<exists>s. GenerateShortCode_loop rd i result p = (Return s, p + (length result - i))
       \<and> length s = length result \<and> set s \<subseteq> set base62Chars"
proof (induction rd i result p rule: GenerateShortCode_loop.induct)
  case (1 rd i result p)
  show ?case
  proof (cases "i < length result")
    case False
    with "1.prems" show ?thesis
      by (subst GenerateShortCode_loop.simps) simp
  next
    case True
    then obtain k where k: "length result - i = Suc k" by (cases "length result - i") auto
    with "1.prems"(1) have ok: "\<not> isl (rd p)" and rest: "rand_ok rd (Suc p) k"
      by (simp_all add: rand_ok_Suc)
    from ok obtain n where n: "rd p = Inr n" by (cases "rd p") auto
    let ?c = "base62Chars ! (n mod 62)"
    have c: "?c \<in> set base62Chars" by (simp add: base62Chars_length)
    have ri: "rand_Int rd (length base62Chars) p = (Inr (n mod 62), Suc p)"
      by (simp add: rand_Int_def n base62Chars_length)
    have tk: "take (Suc i) (result[i := ?c]) = take i result @ [?c]"
      using True by (simp add: take_Suc_conv_app_nth)
    have "\<exists>s. GenerateShortCode_loop rd (Suc i) (result[i := ?c]) (Suc p)
            = (Return s, Suc p + (length (result[i := ?c]) - Suc i))
          \<and> length s = length (result[i := ?c]) \<and> set s \<subseteq> set base62Chars"
    proof (rule "1.IH"[OF True ri[symmetric] refl])
      have "length result - Suc i = k" using k by arith
      then show "rand_ok rd (Suc p) (length (result[i := ?c]) - Suc i)" using rest by simp
      show "Suc i \<le> length (result[i := ?c])" using True by simp
      show "set (take (Suc i) (result[i := ?c])) \<subseteq> set base62Chars"
        using "1.prems"(3) c by (simp only: tk) simp
    qed
    then obtain s where s:
      "GenerateShortCode_loop rd (Suc i) (result[i := ?c]) (Suc p)
         = (Return s, Suc p + (length (result[i := ?c]) - Suc i))"
      "length s = length (result[i := ?c])" "set s \<subseteq> set base62Chars"
      by blast
    have ar: "Suc p + (length (result[i := ?c]) - Suc i) = p + (length result - i)"
      using True by simp
    have "GenerateShortCode_loop rd i result p = (Return s, p + (length result - i))"
      by (subst GenerateShortCode_loop.simps)
         (simp only: True if_True ri prod.case sum.case s(1) ar)
    with s(2,3) show ?thesis by simp
  qed
qed

lemma GenerateShortCode_returns:
  assumes "0 \<le> L" and "L \<le> maxAlloc" and "rand_ok rd p (nat L)"
  shows "\<exists>s. GenerateShortCode rd L p = (Return s, p + nat L)
            \<and> length s = nat L \<and> set s \<subseteq> set base62Chars"
  using assms GenerateShortCode_loop_ok[of rd p "replicate (nat L) (CHR 0x00)" 0]
  by (simp add: GenerateShortCode_def)

lemma six_le_maxAlloc: "6 \<le> maxAlloc"
  by (simp add: maxAlloc_def)

text \<open>
  C4 as the specification states it, for every non-negative length, does not hold: the
  length \<open>2 ^ 62\<close> is a non-negative \<^verbatim>\<open>int\<close> and every draw of the source \<open>\<lambda>k. Inr k\<close>
  succeeds, but \<^verbatim>\<open>make([]byte, 1 << 62)\<close> panics, so \<open>GenerateShortCode\<close> returns no string.
\<close>

theorem GenerateShortCode_huge_length_counterexample:
  "(0::int) \<le> 2 ^ 62
   \<and> rand_ok (\<lambda>k. Inr k) 0 (nat (2 ^ 62))
   \<and> GenerateShortCode (\<lambda>k. Inr k) (2 ^ 62) 0 = (Panic ''makeslice: len out of range'', 0)"
  by (simp add: GenerateShortCode_def maxAlloc_def rand_ok_def list_all_iff)

text \<open>
  C4, amended. For every length \<open>L\<close> with \<open>0 \<le> L \<le> maxAlloc\<close>, when the \<open>L\<close> draws that
  \<open>GenerateShortCode\<close> takes from the secure random source all succeed, it returns, without
  error, a string of exactly \<open>L\<close> bytes, each of them one of the 62 characters of
  \<open>base62Chars\<close> (\<open>0-9a-zA-Z\<close>), and it has taken exactly \<open>L\<close> draws. For \<open>L = 0\<close> it returns
  the empty string whatever the random source is. For a length above \<open>maxAlloc\<close>, as for a
  negative one, it returns nothing: \<^verbatim>\<open>make\<close> panics before any draw is taken.
\<close>

theorem GenerateShortCode_length_alphabet:
  "(0 \<le> L \<and> L \<le> maxAlloc \<and> rand_ok rd p (nat L) \<longrightarrow>
      (\<exists>s. GenerateShortCode rd L p = (Return s, p + nat L)
          \<and> length s = nat L \<and> set s \<subseteq> set base62Chars))
   \<and> GenerateShortCode rd 0 p = (Return '''', p)
   \<and> (L < 0 \<or> maxAlloc < L \<longrightarrow>
        GenerateShortCode rd L p = (Panic ''makeslice: len out of range'', p))"
proof (intro conjI)
  show "0 \<le> L \<and> L \<le> maxAlloc \<and> rand_ok rd p (nat L) \<longrightarrow>
      (\<exists>s. GenerateShortCode rd L p = (Return s, p + nat L)
          \<and> length s = nat L \<and> set s \<subseteq> set base62Chars)"
    using GenerateShortCode_returns[of L rd p] by blast
  show "GenerateShortCode rd 0 p = (Return '''', p)"
    by (simp add: GenerateShortCode_def maxAlloc_def GenerateShortCode_loop.simps)
  show "L < 0 \<or> maxAlloc < L \<longrightarrow>
        GenerateShortCode rd L p = (Panic ''makeslice: len out of range'', p)"
    by (simp add: GenerateShortCode_def)
qed

text \<open>
  The theorem at \<open>L = 6\<close> with the source that gives \<open>3, 14, 25, ...\<close>: the length is within
  the limit, the six draws succeed, and the code is the one the loop computes.
\<close>

theorem GenerateShortCode_length_alphabet_witness:
  "(0::int) \<le> 6 \<and> 6 \<le> maxAlloc
   \<and> rand_ok (\<lambda>k. Inr (11 * k + 3)) 0 (nat 6)
   \<and> GenerateShortCode (\<lambda>k. Inr (11 * k + 3)) 6 0 = (Return ''3epALW'', 6)
   \<and> length ''3epALW'' = nat 6 \<and> set ''3epALW'' \<subseteq> set base62Chars"
proof -
  have h: "(0::int) \<le> 6 \<and> 6 \<le> maxAlloc \<and> rand_ok (\<lambda>k. Inr (11 * k + 3)) 0 (nat 6)"
    by (simp add: rand_ok_def list_all_iff maxAlloc_def)
  have e: "GenerateShortCode (\<lambda>k. Inr (11 * k + 3)) 6 0 = (Return ''3epALW'', 6)"
    by code_simp
  from GenerateShortCode_length_alphabet[of 6 "\<lambda>k. Inr (11 * k + 3)" 0] h
  obtain s where "GenerateShortCode (\<lambda>k. Inr (11 * k + 3)) 6 0 = (Return s, 0 + nat 6)"
    "length s = nat 6" "set s \<subseteq> set base62Chars" by blast
  with e h show ?thesis by simp
qed

section \<open>Properties of the validator: short codes\<close>

lemma of_char_int_bounds: "0 \<le> (of_char c :: int)" "(of_char c :: int) < 256"
proof -
  have "(of_char c :: int) = int (of_char c)" by (simp add: of_nat_of_char)
  moreover have "(of_char c :: nat) < 256" by simp
  ultimately show "0 \<le> (of_char c :: int)" "(of_char c :: int) < 256" by simp_all
qed

text \<open>A byte is alphanumeric for \<open>isAlphaNumeric\<close> exactly when it is in the generator's alphabet.\<close>

lemma isAlphaNumeric_of_char: "isAlphaNumeric (of_char c) \<longleftrightarrow> c \<in> set base62Chars"
proof -
  have eq: "\<And>d. (c = d) = ((of_char c :: int) = of_char d)" by auto
  define n where "n = (of_char c :: int)"
  show ?thesis
    unfolding isAlphaNumeric_def base62Chars_def
    apply (simp add: eq)
    unfolding n_def[symmetric]
    by presburger
qed

lemma isAlphaNumeric_high: "0x80 \<le> r \<Longrightarrow> \<not> isAlphaNumeric r"
  by (simp add: isAlphaNumeric_def)

text \<open>The runes of two, three and four bytes are at least \<open>0x80\<close>.\<close>

lemma rune2:
  "194 \<le> a \<Longrightarrow> a < 224 \<Longrightarrow> 0 \<le> b \<Longrightarrow> (128::int) \<le> a mod 32 * 64 + b mod 64"
proof -
  assume "194 \<le> a" "a < 224" "0 \<le> b"
  then have "2 \<le> a mod 32" by presburger
  moreover have "0 \<le> b mod 64" by simp
  ultimately show ?thesis by linarith
qed

lemma rune3:
  "224 \<le> a \<Longrightarrow> a < 240 \<Longrightarrow> a \<noteq> 224 \<or> 160 \<le> b \<Longrightarrow> 128 \<le> b \<Longrightarrow> b \<le> 191 \<Longrightarrow> 0 \<le> c \<Longrightarrow>
   (128::int) \<le> a mod 16 * 4096 + b mod 64 * 64 + c mod 64"
proof -
  assume h: "224 \<le> a" "a < 240" "a \<noteq> 224 \<or> 160 \<le> b" "128 \<le> b" "b \<le> 191" "0 \<le> c"
  have nn: "0 \<le> a mod 16" "0 \<le> b mod 64" "0 \<le> c mod 64" by simp_all
  from h have "1 \<le> a mod 16 \<or> 32 \<le> b mod 64" by presburger
  with nn show ?thesis by linarith
qed

lemma rune4:
  "240 \<le> a \<Longrightarrow> a \<le> 244 \<Longrightarrow> a \<noteq> 240 \<or> 144 \<le> b \<Longrightarrow> 128 \<le> b \<Longrightarrow> b \<le> 191 \<Longrightarrow> 0 \<le> c \<Longrightarrow>
   0 \<le> d \<Longrightarrow>
   (128::int) \<le> a mod 8 * 262144 + b mod 64 * 4096 + c mod 64 * 64 + d mod 64"
proof -
  assume h: "240 \<le> a" "a \<le> 244" "a \<noteq> 240 \<or> 144 \<le> b" "128 \<le> b" "b \<le> 191"
    "0 \<le> c" "0 \<le> d"
  have nn: "0 \<le> a mod 8" "0 \<le> b mod 64" "0 \<le> c mod 64" "0 \<le> d mod 64" by simp_all
  from h have "1 \<le> a mod 8 \<or> 16 \<le> b mod 64" by presburger
  with nn show ?thesis by linarith
qed

lemma decodeRune_ascii:
  "(of_char c0 :: int) < 0x80 \<Longrightarrow> decodeRune (c0 # rest) = (of_char c0, 1)"
  by (simp add: decodeRune.simps)

lemma decodeRune_high:
  assumes "\<not> (of_char c0 :: int) < 0x80"
  shows "0x80 \<le> fst (decodeRune (c0 # rest))"
proof -
  define a where "a = (of_char c0 :: int)"
  define b where "b = (of_char (rest ! 0) :: int)"
  define c where "c = (of_char (rest ! Suc 0) :: int)"
  define d where "d = (of_char (rest ! 2) :: int)"
  have nn: "0 \<le> b" "0 \<le> c" "0 \<le> d"
    by (simp_all add: b_def c_def d_def of_char_int_bounds)
  have hi: "128 \<le> a" using assms by (simp add: a_def)
  consider (bad) "a < 0xC2 \<or> 0xF4 < a" | (two) "0xC2 \<le> a" "a < 0xE0"
    | (three) "0xE0 \<le> a" "a < 0xF0" | (four) "0xF0 \<le> a" "a \<le> 0xF4"
    by linarith
  then have "0x80 \<le> fst (decodeRune (c0 # rest))"
  proof cases
    case bad
    with hi show ?thesis
      by (simp add: decodeRune.simps a_def[symmetric] RuneError_def)
  next
    case two
    have "fst (decodeRune (c0 # rest)) = RuneError
        \<or> fst (decodeRune (c0 # rest)) = a mod 32 * 64 + b mod 64"
      using two hi
      by (simp add: decodeRune.simps a_def[symmetric] b_def[symmetric] Let_def)
    then show ?thesis using rune2[OF two nn(1)] by (auto simp: RuneError_def)
  next
    case three
    have "fst (decodeRune (c0 # rest)) = RuneError
        \<or> (fst (decodeRune (c0 # rest)) = a mod 16 * 4096 + b mod 64 * 64 + c mod 64
            \<and> (a \<noteq> 224 \<or> 160 \<le> b) \<and> 128 \<le> b \<and> b \<le> 191)"
      using three hi
      by (simp add: decodeRune.simps a_def[symmetric] b_def[symmetric] c_def[symmetric]
            Let_def)
    then show ?thesis using rune3[OF three _ _ _ nn(2)] by (auto simp: RuneError_def)
  next
    case four
    have "fst (decodeRune (c0 # rest)) = RuneError
        \<or> (fst (decodeRune (c0 # rest))
              = a mod 8 * 262144 + b mod 64 * 4096 + c mod 64 * 64 + d mod 64
            \<and> (a \<noteq> 240 \<or> 144 \<le> b) \<and> 128 \<le> b \<and> b \<le> 191)"
      using four hi
      by (simp add: decodeRune.simps a_def[symmetric] b_def[symmetric] c_def[symmetric]
            d_def[symmetric] Let_def)
    then show ?thesis using rune4[OF four _ _ _ nn(2,3)] by (auto simp: RuneError_def)
  qed
  then show ?thesis .
qed

text \<open>
  The loop over the runes of \<open>s\<close> finds a rune that is not alphanumeric exactly when some
  byte of \<open>s\<close> is outside the alphabet: an ASCII byte is its own rune, and any other byte
  starts a rune of at least \<open>0x80\<close> (or is replaced by \<open>RuneError\<close>).
\<close>

lemma ValidateShortCode_loop_runes:
  "ValidateShortCode_loop (runes s) =
     (if set s \<subseteq> set base62Chars then None
      else Some (SvcError (NewValidationError ''validator.ValidateShortCode''
             ''short code can only contain alphanumeric characters'' None)))"
proof (induction s rule: runes.induct)
  case (1 s)
  show ?case
  proof (cases s)
    case Nil
    then show ?thesis by (simp add: runes.simps)
  next
    case (Cons c0 rest)
    let ?d = "decodeRune (c0 # rest)"
    have r: "runes (c0 # rest) = fst ?d # runes (drop (snd ?d) (c0 # rest))"
      by (subst runes.simps) simp
    show ?thesis
    proof (cases "(of_char c0 :: int) < 0x80")
      case True
      then have d: "?d = (of_char c0, 1)" by (rule decodeRune_ascii)
      have "ValidateShortCode_loop (runes rest) =
         (if set rest \<subseteq> set base62Chars then None
          else Some (SvcError (NewValidationError ''validator.ValidateShortCode''
             ''short code can only contain alphanumeric characters'' None)))"
        using "1.IH" by (simp add: Cons d)
      then show ?thesis
        by (simp add: Cons r d isAlphaNumeric_of_char)
    next
      case False
      then have "0x80 \<le> fst ?d" by (rule decodeRune_high)
      then have n1: "\<not> isAlphaNumeric (fst ?d)" by (rule isAlphaNumeric_high)
      from False have "\<not> isAlphaNumeric (of_char c0)" by (intro isAlphaNumeric_high) simp
      then have n2: "c0 \<notin> set base62Chars" by (simp add: isAlphaNumeric_of_char)
      show ?thesis using n1 n2 by (simp add: Cons r)
    qed
  qed
qed

lemma ValidateShortCode_cases:
  "ValidateShortCode v code =
     (if length code < 4 \<or> 20 < length code then
        Some (SvcError (NewValidationError ''validator.ValidateShortCode''
          ''short code must be between 4 and 20 characters'' None))
      else if \<not> set code \<subseteq> set base62Chars then
        Some (SvcError (NewValidationError ''validator.ValidateShortCode''
          ''short code can only contain alphanumeric characters'' None))
      else None)"
  by (simp add: ValidateShortCode_def ValidateShortCode_loop_runes)

text \<open>
  C8. For every string \<open>code\<close> (and any validator \<open>v\<close>), \<open>ValidateShortCode\<close> fails with
  "short code must be between 4 and 20 characters" if \<open>code\<close> has fewer than 4 or more
  than 20 bytes; otherwise it fails with "short code can only contain alphanumeric
  characters" if some byte of \<open>code\<close> is outside \<open>0-9a-zA-Z\<close> (a character beyond ASCII
  is made of such bytes); otherwise it succeeds. So it rejects \<open>ab\<close>, every 21-byte
  code and \<open>abc-123\<close>, and accepts \<open>abc123\<close> and \<open>A1b2C3\<close>.
\<close>

theorem ValidateShortCode_accepts_iff:
  "ValidateShortCode v code =
     (if length code < 4 \<or> 20 < length code then
        Some (SvcError (NewValidationError ''validator.ValidateShortCode''
          ''short code must be between 4 and 20 characters'' None))
      else if \<not> set code \<subseteq> set base62Chars then
        Some (SvcError (NewValidationError ''validator.ValidateShortCode''
          ''short code can only contain alphanumeric characters'' None))
      else None)
   \<and> ValidateShortCode v ''ab'' =
       Some (SvcError (NewValidationError ''validator.ValidateShortCode''
          ''short code must be between 4 and 20 characters'' None))
   \<and> (length code = 21 \<longrightarrow> ValidateShortCode v code =
       Some (SvcError (NewValidationError ''validator.ValidateShortCode''
          ''short code must be between 4 and 20 characters'' None)))
   \<and> ValidateShortCode v ''abc-123'' =
       Some (SvcError (NewValidationError ''validator.ValidateShortCode''
          ''short code can only contain alphanumeric characters'' None))
   \<and> ValidateShortCode v ''abc123'' = None
   \<and> ValidateShortCode v ''A1b2C3'' = None"
  by (simp add: ValidateShortCode_cases base62Chars_def)

text \<open>The theorem at a code of 21 bytes, and at one of six bytes with a two-byte character.\<close>

theorem ValidateShortCode_accepts_iff_witness:
  "length ''aaaaaaaaaaaaaaaaaaaaa'' = 21
   \<and> ValidateShortCode NewURLValidator ''aaaaaaaaaaaaaaaaaaaaa'' =
       Some (SvcError (NewValidationError ''validator.ValidateShortCode''
          ''short code must be between 4 and 20 characters'' None))
   \<and> ValidateShortCode NewURLValidator [CHR ''c'', CHR ''a'', CHR ''f'', CHR 0xC3, CHR 0xA9, CHR ''s''] =
       Some (SvcError (NewValidationError ''validator.ValidateShortCode''
          ''short code can only contain alphanumeric characters'' None))"
  using ValidateShortCode_accepts_iff[of NewURLValidator "''aaaaaaaaaaaaaaaaaaaaa''"]
    ValidateShortCode_accepts_iff[of NewURLValidator
      "[CHR ''c'', CHR ''a'', CHR ''f'', CHR 0xC3, CHR 0xA9, CHR ''s'']"]
  by (simp add: base62Chars_def)

section \<open>Properties of the validator: URLs\<close>

lemma isDomainBlocked_iff:
  "isDomainBlocked P v domain \<longleftrightarrow>
     strings_ToLower (unicode_ToLower P) domain \<in> set (blockedDomains v)"
  by (simp add: isDomainBlocked_def)

text \<open>The four checks of \<open>ValidateURL\<close> in their order, for any parser.\<close>

lemma ValidateURL_cases:
  "ValidateURL P v rawURL =
     (if maxURLLength v < int (length rawURL) then
        Some (SvcError (NewValidationError ''validator.ValidateURL'' ''URL too long'' None))
      else case url_Parse P rawURL of
        Inl err \<Rightarrow> Some (SvcError (NewValidationError ''validator.ValidateURL''
               ''invalid URL format'' (Some err)))
      | Inr parsed \<Rightarrow>
          if Scheme parsed \<noteq> ''http'' \<and> Scheme parsed \<noteq> ''https'' then
            Some (SvcError (NewValidationError ''validator.ValidateURL''
                 ''only HTTP and HTTPS URLs are allowed'' None))
          else if strings_ToLower (unicode_ToLower P) (Host parsed) \<in> set (blockedDomains v)
          then
            Some (SvcError (NewValidationError ''validator.ValidateURL''
                 ''domain is blocked'' None))
          else None)"
  by (simp add: ValidateURL_def isDomainBlocked_iff split: sum.splits)

text \<open>What \<open>net_url_Parse\<close> makes of the URLs of the examples.\<close>

lemma parse_not_a_url: "net_url_Parse ''not-a-url'' = Inr \<lparr>Scheme = '''', Host = ''''\<rparr>"
  by code_simp

lemma parse_ftp_example:
  "net_url_Parse ''ftp://example.com'' = Inr \<lparr>Scheme = ''ftp'', Host = ''example.com''\<rparr>"
  by code_simp

lemma parse_https_example:
  "net_url_Parse ''https://example.com/path''
     = Inr \<lparr>Scheme = ''https'', Host = ''example.com''\<rparr>"
  by code_simp

lemma parse_https_example_a:
  "net_url_Parse ''https://example.com/a''
     = Inr \<lparr>Scheme = ''https'', Host = ''example.com''\<rparr>"
  by code_simp

lemma parse_malware:
  "net_url_Parse ''http://malware.com/x'' = Inr \<lparr>Scheme = ''http'', Host = ''malware.com''\<rparr>"
  by code_simp

lemma parse_sub_malware:
  "net_url_Parse ''http://sub.malware.com/''
     = Inr \<lparr>Scheme = ''http'', Host = ''sub.malware.com''\<rparr>"
  by code_simp

lemma parse_malware_upper:
  "net_url_Parse ''http://MALWARE.com/x'' = Inr \<lparr>Scheme = ''http'', Host = ''MALWARE.com''\<rparr>"
  by code_simp

lemma parse_malware_upper_port:
  "net_url_Parse ''http://MALWARE.com:80/x''
     = Inr \<lparr>Scheme = ''http'', Host = ''MALWARE.com:80''\<rparr>"
  by code_simp

lemma parse_no_scheme:
  "net_url_Parse ''://example.com'' = Inl (url_Error ''missing protocol scheme'')"
  by code_simp

lemma parse_space_in_host:
  "net_url_Parse ''http://exa mple.com'' = Inl (url_Error ''invalid character in host name'')"
  by code_simp

lemma strings_ToLower_examples:
  "strings_ToLower ul ''example.com'' = ''example.com''"
  "strings_ToLower ul ''malware.com'' = ''malware.com''"
  "strings_ToLower ul ''sub.malware.com'' = ''sub.malware.com''"
  "strings_ToLower ul ''MALWARE.com:80'' = ''malware.com:80''"
  "strings_ToLower ul ''MALWARE.com'' = ''malware.com''"
  by code_simp+

lemmas validator_consts = NewURLValidator_def MaxURLLength_def BlockedDomains_def

text \<open>
  C7. \<open>ValidateURL\<close> rejects every input of more bytes than \<open>maxURLLength\<close> (2048 for the
  validator the service builds; an input of more than 2048 characters has more than 2048
  bytes) with "URL too long". An input within the limit that the parser accepts with a
  scheme other than \<open>http\<close> and \<open>https\<close> is rejected with "only HTTP and HTTPS URLs are
  allowed"; \<open>ftp://example.com\<close> is one. \<open>https://example.com/path\<close> is accepted.
\<close>

theorem ValidateURL_length_and_scheme:
  "(maxURLLength v < int (length rawURL) \<longrightarrow>
      ValidateURL P v rawURL =
        Some (SvcError (NewValidationError ''validator.ValidateURL'' ''URL too long'' None)))
   \<and> (2048 < length rawURL \<longrightarrow>
      ValidateURL P NewURLValidator rawURL =
        Some (SvcError (NewValidationError ''validator.ValidateURL'' ''URL too long'' None)))
   \<and> (int (length rawURL) \<le> maxURLLength v \<and> url_Parse P rawURL = Inr parsed
        \<and> Scheme parsed \<noteq> ''http'' \<and> Scheme parsed \<noteq> ''https'' \<longrightarrow>
      ValidateURL P v rawURL =
        Some (SvcError (NewValidationError ''validator.ValidateURL''
          ''only HTTP and HTTPS URLs are allowed'' None)))
   \<and> ValidateURL (P\<lparr>url_Parse := net_url_Parse\<rparr>) NewURLValidator ''ftp://example.com'' =
        Some (SvcError (NewValidationError ''validator.ValidateURL''
          ''only HTTP and HTTPS URLs are allowed'' None))
   \<and> ValidateURL (P\<lparr>url_Parse := net_url_Parse\<rparr>) NewURLValidator
        ''https://example.com/path'' = None"
  by (simp add: ValidateURL_cases validator_consts parse_ftp_example parse_https_example
        strings_ToLower_examples)

text \<open>
  The theorem at a URL of 2049 bytes with a good scheme, and at \<open>ftp://example.com\<close> with
  the parser's own result for it.
\<close>

theorem ValidateURL_length_and_scheme_witness:
  "2048 < length (''https://example.com/'' @ replicate 2029 (CHR ''a''))
   \<and> ValidateURL go_platform NewURLValidator
        (''https://example.com/'' @ replicate 2029 (CHR ''a'')) =
        Some (SvcError (NewValidationError ''validator.ValidateURL'' ''URL too long'' None))
   \<and> int (length ''ftp://example.com'') \<le> maxURLLength NewURLValidator
   \<and> url_Parse go_platform ''ftp://example.com''
        = Inr \<lparr>Scheme = ''ftp'', Host = ''example.com''\<rparr>
   \<and> ValidateURL go_platform NewURLValidator ''ftp://example.com'' =
        Some (SvcError (NewValidationError ''validator.ValidateURL''
          ''only HTTP and HTTPS URLs are allowed'' None))"
  using ValidateURL_length_and_scheme[of NewURLValidator
      "''https://example.com/'' @ replicate 2029 (CHR ''a'')" go_platform]
    ValidateURL_length_and_scheme[of NewURLValidator "''ftp://example.com''" go_platform
      "\<lparr>Scheme = ''ftp'', Host = ''example.com''\<rparr>"]
  by (simp add: validator_consts go_platform_def parse_ftp_example)

text \<open>
  C5. For a URL that passes the length check, parses and has the scheme \<open>http\<close> or
  \<open>https\<close>, \<open>ValidateURL\<close> fails, and then with "domain is blocked", exactly when the
  parsed host, lower-cased by \<^verbatim>\<open>strings.ToLower\<close>, is equal to an entry of the blocked
  list; otherwise it succeeds. With the list of the repository, \<open>http://malware.com/x\<close> is
  rejected and \<open>http://sub.malware.com/\<close>, a subdomain of a blocked entry, is accepted.
\<close>

theorem ValidateURL_blocked_iff_host_equal:
  "(int (length rawURL) \<le> maxURLLength v \<and> url_Parse P rawURL = Inr parsed
      \<and> (Scheme parsed = ''http'' \<or> Scheme parsed = ''https'') \<longrightarrow>
      ValidateURL P v rawURL =
        (if strings_ToLower (unicode_ToLower P) (Host parsed) \<in> set (blockedDomains v)
         then Some (SvcError (NewValidationError ''validator.ValidateURL''
                ''domain is blocked'' None))
         else None))
   \<and> ValidateURL (P\<lparr>url_Parse := net_url_Parse\<rparr>) NewURLValidator ''http://malware.com/x'' =
        Some (SvcError (NewValidationError ''validator.ValidateURL''
          ''domain is blocked'' None))
   \<and> ValidateURL (P\<lparr>url_Parse := net_url_Parse\<rparr>) NewURLValidator
        ''http://sub.malware.com/'' = None"
  by (auto simp add: ValidateURL_cases validator_consts parse_malware parse_sub_malware
        strings_ToLower_examples)

text \<open>
  The theorem at \<open>http://MALWARE.com/x\<close>, whose host is blocked once lower-cased, and at
  \<open>http://MALWARE.com:80/x\<close>, whose parsed host \<open>MALWARE.com:80\<close> carries the port and is
  equal to no entry.
\<close>

theorem ValidateURL_blocked_iff_host_equal_witness:
  "int (length ''http://MALWARE.com/x'') \<le> maxURLLength NewURLValidator
   \<and> url_Parse go_platform ''http://MALWARE.com/x''
        = Inr \<lparr>Scheme = ''http'', Host = ''MALWARE.com''\<rparr>
   \<and> strings_ToLower (unicode_ToLower go_platform) ''MALWARE.com''
        \<in> set (blockedDomains NewURLValidator)
   \<and> ValidateURL go_platform NewURLValidator ''http://MALWARE.com/x'' =
        Some (SvcError (NewValidationError ''validator.ValidateURL''
          ''domain is blocked'' None))
   \<and> url_Parse go_platform ''http://MALWARE.com:80/x''
        = Inr \<lparr>Scheme = ''http'', Host = ''MALWARE.com:80''\<rparr>
   \<and> strings_ToLower (unicode_ToLower go_platform) ''MALWARE.com:80''
        \<notin> set (blockedDomains NewURLValidator)
   \<and> ValidateURL go_platform NewURLValidator ''http://MALWARE.com:80/x'' = None"
  using ValidateURL_blocked_iff_host_equal[of "''http://MALWARE.com/x''" NewURLValidator
      go_platform "\<lparr>Scheme = ''http'', Host = ''MALWARE.com''\<rparr>"]
    ValidateURL_blocked_iff_host_equal[of "''http://MALWARE.com:80/x''" NewURLValidator
      go_platform "\<lparr>Scheme = ''http'', Host = ''MALWARE.com:80''\<rparr>"]
  by (simp add: validator_consts go_platform_def parse_malware_upper
        parse_malware_upper_port strings_ToLower_examples)

text \<open>
  C6, as the specification states it, fails: \<^verbatim>\<open>url.Parse\<close> accepts \<open>not-a-url\<close> as a relative
  reference with an empty scheme and an empty host, so \<open>ValidateURL\<close> rejects it at the
  scheme check, with "only HTTP and HTTPS URLs are allowed" and not with "invalid URL
  format".
\<close>

theorem ValidateURL_not_a_url_counterexample:
  "int (length ''not-a-url'') \<le> maxURLLength NewURLValidator
   \<and> net_url_Parse ''not-a-url'' = Inr \<lparr>Scheme = '''', Host = ''''\<rparr>
   \<and> ValidateURL go_platform NewURLValidator ''not-a-url'' =
        Some (SvcError (NewValidationError ''validator.ValidateURL''
          ''only HTTP and HTTPS URLs are allowed'' None))
   \<and> (case ValidateURL go_platform NewURLValidator ''not-a-url'' of
         Some (SvcError e) \<Rightarrow> Message e | _ \<Rightarrow> '''') \<noteq> ''invalid URL format''"
  by (simp add: ValidateURL_cases validator_consts go_platform_def parse_not_a_url
        NewValidationError_def)

text \<open>
  C6, amended. For every input within the length limit on which the parser returns an
  error, \<open>ValidateURL\<close> fails with "invalid URL format" and wraps the parser's error; and
  it fails with that reason on no other input. \<open>://example.com\<close> and
  \<open>http://exa mple.com\<close> are such inputs; \<open>not-a-url\<close> parses and is rejected with "only
  HTTP and HTTPS URLs are allowed".
\<close>

theorem ValidateURL_invalid_format_iff_parse_error:
  "(int (length rawURL) \<le> maxURLLength v \<and> url_Parse P rawURL = Inl err \<longrightarrow>
      ValidateURL P v rawURL =
        Some (SvcError (NewValidationError ''validator.ValidateURL''
          ''invalid URL format'' (Some err))))
   \<and> (ValidateURL P v rawURL =
        Some (SvcError (NewValidationError ''validator.ValidateURL''
          ''invalid URL format'' cause)) \<longrightarrow>
      int (length rawURL) \<le> maxURLLength v
        \<and> (case cause of Some err \<Rightarrow> url_Parse P rawURL = Inl err | None \<Rightarrow> False))
   \<and> ValidateURL (P\<lparr>url_Parse := net_url_Parse\<rparr>) NewURLValidator ''://example.com'' =
        Some (SvcError (NewValidationError ''validator.ValidateURL''
          ''invalid URL format'' (Some (url_Error ''missing protocol scheme''))))
   \<and> ValidateURL (P\<lparr>url_Parse := net_url_Parse\<rparr>) NewURLValidator ''http://exa mple.com'' =
        Some (SvcError (NewValidationError ''validator.ValidateURL''
          ''invalid URL format'' (Some (url_Error ''invalid character in host name''))))
   \<and> ValidateURL (P\<lparr>url_Parse := net_url_Parse\<rparr>) NewURLValidator ''not-a-url'' =
        Some (SvcError (NewValidationError ''validator.ValidateURL''
          ''only HTTP and HTTPS URLs are allowed'' None))"
  by (auto simp add: ValidateURL_cases validator_consts parse_no_scheme parse_space_in_host
        parse_not_a_url NewValidationError_def split: sum.splits if_splits option.splits)

text \<open>The theorem at \<open>://example.com\<close>, on which the parser fails.\<close>

theorem ValidateURL_invalid_format_iff_parse_error_witness:
  "int (length ''://example.com'') \<le> maxURLLength NewURLValidator
   \<and> url_Parse go_platform ''://example.com'' = Inl (url_Error ''missing protocol scheme'')
   \<and> ValidateURL go_platform NewURLValidator ''://example.com'' =
        Some (SvcError (NewValidationError ''validator.ValidateURL''
          ''invalid URL format'' (Some (url_Error ''missing protocol scheme''))))"
  using ValidateURL_invalid_format_iff_parse_error[of "''://example.com''" NewURLValidator
      go_platform "url_Error ''missing protocol scheme''"]
  by (simp add: validator_consts go_platform_def parse_no_scheme)

section \<open>Properties of the service\<close>

text \<open>A recorded call, once the answer of the repository is known.\<close>

lemma repo_ExistsByShortCode_eq:
  "ExistsByShortCode (repo S) c (store w) = (res, st) \<Longrightarrow>
   repo_ExistsByShortCode S c w
     = (res, w\<lparr>store := st, calls := calls w @ [CallExistsByShortCode c]\<rparr>)"
  by (simp add: repo_ExistsByShortCode_def)

lemma repo_Create_eq:
  "Create (repo S) u (store w) = (res, st) \<Longrightarrow>
   repo_Create S u w = (res, w\<lparr>store := st, calls := calls w @ [CallCreate u]\<rparr>)"
  by (simp add: repo_Create_def)

text \<open>The block \<open>resolveCode\<close>, branch by branch.\<close>

lemma resolveCode_invalid:
  "ValidateShortCode (validator S) c = Some err \<Longrightarrow> resolveCode P S (Some c) w = (Error err, w)"
  by (simp add: resolveCode_def)

lemma resolveCode_custom:
  "ValidateShortCode (validator S) c = None \<Longrightarrow>
   ExistsByShortCode (repo S) c (store w) = (e, st) \<Longrightarrow>
   resolveCode P S (Some c) w =
     ((case e of
         Inl err \<Rightarrow> Error (SvcError (NewInternalError ''service.CreateShortURL''
                      ''failed to check code existence'' (Some err)))
       | Inr exists \<Rightarrow>
           if exists then Error (SvcError (NewDuplicateError ''service.CreateShortURL''
                            ''short code already exists''))
           else Return c),
      w\<lparr>store := st, calls := calls w @ [CallExistsByShortCode c]\<rparr>)"
  by (simp add: resolveCode_def repo_ExistsByShortCode_eq split: sum.splits)

lemma resolveCode_generation_failed:
  "generateUniqueShortCode P S w = (Error err, w1) \<Longrightarrow>
   resolveCode P S None w =
     (Error (SvcError (NewInternalError ''service.CreateShortURL''
        ''failed to generate short code'' (Some err))), w1)"
  by (simp add: resolveCode_def)

lemma resolveCode_generated:
  "generateUniqueShortCode P S w = (Return code, w1) \<Longrightarrow>
   resolveCode P S None w = (Return code, w1)"
  by (simp add: resolveCode_def)

text \<open>\<open>CreateShortURL\<close>, branch by branch: what it returns and the state it leaves.\<close>

lemma CreateShortURL_invalid_url:
  "ValidateURL P (validator S) (req_URL req) = Some err \<Longrightarrow>
   CreateShortURL P S req w = (Error err, w)"
  by (simp add: CreateShortURL_def resolveCode_def)

lemma CreateShortURL_invalid_code:
  "ValidateURL P (validator S) (req_URL req) = None \<Longrightarrow> req_CustomCode req = Some c \<Longrightarrow>
   ValidateShortCode (validator S) c = Some err \<Longrightarrow>
   CreateShortURL P S req w = (Error err, w)"
  by (simp add: CreateShortURL_def resolveCode_def)

lemma CreateShortURL_exists_failed:
  "ValidateURL P (validator S) (req_URL req) = None \<Longrightarrow> req_CustomCode req = Some c \<Longrightarrow>
   ValidateShortCode (validator S) c = None \<Longrightarrow>
   ExistsByShortCode (repo S) c (store w) = (Inl err, st) \<Longrightarrow>
   CreateShortURL P S req w =
     (Error (SvcError (NewInternalError ''service.CreateShortURL''
        ''failed to check code existence'' (Some err))),
      w\<lparr>store := st, calls := calls w @ [CallExistsByShortCode c]\<rparr>)"
  by (simp add: CreateShortURL_def resolveCode_def repo_ExistsByShortCode_eq)

lemma CreateShortURL_duplicate:
  "ValidateURL P (validator S) (req_URL req) = None \<Longrightarrow> req_CustomCode req = Some c \<Longrightarrow>
   ValidateShortCode (validator S) c = None \<Longrightarrow>
   ExistsByShortCode (repo S) c (store w) = (Inr True, st) \<Longrightarrow>
   CreateShortURL P S req w =
     (Error (SvcError (NewDuplicateError ''service.CreateShortURL''
        ''short code already exists'')),
      w\<lparr>store := st, calls := calls w @ [CallExistsByShortCode c]\<rparr>)"
  by (simp add: CreateShortURL_def resolveCode_def repo_ExistsByShortCode_eq)

lemma CreateShortURL_custom_free:
  "ValidateURL P (validator S) (req_URL req) = None \<Longrightarrow> req_CustomCode req = Some c \<Longrightarrow>
   ValidateShortCode (validator S) c = None \<Longrightarrow>
   ExistsByShortCode (repo S) c (store w) = (Inr False, st) \<Longrightarrow>
   Create (repo S) \<lparr>ID = '''', URL = req_URL req, ShortCode = c, AccessCount = 0,
                    Created = 0, Updated = 0\<rparr> st = (res, st') \<Longrightarrow>
   CreateShortURL P S req w =
     ((case res of
         Inl err \<Rightarrow> Error err
       | Inr u \<Rightarrow> Return \<lparr>created_ID = ID u, created_URL = URL u,
                            created_ShortCode = ShortCode u, created_CreatedAt = Created u,
                            created_UpdatedAt = Updated u\<rparr>),
      w\<lparr>store := st', calls := calls w @ [CallExistsByShortCode c,
         CallCreate \<lparr>ID = '''', URL = req_URL req, ShortCode = c, AccessCount = 0,
                     Created = 0, Updated = 0\<rparr>]\<rparr>)"
  by (simp add: CreateShortURL_def resolveCode_def repo_ExistsByShortCode_eq repo_Create_eq split: sum.splits)

text \<open>
  The loop of \<open>generateUniqueShortCode\<close> from \<open>i\<close> on calls the repository for existence
  checks only, at most \<open>10 - i\<close> of them, one per generated code; a code it returns is
  the last one checked, and that check answered "does not exist".
\<close>

lemma utils_GenerateShortCode_calls:
  "utils_GenerateShortCode P n w = (r, w1) \<Longrightarrow> calls w1 = calls w \<and> store w1 = store w"
  by (auto simp: utils_GenerateShortCode_def split: prod.splits)

lemma generateUniqueShortCode_loop_log:
  "generateUniqueShortCode_loop P S i w = (r, w') \<Longrightarrow>
   \<exists>codes. calls w' = calls w @ map CallExistsByShortCode codes
     \<and> length codes \<le> 10 - i
     \<and> (\<forall>code. r = Return code \<longrightarrow>
           codes \<noteq> [] \<and> last codes = code
           \<and> (\<exists>st. ExistsByShortCode (repo S) code st = (Inr False, store w')))"
proof (induction P S i w arbitrary: r w' rule: generateUniqueShortCode_loop.induct)
  case (1 P S i w)
  show ?case
  proof (cases "i < 10")
    case False
    with "1.prems" have "w' = w" and "\<forall>code. r \<noteq> Return code"
      by (auto simp: generateUniqueShortCode_loop.simps[of P S i w])
    then show ?thesis by (intro exI[of _ "[]"]) simp
  next
    case True
    obtain g w1 where g: "utils_GenerateShortCode P 6 w = (g, w1)" by force
    then have c1: "calls w1 = calls w" "store w1 = store w"
      using utils_GenerateShortCode_calls by blast+
    show ?thesis
    proof (cases g)
      case (Error err)
      with "1.prems" True g have "calls w' = calls w" "\<forall>code. r \<noteq> Return code"
        using c1 by (auto simp: generateUniqueShortCode_loop.simps[of P S i w])
      then show ?thesis by (intro exI[of _ "[]"]) simp
    next
      case (Panic msg)
      with "1.prems" True g have "calls w' = calls w" "\<forall>code. r \<noteq> Return code"
        using c1 by (auto simp: generateUniqueShortCode_loop.simps[of P S i w])
      then show ?thesis by (intro exI[of _ "[]"]) simp
    next
      case (Return code)
      obtain e st where e: "ExistsByShortCode (repo S) code (store w1) = (e, st)" by force
      define w2 where "w2 = w1\<lparr>store := st, calls := calls w1 @ [CallExistsByShortCode code]\<rparr>"
      have x: "repo_ExistsByShortCode S code w1 = (e, w2)"
        using e by (simp add: repo_ExistsByShortCode_eq w2_def)
      have c2: "calls w2 = calls w @ [CallExistsByShortCode code]" "store w2 = st"
        by (simp_all add: w2_def c1)
      show ?thesis
      proof (cases e)
        case (Inl err)
        with "1.prems" True g Return x have "w' = w2" "\<forall>code. r \<noteq> Return code"
          by (auto simp: generateUniqueShortCode_loop.simps[of P S i w])
        then show ?thesis using c2 True by (intro exI[of _ "[code]"]) simp
      next
        case (Inr exists)
        show ?thesis
        proof (cases exists)
          case False
          with "1.prems" True g Return x Inr have "w' = w2" "r = Return code"
            by (auto simp: generateUniqueShortCode_loop.simps[of P S i w])
          moreover have "ExistsByShortCode (repo S) code (store w1) = (Inr False, store w2)"
            using e Inr False c2 by simp
          ultimately show ?thesis using c2 True
            by (intro exI[of _ "[code]"]) auto
        next
          case True2: True
          with "1.prems" True g Return x Inr
          have rec: "generateUniqueShortCode_loop P S (Suc i) w2 = (r, w')"
            by (auto simp: generateUniqueShortCode_loop.simps[of P S i w])
          from "1.IH"[OF True g[symmetric] _ x[symmetric] _ _ rec] Return Inr True2
          obtain codes where codes: "calls w' = calls w2 @ map CallExistsByShortCode codes"
            "length codes \<le> 10 - Suc i"
            "\<forall>code. r = Return code \<longrightarrow>
               codes \<noteq> [] \<and> last codes = code
               \<and> (\<exists>st. ExistsByShortCode (repo S) code st = (Inr False, store w'))"
            by auto
          show ?thesis
            using codes c2 True by (intro exI[of _ "code # codes"]) auto
        qed
      qed
    qed
  qed
qed


text \<open>The generator is called with the length 6 and never panics.\<close>

lemma GenerateShortCode_loop_no_panic:
  "GenerateShortCode_loop rd i result p \<noteq> (Panic msg, p')"
proof (induction rd i result p rule: GenerateShortCode_loop.induct)
  case (1 rd i result p)
  show ?case
  proof (cases "i < length result")
    case False
    then show ?thesis by (simp add: GenerateShortCode_loop.simps[of rd i result p])
  next
    case True
    obtain e q where e: "rand_Int rd (length base62Chars) p = (e, q)" by force
    show ?thesis
    proof (cases e)
      case (Inl err)
      with True e show ?thesis by (simp add: GenerateShortCode_loop.simps[of rd i result p])
    next
      case (Inr num)
      with True e "1.IH"[OF True e[symmetric]] show ?thesis
        by (simp add: GenerateShortCode_loop.simps[of rd i result p])
    qed
  qed
qed

lemma utils_GenerateShortCode_6_no_panic:
  "utils_GenerateShortCode P 6 w \<noteq> (Panic msg, w1)"
  using GenerateShortCode_loop_no_panic
  by (auto simp: utils_GenerateShortCode_def GenerateShortCode_def maxAlloc_def split: prod.splits)

lemma generateUniqueShortCode_loop_no_panic:
  "generateUniqueShortCode_loop P S i w \<noteq> (Panic msg, w')"
proof (induction P S i w rule: generateUniqueShortCode_loop.induct)
  case (1 P S i w)
  show ?case
  proof (cases "i < 10")
    case False
    then show ?thesis by (simp add: generateUniqueShortCode_loop.simps[of P S i w])
  next
    case True
    obtain g w1 where g: "utils_GenerateShortCode P 6 w = (g, w1)" by force
    show ?thesis
    proof (cases g)
      case (Error err)
      with True g show ?thesis by (simp add: generateUniqueShortCode_loop.simps[of P S i w])
    next
      case (Panic m)
      with g utils_GenerateShortCode_6_no_panic show ?thesis by blast
    next
      case (Return code)
      obtain e w2 where x: "repo_ExistsByShortCode S code w1 = (e, w2)" by force
      show ?thesis
      proof (cases e)
        case (Inl err)
        with True g Return x show ?thesis
          by (simp add: generateUniqueShortCode_loop.simps[of P S i w])
      next
        case (Inr exists)
        with True g Return x "1.IH"[OF True g[symmetric] _ x[symmetric]] show ?thesis
          by (cases exists) (simp_all add: generateUniqueShortCode_loop.simps[of P S i w])
      qed
    qed
  qed
qed

lemma CreateShortURL_generation_failed:
  "ValidateURL P (validator S) (req_URL req) = None \<Longrightarrow> req_CustomCode req = None \<Longrightarrow>
   generateUniqueShortCode P S w = (Error err, w1) \<Longrightarrow>
   CreateShortURL P S req w =
     (Error (SvcError (NewInternalError ''service.CreateShortURL''
        ''failed to generate short code'' (Some err))), w1)"
  by (simp add: CreateShortURL_def resolveCode_def)

lemma CreateShortURL_generated:
  "ValidateURL P (validator S) (req_URL req) = None \<Longrightarrow> req_CustomCode req = None \<Longrightarrow>
   generateUniqueShortCode P S w = (Return code, w1) \<Longrightarrow>
   Create (repo S) \<lparr>ID = '''', URL = req_URL req, ShortCode = code, AccessCount = 0,
                    Created = 0, Updated = 0\<rparr> (store w1) = (res, st') \<Longrightarrow>
   CreateShortURL P S req w =
     ((case res of
         Inl err \<Rightarrow> Error err
       | Inr u \<Rightarrow> Return \<lparr>created_ID = ID u, created_URL = URL u,
                            created_ShortCode = ShortCode u, created_CreatedAt = Created u,
                            created_UpdatedAt = Updated u\<rparr>),
      w1\<lparr>store := st', calls := calls w1 @
         [CallCreate \<lparr>ID = '''', URL = req_URL req, ShortCode = code, AccessCount = 0,
                      Created = 0, Updated = 0\<rparr>]\<rparr>)"
  by (simp add: CreateShortURL_def resolveCode_def repo_Create_eq split: sum.splits)

lemma rand_ok_add: "rand_ok rd p (m + n) \<longleftrightarrow> rand_ok rd p m \<and> rand_ok rd (p + m) n"
  by (auto simp: rand_ok_def list_all_iff)


text \<open>
  With a repository that reports every code as existing and a random source that does
  not fail, the loop from \<open>i\<close> on makes exactly \<open>10 - i\<close> attempts, of six draws each, and
  ends with the internal error "failed to generate unique code after 10 attempts".
\<close>

lemma generateUniqueShortCode_loop_all_exist:
  "\<forall>c st. \<exists>st'. ExistsByShortCode (repo S) c st = (Inr True, st') \<Longrightarrow>
    i \<le> 10 \<Longrightarrow> rand_ok (rand_Reader P) (rand_pos w) (6 * (10 - i)) \<Longrightarrow>
    \<exists>codes w'. generateUniqueShortCode_loop P S i w =
        (Error (SvcError (NewInternalError ''service.generateUniqueShortCode''
           ''failed to generate unique code after 10 attempts'' None)), w')
      \<and> calls w' = calls w @ map CallExistsByShortCode codes
      \<and> length codes = 10 - i
      \<and> rand_pos w' = rand_pos w + 6 * (10 - i)"
proof (induction P S i w rule: generateUniqueShortCode_loop.induct)
  case (1 P S i w)
  show ?case
  proof (cases "i < 10")
    case False
    with "1.prems"(2) have "i = 10" by simp
    then show ?thesis
      by (intro exI[of _ "[]"] exI[of _ w])
         (simp add: generateUniqueShortCode_loop.simps[of P S 10 w])
  next
    case True
    then obtain k where k: "10 - i = Suc k" by (cases "10 - i") auto
    have split: "6 * (10 - i) = 6 + 6 * k" using k by simp
    have ok6: "rand_ok (rand_Reader P) (rand_pos w) (nat 6)"
      and okrest: "rand_ok (rand_Reader P) (rand_pos w + 6) (6 * k)"
      using "1.prems"(3) unfolding split by (simp_all add: rand_ok_add)
    from GenerateShortCode_returns[OF _ six_le_maxAlloc ok6] obtain code where
      code: "GenerateShortCode (rand_Reader P) 6 (rand_pos w) = (Return code, rand_pos w + 6)"
      by auto
    define w1 where "w1 = w\<lparr>rand_pos := rand_pos w + 6\<rparr>"
    have g: "utils_GenerateShortCode P 6 w = (Return code, w1)"
      by (simp add: utils_GenerateShortCode_def code w1_def)
    from "1.prems"(1) obtain st where st: "ExistsByShortCode (repo S) code (store w1) = (Inr True, st)"
      by blast
    define w2 where "w2 = w1\<lparr>store := st, calls := calls w1 @ [CallExistsByShortCode code]\<rparr>"
    have x: "repo_ExistsByShortCode S code w1 = (Inr True, w2)"
      using st by (simp add: repo_ExistsByShortCode_eq w2_def)
    have w2: "calls w2 = calls w @ [CallExistsByShortCode code]" "rand_pos w2 = rand_pos w + 6"
      by (simp_all add: w2_def w1_def)
    have k': "10 - Suc i = k" using k by arith
    have "\<exists>codes w'. generateUniqueShortCode_loop P S (Suc i) w2 =
        (Error (SvcError (NewInternalError ''service.generateUniqueShortCode''
           ''failed to generate unique code after 10 attempts'' None)), w')
      \<and> calls w' = calls w2 @ map CallExistsByShortCode codes
      \<and> length codes = 10 - Suc i
      \<and> rand_pos w' = rand_pos w2 + 6 * (10 - Suc i)"
    proof (rule "1.IH"[OF True g[symmetric] refl x[symmetric] refl])
      show "\<not> \<not> True" by simp
      show "\<forall>c st. \<exists>st'. ExistsByShortCode (repo S) c st = (Inr True, st')"
        by (rule "1.prems"(1))
      show "Suc i \<le> 10" using True by simp
      show "rand_ok (rand_Reader P) (rand_pos w2) (6 * (10 - Suc i))"
        using okrest unfolding w2 k' .
    qed
    then obtain codes w' where r: "generateUniqueShortCode_loop P S (Suc i) w2 =
        (Error (SvcError (NewInternalError ''service.generateUniqueShortCode''
           ''failed to generate unique code after 10 attempts'' None)), w')"
      "calls w' = calls w2 @ map CallExistsByShortCode codes"
      "length codes = 10 - Suc i"
      "rand_pos w' = rand_pos w2 + 6 * (10 - Suc i)" by blast
    have "generateUniqueShortCode_loop P S i w =
        (Error (SvcError (NewInternalError ''service.generateUniqueShortCode''
           ''failed to generate unique code after 10 attempts'' None)), w')"
      using True g x r(1) by (simp add: generateUniqueShortCode_loop.simps[of P S i w])
    moreover have "calls w' = calls w @ map CallExistsByShortCode (code # codes)"
      using r(2) w2 by simp
    moreover have "length (code # codes) = 10 - i" using r(3) k k' by simp
    moreover have "rand_pos w' = rand_pos w + 6 * (10 - i)" using r(4) w2 k k' by simp
    ultimately show ?thesis by blast
  qed
qed

text \<open>Existence checks hand no record to \<open>Create\<close>, so code generation never does.\<close>

lemma create_calls_append: "create_calls (a @ b) = create_calls a @ create_calls b"
  by (induction a rule: create_calls.induct) simp_all

lemma create_calls_exists: "create_calls (map CallExistsByShortCode codes) = []"
  by (induction codes) simp_all

lemma generateUniqueShortCode_no_create:
  assumes "generateUniqueShortCode P S w = (r, w1)"
  shows "create_calls (calls w1) = create_calls (calls w)"
proof -
  from generateUniqueShortCode_loop_log[OF assms[unfolded generateUniqueShortCode_def]]
  obtain codes where "calls w1 = calls w @ map CallExistsByShortCode codes" by blast
  then show ?thesis by (simp add: create_calls_append create_calls_exists)
qed

lemma generateUniqueShortCode_no_panic: "generateUniqueShortCode P S w \<noteq> (Panic msg, w1)"
  by (simp add: generateUniqueShortCode_def generateUniqueShortCode_loop_no_panic)

text \<open>
  A run of \<open>CreateShortURL\<close> hands at most one record to \<open>Create\<close>: the request's URL,
  a code, access count 0, no id and zero timestamps; and none unless the URL is valid.
\<close>

lemma CreateShortURL_creates_at_most_one:
  "create_calls (calls (snd (CreateShortURL P S req w))) = create_calls (calls w)
   \<or> (\<exists>code. create_calls (calls (snd (CreateShortURL P S req w))) =
         create_calls (calls w) @ [\<lparr>ID = '''', URL = req_URL req, ShortCode = code,
            AccessCount = 0, Created = 0, Updated = 0\<rparr>]
       \<and> ValidateURL P (validator S) (req_URL req) = None)"
proof (cases "ValidateURL P (validator S) (req_URL req)")
  case (Some err)
  then show ?thesis by (simp add: CreateShortURL_invalid_url)
next
  case None
  show ?thesis
  proof (cases "req_CustomCode req")
    case (Some c)
    show ?thesis
    proof (cases "ValidateShortCode (validator S) c")
      case (Some err)
      with None \<open>req_CustomCode req = Some c\<close> show ?thesis
        by (simp add: CreateShortURL_invalid_code)
    next
      case vn: None
      obtain e st where e: "ExistsByShortCode (repo S) c (store w) = (e, st)" by force
      show ?thesis
      proof (cases e)
        case (Inl err)
        with None Some vn e show ?thesis
          by (simp add: CreateShortURL_exists_failed create_calls_append)
      next
        case (Inr exists)
        show ?thesis
        proof (cases exists)
          case True
          with None Some vn e Inr show ?thesis
            by (simp add: CreateShortURL_duplicate create_calls_append)
        next
          case False
          obtain res st' where
            "Create (repo S) \<lparr>ID = '''', URL = req_URL req, ShortCode = c, AccessCount = 0,
               Created = 0, Updated = 0\<rparr> st = (res, st')" by force
          with None Some vn e Inr False show ?thesis
            by (simp add: CreateShortURL_custom_free create_calls_append)
        qed
      qed
    qed
  next
    case cn: None
    obtain g w1 where g: "generateUniqueShortCode P S w = (g, w1)" by force
    note nc = generateUniqueShortCode_no_create[OF g]
    show ?thesis
    proof (cases g)
      case (Error err)
      with None cn g nc show ?thesis by (simp add: CreateShortURL_generation_failed)
    next
      case (Panic msg)
      with g generateUniqueShortCode_no_panic show ?thesis by blast
    next
      case (Return code)
      obtain res st' where
        "Create (repo S) \<lparr>ID = '''', URL = req_URL req, ShortCode = code, AccessCount = 0,
           Created = 0, Updated = 0\<rparr> (store w1) = (res, st')" by force
      with None cn g Return nc show ?thesis
        by (simp add: CreateShortURL_generated create_calls_append)
    qed
  qed
qed

text \<open>
  The block that resolves the code hands no record to \<open>Create\<close> and does not panic; an
  error of it ends \<open>CreateShortURL\<close> with that error in the state the block left, and a
  code it returns is the one of the single record that \<open>CreateShortURL\<close> then creates.
\<close>

lemma resolveCode_no_create:
  assumes "resolveCode P S cc w = (r, w1)"
  shows "create_calls (calls w1) = create_calls (calls w)"
proof (cases cc)
  case None
  obtain g w' where g: "generateUniqueShortCode P S w = (g, w')" by force
  from generateUniqueShortCode_no_create[OF g] assms None g show ?thesis
    by (auto simp: resolveCode_def split: outcome.splits)
next
  case (Some c)
  with assms show ?thesis
    by (auto simp: resolveCode_def repo_ExistsByShortCode_def create_calls_append
          split: option.splits sum.splits prod.splits if_splits)
qed

lemma resolveCode_no_panic: "resolveCode P S cc w \<noteq> (Panic msg, w1)"
proof (cases cc)
  case None
  obtain g w' where g: "generateUniqueShortCode P S w = (g, w')" by force
  with None generateUniqueShortCode_no_panic[of P S w] show ?thesis
    by (auto simp: resolveCode_def split: outcome.splits)
next
  case (Some c)
  then show ?thesis
    by (auto simp: resolveCode_def repo_ExistsByShortCode_def
          split: option.splits sum.splits prod.splits if_splits)
qed

lemma CreateShortURL_resolve_failed:
  "ValidateURL P (validator S) (req_URL req) = None \<Longrightarrow>
   resolveCode P S (req_CustomCode req) w = (Error err, w1) \<Longrightarrow>
   CreateShortURL P S req w = (Error err, w1)"
  by (simp add: CreateShortURL_def)

lemma CreateShortURL_resolved:
  "ValidateURL P (validator S) (req_URL req) = None \<Longrightarrow>
   resolveCode P S (req_CustomCode req) w = (Return code, w1) \<Longrightarrow>
   Create (repo S) \<lparr>ID = '''', URL = req_URL req, ShortCode = code, AccessCount = 0,
                    Created = 0, Updated = 0\<rparr> (store w1) = (res, st') \<Longrightarrow>
   CreateShortURL P S req w =
     ((case res of
         Inl err \<Rightarrow> Error err
       | Inr u \<Rightarrow> Return \<lparr>created_ID = ID u, created_URL = URL u,
                            created_ShortCode = ShortCode u, created_CreatedAt = Created u,
                            created_UpdatedAt = Updated u\<rparr>),
      w1\<lparr>store := st', calls := calls w1 @
         [CallCreate \<lparr>ID = '''', URL = req_URL req, ShortCode = code, AccessCount = 0,
                      Created = 0, Updated = 0\<rparr>]\<rparr>)"
  by (simp add: CreateShortURL_def repo_Create_eq split: sum.splits)

lemma CreateShortURL_no_panic: "CreateShortURL P S req w \<noteq> (Panic msg, w1)"
proof (cases "ValidateURL P (validator S) (req_URL req)")
  case (Some err)
  then show ?thesis by (simp add: CreateShortURL_invalid_url)
next
  case None
  obtain r w' where r: "resolveCode P S (req_CustomCode req) w = (r, w')" by force
  show ?thesis
  proof (cases r)
    case (Error err)
    with None r show ?thesis by (simp add: CreateShortURL_resolve_failed)
  next
    case (Panic m)
    with r resolveCode_no_panic show ?thesis by blast
  next
    case (Return code)
    obtain res st' where
      "Create (repo S) \<lparr>ID = '''', URL = req_URL req, ShortCode = code, AccessCount = 0,
         Created = 0, Updated = 0\<rparr> (store w') = (res, st')" by force
    with None r Return show ?thesis
      by (simp add: CreateShortURL_resolved split: sum.splits)
  qed
qed

section \<open>The examples, evaluated\<close>

text \<open>The validator and the stores of the examples at the inputs used below.\<close>

lemma example_service_sel:
  "validator (example_service pb) = NewURLValidator"
  "repo (example_service pb) = example_repo go_platform pb"
  by (simp_all add: example_service_def NewURLService_def)

lemma ValidateURL_example_a:
  "ValidateURL go_platform NewURLValidator ''https://example.com/a'' = None"
  by (simp add: ValidateURL_cases validator_consts go_platform_def parse_https_example_a
        strings_ToLower_examples)

lemma ValidateURL_example_ftp:
  "ValidateURL go_platform NewURLValidator ''ftp://example.com'' =
     Some (SvcError (NewValidationError ''validator.ValidateURL''
       ''only HTTP and HTTPS URLs are allowed'' None))"
  by (simp add: ValidateURL_cases validator_consts go_platform_def parse_ftp_example)

lemma ValidateShortCode_examples:
  "ValidateShortCode NewURLValidator ''golang'' = None"
  "ValidateShortCode NewURLValidator ''ab'' =
     Some (SvcError (NewValidationError ''validator.ValidateShortCode''
       ''short code must be between 4 and 20 characters'' None))"
  by (simp_all add: ValidateShortCode_cases base62Chars_def)

lemma mem_GetByShortCode:
  "urlRepositoryImpl_GetByShortCode P mem_PBClient c st =
     (case filter (\<lambda>r. pb_ShortCode r = c) st of
        [] \<Rightarrow> Inl (SvcError (NewNotFoundError ''repository.GetByShortCode''
                 ''short URL not found''))
      | record # _ \<Rightarrow> Inr (Some \<lparr>ID = pb_ID record, URL = pb_URL record,
                                    ShortCode = pb_ShortCode record,
                                    AccessCount = pb_AccessCount record,
                                    Created = parsePBTime P (pb_Created record),
                                    Updated = parsePBTime P (pb_Updated record)\<rparr>), st)"
  by (simp add: urlRepositoryImpl_GetByShortCode_def mem_PBClient_def http_StatusOK_def
        split: list.splits)

lemma mem_Exists:
  "ExistsByShortCode (example_repo P mem_PBClient) c st
     = (Inr (filter (\<lambda>r. pb_ShortCode r = c) st \<noteq> []), st)"
  by (simp add: example_repo_def urlRepositoryImpl_ExistsByShortCode_def mem_GetByShortCode
        NewNotFoundError_def split: list.splits)

lemma down_Exists:
  "ExistsByShortCode (example_repo P down_PBClient) c st
     = (Inl (SvcError (NewInternalError ''repository.GetByShortCode''
               ''failed to lookup record'' (Some (LibError ''connection refused'')))), st)"
  by (simp add: example_repo_def urlRepositoryImpl_ExistsByShortCode_def
        urlRepositoryImpl_GetByShortCode_def down_PBClient_def NewInternalError_def)

lemma full_Exists:
  "ExistsByShortCode (example_repo P full_PBClient) c st = (Inr True, st)"
  by (simp add: example_repo_def urlRepositoryImpl_ExistsByShortCode_def
        urlRepositoryImpl_GetByShortCode_def full_PBClient_def http_StatusOK_def)

text \<open>The first ten codes that the random source \<open>0, 1, 2, ...\<close> gives.\<close>

lemma go_codes:
  "GenerateShortCode (rand_Reader go_platform) 6 0 = (Return ''012345'', 6)"
  "GenerateShortCode (rand_Reader go_platform) 6 6 = (Return ''6789ab'', 12)"
  "GenerateShortCode (rand_Reader go_platform) 6 12 = (Return ''cdefgh'', 18)"
  "GenerateShortCode (rand_Reader go_platform) 6 18 = (Return ''ijklmn'', 24)"
  "GenerateShortCode (rand_Reader go_platform) 6 24 = (Return ''opqrst'', 30)"
  "GenerateShortCode (rand_Reader go_platform) 6 30 = (Return ''uvwxyz'', 36)"
  "GenerateShortCode (rand_Reader go_platform) 6 36 = (Return ''ABCDEF'', 42)"
  "GenerateShortCode (rand_Reader go_platform) 6 42 = (Return ''GHIJKL'', 48)"
  "GenerateShortCode (rand_Reader go_platform) 6 48 = (Return ''MNOPQR'', 54)"
  "GenerateShortCode (rand_Reader go_platform) 6 54 = (Return ''STUVWX'', 60)"
  by code_simp+

text \<open>One turn of the loop of \<open>generateUniqueShortCode\<close>: a collision, a free code, the end.\<close>

lemma loop_step_exists:
  "i < 10 \<Longrightarrow> GenerateShortCode (rand_Reader P) 6 (rand_pos w) = (Return code, p) \<Longrightarrow>
   ExistsByShortCode (repo S) code (store w) = (Inr True, st) \<Longrightarrow>
   generateUniqueShortCode_loop P S i w =
     generateUniqueShortCode_loop P S (Suc i)
       (w\<lparr>rand_pos := p, store := st, calls := calls w @ [CallExistsByShortCode code]\<rparr>)"
  by (simp add: generateUniqueShortCode_loop.simps[of P S i w] utils_GenerateShortCode_def
        repo_ExistsByShortCode_def)

lemma loop_step_free:
  "i < 10 \<Longrightarrow> GenerateShortCode (rand_Reader P) 6 (rand_pos w) = (Return code, p) \<Longrightarrow>
   ExistsByShortCode (repo S) code (store w) = (Inr False, st) \<Longrightarrow>
   generateUniqueShortCode_loop P S i w =
     (Return code,
      w\<lparr>rand_pos := p, store := st, calls := calls w @ [CallExistsByShortCode code]\<rparr>)"
  by (simp add: generateUniqueShortCode_loop.simps[of P S i w] utils_GenerateShortCode_def
        repo_ExistsByShortCode_def)

lemma loop_exhausted:
  "\<not> i < 10 \<Longrightarrow> generateUniqueShortCode_loop P S i w =
     (Error (SvcError (NewInternalError ''service.generateUniqueShortCode''
        ''failed to generate unique code after 10 attempts'' None)), w)"
  by (simp add: generateUniqueShortCode_loop.simps[of P S i w])

lemma full_step:
  "i < 10 \<Longrightarrow> GenerateShortCode (rand_Reader go_platform) 6 p = (Return code, p') \<Longrightarrow>
   generateUniqueShortCode_loop go_platform (example_service full_PBClient) i
       \<lparr>store = st, rand_pos = p, calls = cs\<rparr> =
     generateUniqueShortCode_loop go_platform (example_service full_PBClient) (Suc i)
       \<lparr>store = st, rand_pos = p', calls = cs @ [CallExistsByShortCode code]\<rparr>"
  by (simp add: loop_step_exists[where st = st] example_service_sel full_Exists)

text \<open>\<open>generateUniqueShortCode\<close> on the three stores of the examples.\<close>

lemma run_full_generate:
  "generateUniqueShortCode go_platform (example_service full_PBClient) (world0 []) =
     (Error (SvcError (NewInternalError ''service.generateUniqueShortCode''
        ''failed to generate unique code after 10 attempts'' None)),
      \<lparr>store = [], rand_pos = 60,
       calls = map CallExistsByShortCode [''012345'', ''6789ab'', ''cdefgh'', ''ijklmn'',
         ''opqrst'', ''uvwxyz'', ''ABCDEF'', ''GHIJKL'', ''MNOPQR'', ''STUVWX'']\<rparr>)"
  unfolding generateUniqueShortCode_def world0_def
  by (simp add: full_step[OF _ go_codes(1)] full_step[OF _ go_codes(2)]
        full_step[OF _ go_codes(3)] full_step[OF _ go_codes(4)] full_step[OF _ go_codes(5)]
        full_step[OF _ go_codes(6)] full_step[OF _ go_codes(7)] full_step[OF _ go_codes(8)]
        full_step[OF _ go_codes(9)] full_step[OF _ go_codes(10)] loop_exhausted)

lemma run_mem_generate:
  "generateUniqueShortCode go_platform (example_service mem_PBClient) (world0 []) =
     (Return ''012345'',
      \<lparr>store = [], rand_pos = 6, calls = [CallExistsByShortCode ''012345'']\<rparr>)"
  unfolding generateUniqueShortCode_def world0_def
  by (simp add: loop_step_free[where st = "[]"] go_codes example_service_sel mem_Exists)

lemma run_no_entropy_generate:
  "generateUniqueShortCode go_platform_no_entropy (example_service mem_PBClient) (world0 []) =
     (Error (SvcError (NewInternalError ''service.generateUniqueShortCode''
        ''failed to generate short code'' (Some (LibError ''EOF'')))),
      \<lparr>store = [], rand_pos = 1, calls = []\<rparr>)"
  unfolding generateUniqueShortCode_def world0_def
  by (simp add: generateUniqueShortCode_loop.simps[of _ _ 0] utils_GenerateShortCode_def
        GenerateShortCode_def maxAlloc_def GenerateShortCode_loop.simps[of _ 0] rand_Int_def
        go_platform_no_entropy_def go_platform_def)

text \<open>
  C1. The code does not keep the specified ceiling of 5 attempts: the loop of
  \<open>generateUniqueShortCode\<close> runs up to 10 times (the constant \<open>MaxRetries = 5\<close> is never
  read). With a store that reports every code as existing and a random source that never
  fails, resolving the code of a request without a custom code fails with an internal
  error ("failed to generate unique code after 10 attempts") after exactly 10
  generate-and-check cycles, 10 existence checks and 60 draws, and so does
  \<open>CreateShortURL\<close>.
\<close>

theorem CreateShortURL_all_taken_ten_attempts:
  "resolveCode go_platform (example_service full_PBClient) None (world0 []) =
     (Error (SvcError (NewInternalError ''service.CreateShortURL''
        ''failed to generate short code''
        (Some (SvcError (NewInternalError ''service.generateUniqueShortCode''
           ''failed to generate unique code after 10 attempts'' None))))),
      \<lparr>store = [], rand_pos = 60,
       calls = map CallExistsByShortCode [''012345'', ''6789ab'', ''cdefgh'', ''ijklmn'',
         ''opqrst'', ''uvwxyz'', ''ABCDEF'', ''GHIJKL'', ''MNOPQR'', ''STUVWX'']\<rparr>)
   \<and> CreateShortURL go_platform (example_service full_PBClient)
      \<lparr>req_URL = ''https://example.com/a'', req_CustomCode = None\<rparr> (world0 []) =
     (Error (SvcError (NewInternalError ''service.CreateShortURL''
        ''failed to generate short code''
        (Some (SvcError (NewInternalError ''service.generateUniqueShortCode''
           ''failed to generate unique code after 10 attempts'' None))))),
      \<lparr>store = [], rand_pos = 60,
       calls = map CallExistsByShortCode [''012345'', ''6789ab'', ''cdefgh'', ''ijklmn'',
         ''opqrst'', ''uvwxyz'', ''ABCDEF'', ''GHIJKL'', ''MNOPQR'', ''STUVWX'']\<rparr>)
   \<and> length (calls (snd (resolveCode go_platform (example_service full_PBClient) None
        (world0 [])))) = 10
   \<and> MaxRetries = 5"
proof -
  have r: "resolveCode go_platform (example_service full_PBClient) None (world0 []) =
     (Error (SvcError (NewInternalError ''service.CreateShortURL''
        ''failed to generate short code''
        (Some (SvcError (NewInternalError ''service.generateUniqueShortCode''
           ''failed to generate unique code after 10 attempts'' None))))),
      \<lparr>store = [], rand_pos = 60,
       calls = map CallExistsByShortCode [''012345'', ''6789ab'', ''cdefgh'', ''ijklmn'',
         ''opqrst'', ''uvwxyz'', ''ABCDEF'', ''GHIJKL'', ''MNOPQR'', ''STUVWX'']\<rparr>)"
    by (rule resolveCode_generation_failed) (rule run_full_generate)
  have c: "CreateShortURL go_platform (example_service full_PBClient)
      \<lparr>req_URL = ''https://example.com/a'', req_CustomCode = None\<rparr> (world0 []) =
     (Error (SvcError (NewInternalError ''service.CreateShortURL''
        ''failed to generate short code''
        (Some (SvcError (NewInternalError ''service.generateUniqueShortCode''
           ''failed to generate unique code after 10 attempts'' None))))),
      \<lparr>store = [], rand_pos = 60,
       calls = map CallExistsByShortCode [''012345'', ''6789ab'', ''cdefgh'', ''ijklmn'',
         ''opqrst'', ''uvwxyz'', ''ABCDEF'', ''GHIJKL'', ''MNOPQR'', ''STUVWX'']\<rparr>)"
    by (rule CreateShortURL_generation_failed)
       (simp_all add: example_service_sel ValidateURL_example_a run_full_generate)
  from r c show ?thesis by (simp add: MaxRetries_def)
qed

text \<open>
  C2. For a custom code \<open>c\<close> that passes the shape validation and for which the existence
  check answers "does not exist", the block that resolves the code returns \<open>c\<close> itself,
  having called the repository exactly once, for the existence check of \<open>c\<close>; and
  \<open>CreateShortURL\<close>, when the URL of the request is valid, makes exactly two calls: that
  check, then \<open>Create\<close> of a record whose code is \<open>c\<close>. In the repository,
  \<open>ExistsByShortCode\<close> turns a not-found \<open>ServiceError\<close> of its one lookup into \<open>false\<close>
  with no error, returns any other error of the lookup as it is, and answers \<open>true\<close> for
  a record found.
\<close>

theorem CreateShortURL_custom_code_free:
  "(ValidateShortCode (validator S) c = None
      \<and> ExistsByShortCode (repo S) c (store w) = (Inr False, st) \<longrightarrow>
      resolveCode P S (Some c) w =
        (Return c, w\<lparr>store := st, calls := calls w @ [CallExistsByShortCode c]\<rparr>))
   \<and> (ValidateURL P (validator S) (req_URL req) = None \<and> req_CustomCode req = Some c
      \<and> ValidateShortCode (validator S) c = None
      \<and> ExistsByShortCode (repo S) c (store w) = (Inr False, st) \<longrightarrow>
      calls (snd (CreateShortURL P S req w)) =
        calls w @ [CallExistsByShortCode c,
          CallCreate \<lparr>ID = '''', URL = req_URL req, ShortCode = c, AccessCount = 0,
                      Created = 0, Updated = 0\<rparr>])
   \<and> (urlRepositoryImpl_GetByShortCode Q pb c st0 = (Inl (SvcError e), st1)
        \<and> Code e = ErrorCodeNotFound \<longrightarrow>
      urlRepositoryImpl_ExistsByShortCode Q pb c st0 = (Inr False, st1))
   \<and> (urlRepositoryImpl_GetByShortCode Q pb c st0 = (Inl err, st1)
        \<and> (case errors_As err of Some e' \<Rightarrow> Code e' \<noteq> ErrorCodeNotFound | None \<Rightarrow> True) \<longrightarrow>
      urlRepositoryImpl_ExistsByShortCode Q pb c st0 = (Inl err, st1))
   \<and> (urlRepositoryImpl_GetByShortCode Q pb c st0 = (Inr (Some u), st1) \<longrightarrow>
      urlRepositoryImpl_ExistsByShortCode Q pb c st0 = (Inr True, st1))"
proof (intro conjI impI)
  assume "ValidateShortCode (validator S) c = None
      \<and> ExistsByShortCode (repo S) c (store w) = (Inr False, st)"
  then show "resolveCode P S (Some c) w =
        (Return c, w\<lparr>store := st, calls := calls w @ [CallExistsByShortCode c]\<rparr>)"
    by (simp add: resolveCode_custom)
next
  assume h: "ValidateURL P (validator S) (req_URL req) = None \<and> req_CustomCode req = Some c
      \<and> ValidateShortCode (validator S) c = None
      \<and> ExistsByShortCode (repo S) c (store w) = (Inr False, st)"
  obtain res st' where
    "Create (repo S) \<lparr>ID = '''', URL = req_URL req, ShortCode = c, AccessCount = 0,
       Created = 0, Updated = 0\<rparr> st = (res, st')" by force
  with h show "calls (snd (CreateShortURL P S req w)) =
        calls w @ [CallExistsByShortCode c,
          CallCreate \<lparr>ID = '''', URL = req_URL req, ShortCode = c, AccessCount = 0,
                      Created = 0, Updated = 0\<rparr>]"
    by (simp add: CreateShortURL_custom_free)
next
  assume "urlRepositoryImpl_GetByShortCode Q pb c st0 = (Inl (SvcError e), st1)
        \<and> Code e = ErrorCodeNotFound"
  then show "urlRepositoryImpl_ExistsByShortCode Q pb c st0 = (Inr False, st1)"
    by (simp add: urlRepositoryImpl_ExistsByShortCode_def)
next
  assume "urlRepositoryImpl_GetByShortCode Q pb c st0 = (Inl err, st1)
        \<and> (case errors_As err of Some e' \<Rightarrow> Code e' \<noteq> ErrorCodeNotFound | None \<Rightarrow> True)"
  then show "urlRepositoryImpl_ExistsByShortCode Q pb c st0 = (Inl err, st1)"
    by (auto simp: urlRepositoryImpl_ExistsByShortCode_def split: option.splits)
next
  assume "urlRepositoryImpl_GetByShortCode Q pb c st0 = (Inr (Some u), st1)"
  then show "urlRepositoryImpl_ExistsByShortCode Q pb c st0 = (Inr True, st1)"
    by (simp add: urlRepositoryImpl_ExistsByShortCode_def)
qed

text \<open>
  The theorem on the custom code \<open>golang\<close> and an empty store: the lookup answers with an
  empty list, which \<open>GetByShortCode\<close> reports as not found and \<open>ExistsByShortCode\<close> as
  \<open>false\<close>; the service checks once and creates. With a store that cannot be reached, the
  internal error of the lookup is returned by \<open>ExistsByShortCode\<close>.
\<close>

theorem CreateShortURL_custom_code_free_witness:
  "urlRepositoryImpl_GetByShortCode go_platform mem_PBClient ''golang'' [] =
     (Inl (SvcError (NewNotFoundError ''repository.GetByShortCode'' ''short URL not found'')), [])
   \<and> urlRepositoryImpl_ExistsByShortCode go_platform mem_PBClient ''golang'' [] = (Inr False, [])
   \<and> resolveCode go_platform (example_service mem_PBClient) (Some ''golang'') (world0 []) =
       (Return ''golang'',
        \<lparr>store = [], rand_pos = 0, calls = [CallExistsByShortCode ''golang'']\<rparr>)
   \<and> calls (snd (CreateShortURL go_platform (example_service mem_PBClient)
        \<lparr>req_URL = ''https://example.com/a'', req_CustomCode = Some ''golang''\<rparr> (world0 []))) =
       [CallExistsByShortCode ''golang'',
        CallCreate \<lparr>ID = '''', URL = ''https://example.com/a'', ShortCode = ''golang'',
                    AccessCount = 0, Created = 0, Updated = 0\<rparr>]
   \<and> urlRepositoryImpl_ExistsByShortCode go_platform down_PBClient ''golang'' [] =
       (Inl (SvcError (NewInternalError ''repository.GetByShortCode''
          ''failed to lookup record'' (Some (LibError ''connection refused'')))), [])
   \<and> urlRepositoryImpl_ExistsByShortCode go_platform mem_PBClient ''golang'' [golang_record]
       = (Inr True, [golang_record])"
proof -
  note T = CreateShortURL_custom_code_free[where P = go_platform
      and S = "example_service mem_PBClient" and c = "''golang''"
      and req = "\<lparr>req_URL = ''https://example.com/a'', req_CustomCode = Some ''golang''\<rparr>"
      and w = "world0 []" and st = "[]" and Q = go_platform]
  let ?nf = "NewNotFoundError ''repository.GetByShortCode'' ''short URL not found''"
  let ?down = "SvcError (NewInternalError ''repository.GetByShortCode''
          ''failed to lookup record'' (Some (LibError ''connection refused'')))"
  let ?u = "\<lparr>ID = ''id-golang'', URL = ''https://go.dev/'', ShortCode = ''golang'',
        AccessCount = 0, Created = 0, Updated = 0\<rparr>"
  have g: "urlRepositoryImpl_GetByShortCode go_platform mem_PBClient ''golang'' [] =
     (Inl (SvcError ?nf), [])"
    by (simp add: mem_GetByShortCode)
  have gd: "urlRepositoryImpl_GetByShortCode go_platform down_PBClient ''golang'' [] =
     (Inl ?down, [])"
    by (simp add: urlRepositoryImpl_GetByShortCode_def down_PBClient_def)
  have gr: "urlRepositoryImpl_GetByShortCode go_platform mem_PBClient ''golang'' [golang_record] =
     (Inr (Some ?u), [golang_record])"
    by (simp add: mem_GetByShortCode golang_record_def parsePBTime_def)
  have e: "urlRepositoryImpl_ExistsByShortCode go_platform mem_PBClient ''golang'' []
      = (Inr False, [])"
    using T[where pb = mem_PBClient and ?st0.0 = "[]" and ?st1.0 = "[]" and e = ?nf
        and err = "SvcError ?nf" and u = ?u] g
    by (simp add: NewNotFoundError_def)
  have c: "calls (snd (CreateShortURL go_platform (example_service mem_PBClient)
        \<lparr>req_URL = ''https://example.com/a'', req_CustomCode = Some ''golang''\<rparr> (world0 []))) =
       [CallExistsByShortCode ''golang'',
        CallCreate \<lparr>ID = '''', URL = ''https://example.com/a'', ShortCode = ''golang'',
                    AccessCount = 0, Created = 0, Updated = 0\<rparr>]"
    using T[where pb = mem_PBClient and ?st0.0 = "[]" and ?st1.0 = "[]" and e = ?nf
        and err = "SvcError ?nf" and u = ?u] e
    by (simp add: example_service_sel ValidateURL_example_a ValidateShortCode_examples
          example_repo_def world0_def)
  have d: "urlRepositoryImpl_ExistsByShortCode go_platform down_PBClient ''golang'' [] =
       (Inl ?down, [])"
    using T[where pb = down_PBClient and ?st0.0 = "[]" and ?st1.0 = "[]" and e = ?nf
        and err = ?down and u = ?u] gd
    by (simp add: NewInternalError_def)
  have r: "urlRepositoryImpl_ExistsByShortCode go_platform mem_PBClient ''golang''
      [golang_record] = (Inr True, [golang_record])"
    using T[where pb = mem_PBClient and ?st0.0 = "[golang_record]"
        and ?st1.0 = "[golang_record]" and e = ?nf and err = "SvcError ?nf" and u = ?u] gr
    by simp
  have rc: "resolveCode go_platform (example_service mem_PBClient) (Some ''golang'')
      (world0 []) =
       (Return ''golang'',
        \<lparr>store = [], rand_pos = 0, calls = [CallExistsByShortCode ''golang'']\<rparr>)"
    using T[where pb = mem_PBClient and ?st0.0 = "[]" and ?st1.0 = "[]" and e = ?nf
        and err = "SvcError ?nf" and u = ?u] e
    by (simp add: example_service_sel ValidateShortCode_examples example_repo_def world0_def)
  from g e rc c d r show ?thesis by simp
qed

text \<open>
  C3. For a custom code \<open>c\<close> that passes the shape validation: if the existence check
  answers "exists", resolving the code fails with a duplicate error, and \<open>CreateShortURL\<close>
  on a request with a valid URL returns that error, having called the repository once,
  for that check, and never \<open>Create\<close>; if the existence check itself fails with \<open>err\<close>,
  they fail with an internal error whose cause is \<open>err\<close>, again without calling \<open>Create\<close>.
\<close>

theorem CreateShortURL_custom_code_taken:
  "(ValidateShortCode (validator S) c = None
      \<and> ExistsByShortCode (repo S) c (store w) = (Inr True, st) \<longrightarrow>
      resolveCode P S (Some c) w =
        (Error (SvcError (NewDuplicateError ''service.CreateShortURL''
           ''short code already exists'')),
         w\<lparr>store := st, calls := calls w @ [CallExistsByShortCode c]\<rparr>))
   \<and> (ValidateShortCode (validator S) c = None
      \<and> ExistsByShortCode (repo S) c (store w) = (Inl err, st) \<longrightarrow>
      resolveCode P S (Some c) w =
        (Error (SvcError (NewInternalError ''service.CreateShortURL''
           ''failed to check code existence'' (Some err))),
         w\<lparr>store := st, calls := calls w @ [CallExistsByShortCode c]\<rparr>))
   \<and> (ValidateURL P (validator S) (req_URL req) = None \<and> req_CustomCode req = Some c
      \<and> ValidateShortCode (validator S) c = None
      \<and> ExistsByShortCode (repo S) c (store w) = (Inr True, st) \<longrightarrow>
      CreateShortURL P S req w =
        (Error (SvcError (NewDuplicateError ''service.CreateShortURL''
           ''short code already exists'')),
         w\<lparr>store := st, calls := calls w @ [CallExistsByShortCode c]\<rparr>)
      \<and> create_calls (calls (snd (CreateShortURL P S req w))) = create_calls (calls w))
   \<and> (ValidateURL P (validator S) (req_URL req) = None \<and> req_CustomCode req = Some c
      \<and> ValidateShortCode (validator S) c = None
      \<and> ExistsByShortCode (repo S) c (store w) = (Inl err, st) \<longrightarrow>
      CreateShortURL P S req w =
        (Error (SvcError (NewInternalError ''service.CreateShortURL''
           ''failed to check code existence'' (Some err))),
         w\<lparr>store := st, calls := calls w @ [CallExistsByShortCode c]\<rparr>)
      \<and> create_calls (calls (snd (CreateShortURL P S req w))) = create_calls (calls w))
   \<and> Code (NewDuplicateError op msg) = ErrorCodeDuplicate
   \<and> Code (NewInternalError op msg cause) = ErrorCodeInternal
   \<and> Err (NewInternalError op msg cause) = cause"
  by (simp add: CreateShortURL_duplicate CreateShortURL_exists_failed create_calls_append
        resolveCode_custom NewDuplicateError_def NewInternalError_def)

text \<open>
  The theorem on the custom code \<open>golang\<close>: with a store that holds a record of that code,
  and with a store that cannot be reached.
\<close>

theorem CreateShortURL_custom_code_taken_witness:
  "ExistsByShortCode (repo (example_service mem_PBClient)) ''golang'' [golang_record]
     = (Inr True, [golang_record])
   \<and> resolveCode go_platform (example_service mem_PBClient) (Some ''golang'')
        (world0 [golang_record]) =
       (Error (SvcError (NewDuplicateError ''service.CreateShortURL''
          ''short code already exists'')),
        \<lparr>store = [golang_record], rand_pos = 0, calls = [CallExistsByShortCode ''golang'']\<rparr>)
   \<and> CreateShortURL go_platform (example_service mem_PBClient)
        \<lparr>req_URL = ''https://example.com/a'', req_CustomCode = Some ''golang''\<rparr>
        (world0 [golang_record]) =
       (Error (SvcError (NewDuplicateError ''service.CreateShortURL''
          ''short code already exists'')),
        \<lparr>store = [golang_record], rand_pos = 0, calls = [CallExistsByShortCode ''golang'']\<rparr>)
   \<and> CreateShortURL go_platform (example_service down_PBClient)
        \<lparr>req_URL = ''https://example.com/a'', req_CustomCode = Some ''golang''\<rparr>
        (world0 [golang_record]) =
       (Error (SvcError (NewInternalError ''service.CreateShortURL''
          ''failed to check code existence''
          (Some (SvcError (NewInternalError ''repository.GetByShortCode''
             ''failed to lookup record'' (Some (LibError ''connection refused''))))))),
        \<lparr>store = [golang_record], rand_pos = 0, calls = [CallExistsByShortCode ''golang'']\<rparr>)"
proof -
  note T = CreateShortURL_custom_code_taken[where P = go_platform and c = "''golang''"
      and req = "\<lparr>req_URL = ''https://example.com/a'', req_CustomCode = Some ''golang''\<rparr>"
      and w = "world0 [golang_record]" and st = "[golang_record]"
      and op = "''service.CreateShortURL''" and msg = "''failed to check code existence''"
      and cause = None
      and err = "SvcError (NewInternalError ''repository.GetByShortCode''
             ''failed to lookup record'' (Some (LibError ''connection refused'')))"]
  have x: "ExistsByShortCode (repo (example_service mem_PBClient)) ''golang'' [golang_record]
     = (Inr True, [golang_record])"
    by (simp add: example_service_sel mem_Exists golang_record_def)
  have a: "CreateShortURL go_platform (example_service mem_PBClient)
        \<lparr>req_URL = ''https://example.com/a'', req_CustomCode = Some ''golang''\<rparr>
        (world0 [golang_record]) =
       (Error (SvcError (NewDuplicateError ''service.CreateShortURL''
          ''short code already exists'')),
        \<lparr>store = [golang_record], rand_pos = 0, calls = [CallExistsByShortCode ''golang'']\<rparr>)"
    using T[where S = "example_service mem_PBClient"] x
    by (simp add: example_service_sel ValidateURL_example_a ValidateShortCode_examples
          world0_def)
  have b: "CreateShortURL go_platform (example_service down_PBClient)
        \<lparr>req_URL = ''https://example.com/a'', req_CustomCode = Some ''golang''\<rparr>
        (world0 [golang_record]) =
       (Error (SvcError (NewInternalError ''service.CreateShortURL''
          ''failed to check code existence''
          (Some (SvcError (NewInternalError ''repository.GetByShortCode''
             ''failed to lookup record'' (Some (LibError ''connection refused''))))))),
        \<lparr>store = [golang_record], rand_pos = 0, calls = [CallExistsByShortCode ''golang'']\<rparr>)"
    using T[where S = "example_service down_PBClient"]
    by (simp add: example_service_sel ValidateURL_example_a ValidateShortCode_examples
          down_Exists world0_def)
  have rc: "resolveCode go_platform (example_service mem_PBClient) (Some ''golang'')
        (world0 [golang_record]) =
       (Error (SvcError (NewDuplicateError ''service.CreateShortURL''
          ''short code already exists'')),
        \<lparr>store = [golang_record], rand_pos = 0, calls = [CallExistsByShortCode ''golang'']\<rparr>)"
    using T[where S = "example_service mem_PBClient"] x
    by (simp add: example_service_sel ValidateShortCode_examples world0_def)
  from x rc a b show ?thesis by simp
qed

text \<open>
  C9. Whatever the request, the store and the platform: if URL validation fails, or the
  shape validation of the custom code fails, \<open>CreateShortURL\<close> returns that error and has
  called nothing; if the existence check of the custom code fails, or the generation of a
  unique code fails, it returns an internal error that wraps the cause and has handed no
  record to \<open>Create\<close>; if the existence check finds the custom code taken, it returns the
  duplicate error after that one call and has handed no record to \<open>Create\<close>. In general,
  every error of the block that resolves the code is returned as it is, in the state the
  block left, and that block never calls \<open>Create\<close> and never panics. When validation and
  resolution succeed, the record handed to \<open>Create\<close> has the request's URL, the resolved
  code (the custom code, or the generated one), and access count 0; it is the only call
  after the resolution, and the answer of \<open>Create\<close> decides the result: its error, or the
  response copied from the stored record. In every run at most one record is handed to
  \<open>Create\<close>, and only after the URL has passed validation.
\<close>

theorem CreateShortURL_short_circuit:
  "(ValidateURL P (validator S) (req_URL req) = Some err \<longrightarrow>
      CreateShortURL P S req w = (Error err, w))
   \<and> (ValidateURL P (validator S) (req_URL req) = None \<and> req_CustomCode req = Some c
        \<and> ValidateShortCode (validator S) c = Some err \<longrightarrow>
      CreateShortURL P S req w = (Error err, w))
   \<and> (ValidateURL P (validator S) (req_URL req) = None \<and> req_CustomCode req = Some c
        \<and> ValidateShortCode (validator S) c = None
        \<and> ExistsByShortCode (repo S) c (store w) = (Inl err, st) \<longrightarrow>
      fst (CreateShortURL P S req w) =
        Error (SvcError (NewInternalError ''service.CreateShortURL''
          ''failed to check code existence'' (Some err)))
      \<and> create_calls (calls (snd (CreateShortURL P S req w))) = create_calls (calls w))
   \<and> (ValidateURL P (validator S) (req_URL req) = None \<and> req_CustomCode req = None
        \<and> generateUniqueShortCode P S w = (Error err, w1) \<longrightarrow>
      CreateShortURL P S req w =
        (Error (SvcError (NewInternalError ''service.CreateShortURL''
          ''failed to generate short code'' (Some err))), w1)
      \<and> create_calls (calls w1) = create_calls (calls w))
   \<and> (ValidateURL P (validator S) (req_URL req) = None \<and> req_CustomCode req = Some c
        \<and> ValidateShortCode (validator S) c = None
        \<and> ExistsByShortCode (repo S) c (store w) = (Inr False, st) \<longrightarrow>
      calls (snd (CreateShortURL P S req w)) =
        calls w @ [CallExistsByShortCode c,
          CallCreate \<lparr>ID = '''', URL = req_URL req, ShortCode = c, AccessCount = 0,
                      Created = 0, Updated = 0\<rparr>])
   \<and> (ValidateURL P (validator S) (req_URL req) = None \<and> req_CustomCode req = None
        \<and> generateUniqueShortCode P S w = (Return code, w1) \<longrightarrow>
      calls (snd (CreateShortURL P S req w)) =
        calls w1 @ [CallCreate \<lparr>ID = '''', URL = req_URL req, ShortCode = code,
                      AccessCount = 0, Created = 0, Updated = 0\<rparr>]
      \<and> create_calls (calls w1) = create_calls (calls w))
   \<and> (create_calls (calls (snd (CreateShortURL P S req w))) = create_calls (calls w)
       \<or> (\<exists>code'. create_calls (calls (snd (CreateShortURL P S req w))) =
             create_calls (calls w) @ [\<lparr>ID = '''', URL = req_URL req, ShortCode = code',
                AccessCount = 0, Created = 0, Updated = 0\<rparr>]
           \<and> ValidateURL P (validator S) (req_URL req) = None))
   \<and> (ValidateURL P (validator S) (req_URL req) = None \<and> req_CustomCode req = Some c
        \<and> ValidateShortCode (validator S) c = None
        \<and> ExistsByShortCode (repo S) c (store w) = (Inr True, st) \<longrightarrow>
      CreateShortURL P S req w =
        (Error (SvcError (NewDuplicateError ''service.CreateShortURL''
           ''short code already exists'')),
         w\<lparr>store := st, calls := calls w @ [CallExistsByShortCode c]\<rparr>)
      \<and> create_calls (calls (snd (CreateShortURL P S req w))) = create_calls (calls w))
   \<and> (ValidateURL P (validator S) (req_URL req) = None \<and> req_CustomCode req = Some c
        \<and> ValidateShortCode (validator S) c = None
        \<and> ExistsByShortCode (repo S) c (store w) = (Inl err, st) \<longrightarrow>
      CreateShortURL P S req w =
        (Error (SvcError (NewInternalError ''service.CreateShortURL''
           ''failed to check code existence'' (Some err))),
         w\<lparr>store := st, calls := calls w @ [CallExistsByShortCode c]\<rparr>))
   \<and> (ValidateURL P (validator S) (req_URL req) = None
        \<and> resolveCode P S (req_CustomCode req) w = (Error err, w1) \<longrightarrow>
      CreateShortURL P S req w = (Error err, w1)
      \<and> create_calls (calls w1) = create_calls (calls w))
   \<and> (ValidateURL P (validator S) (req_URL req) = None
        \<and> resolveCode P S (req_CustomCode req) w = (Return code, w1)
        \<and> Create (repo S) \<lparr>ID = '''', URL = req_URL req, ShortCode = code, AccessCount = 0,
                            Created = 0, Updated = 0\<rparr> (store w1) = (res, st') \<longrightarrow>
      CreateShortURL P S req w =
        ((case res of
            Inl e \<Rightarrow> Error e
          | Inr u \<Rightarrow> Return \<lparr>created_ID = ID u, created_URL = URL u,
                               created_ShortCode = ShortCode u, created_CreatedAt = Created u,
                               created_UpdatedAt = Updated u\<rparr>),
         w1\<lparr>store := st', calls := calls w1 @
            [CallCreate \<lparr>ID = '''', URL = req_URL req, ShortCode = code, AccessCount = 0,
                         Created = 0, Updated = 0\<rparr>]\<rparr>)
      \<and> create_calls (calls w1) = create_calls (calls w))
   \<and> fst (resolveCode P S (req_CustomCode req) w) \<noteq> Panic msg
   \<and> fst (CreateShortURL P S req w) \<noteq> Panic msg"
proof (intro conjI impI)
  assume "ValidateURL P (validator S) (req_URL req) = Some err"
  then show "CreateShortURL P S req w = (Error err, w)" by (rule CreateShortURL_invalid_url)
next
  assume "ValidateURL P (validator S) (req_URL req) = None \<and> req_CustomCode req = Some c
        \<and> ValidateShortCode (validator S) c = Some err"
  then show "CreateShortURL P S req w = (Error err, w)"
    by (simp add: CreateShortURL_invalid_code)
next
  assume h: "ValidateURL P (validator S) (req_URL req) = None \<and> req_CustomCode req = Some c
        \<and> ValidateShortCode (validator S) c = None
        \<and> ExistsByShortCode (repo S) c (store w) = (Inl err, st)"
  then show "fst (CreateShortURL P S req w) =
        Error (SvcError (NewInternalError ''service.CreateShortURL''
          ''failed to check code existence'' (Some err)))"
    by (simp add: CreateShortURL_exists_failed)
  from h show "create_calls (calls (snd (CreateShortURL P S req w))) = create_calls (calls w)"
    by (simp add: CreateShortURL_exists_failed create_calls_append)
next
  assume h: "ValidateURL P (validator S) (req_URL req) = None \<and> req_CustomCode req = None
        \<and> generateUniqueShortCode P S w = (Error err, w1)"
  then show "CreateShortURL P S req w =
        (Error (SvcError (NewInternalError ''service.CreateShortURL''
          ''failed to generate short code'' (Some err))), w1)"
    by (simp add: CreateShortURL_generation_failed)
  from h show "create_calls (calls w1) = create_calls (calls w)"
    by (blast intro: generateUniqueShortCode_no_create)
next
  assume h: "ValidateURL P (validator S) (req_URL req) = None \<and> req_CustomCode req = Some c
        \<and> ValidateShortCode (validator S) c = None
        \<and> ExistsByShortCode (repo S) c (store w) = (Inr False, st)"
  obtain res st' where
    "Create (repo S) \<lparr>ID = '''', URL = req_URL req, ShortCode = c, AccessCount = 0,
       Created = 0, Updated = 0\<rparr> st = (res, st')" by force
  with h show "calls (snd (CreateShortURL P S req w)) =
        calls w @ [CallExistsByShortCode c,
          CallCreate \<lparr>ID = '''', URL = req_URL req, ShortCode = c, AccessCount = 0,
                      Created = 0, Updated = 0\<rparr>]"
    by (simp add: CreateShortURL_custom_free)
next
  assume h: "ValidateURL P (validator S) (req_URL req) = None \<and> req_CustomCode req = None
        \<and> generateUniqueShortCode P S w = (Return code, w1)"
  obtain res st' where
    "Create (repo S) \<lparr>ID = '''', URL = req_URL req, ShortCode = code, AccessCount = 0,
       Created = 0, Updated = 0\<rparr> (store w1) = (res, st')" by force
  with h show "calls (snd (CreateShortURL P S req w)) =
        calls w1 @ [CallCreate \<lparr>ID = '''', URL = req_URL req, ShortCode = code,
                      AccessCount = 0, Created = 0, Updated = 0\<rparr>]"
    by (simp add: CreateShortURL_generated)
  from h show "create_calls (calls w1) = create_calls (calls w)"
    by (blast intro: generateUniqueShortCode_no_create)
next
  show "create_calls (calls (snd (CreateShortURL P S req w))) = create_calls (calls w)
       \<or> (\<exists>code'. create_calls (calls (snd (CreateShortURL P S req w))) =
             create_calls (calls w) @ [\<lparr>ID = '''', URL = req_URL req, ShortCode = code',
                AccessCount = 0, Created = 0, Updated = 0\<rparr>]
           \<and> ValidateURL P (validator S) (req_URL req) = None)"
    by (rule CreateShortURL_creates_at_most_one)
next
  assume h: "ValidateURL P (validator S) (req_URL req) = None \<and> req_CustomCode req = Some c
        \<and> ValidateShortCode (validator S) c = None
        \<and> ExistsByShortCode (repo S) c (store w) = (Inr True, st)"
  then show "CreateShortURL P S req w =
        (Error (SvcError (NewDuplicateError ''service.CreateShortURL''
           ''short code already exists'')),
         w\<lparr>store := st, calls := calls w @ [CallExistsByShortCode c]\<rparr>)"
    by (simp add: CreateShortURL_duplicate)
  from h show "create_calls (calls (snd (CreateShortURL P S req w))) = create_calls (calls w)"
    by (simp add: CreateShortURL_duplicate create_calls_append)
next
  assume "ValidateURL P (validator S) (req_URL req) = None \<and> req_CustomCode req = Some c
        \<and> ValidateShortCode (validator S) c = None
        \<and> ExistsByShortCode (repo S) c (store w) = (Inl err, st)"
  then show "CreateShortURL P S req w =
        (Error (SvcError (NewInternalError ''service.CreateShortURL''
           ''failed to check code existence'' (Some err))),
         w\<lparr>store := st, calls := calls w @ [CallExistsByShortCode c]\<rparr>)"
    by (simp add: CreateShortURL_exists_failed)
next
  assume h: "ValidateURL P (validator S) (req_URL req) = None
        \<and> resolveCode P S (req_CustomCode req) w = (Error err, w1)"
  then show "CreateShortURL P S req w = (Error err, w1)"
    by (simp add: CreateShortURL_resolve_failed)
  from h show "create_calls (calls w1) = create_calls (calls w)"
    by (blast intro: resolveCode_no_create)
next
  assume h: "ValidateURL P (validator S) (req_URL req) = None
        \<and> resolveCode P S (req_CustomCode req) w = (Return code, w1)
        \<and> Create (repo S) \<lparr>ID = '''', URL = req_URL req, ShortCode = code, AccessCount = 0,
                            Created = 0, Updated = 0\<rparr> (store w1) = (res, st')"
  then show "CreateShortURL P S req w =
        ((case res of
            Inl e \<Rightarrow> Error e
          | Inr u \<Rightarrow> Return \<lparr>created_ID = ID u, created_URL = URL u,
                               created_ShortCode = ShortCode u, created_CreatedAt = Created u,
                               created_UpdatedAt = Updated u\<rparr>),
         w1\<lparr>store := st', calls := calls w1 @
            [CallCreate \<lparr>ID = '''', URL = req_URL req, ShortCode = code, AccessCount = 0,
                         Created = 0, Updated = 0\<rparr>]\<rparr>)"
    by (simp add: CreateShortURL_resolved)
  from h show "create_calls (calls w1) = create_calls (calls w)"
    by (blast intro: resolveCode_no_create)
next
  show "fst (resolveCode P S (req_CustomCode req) w) \<noteq> Panic msg"
    using resolveCode_no_panic[of P S "req_CustomCode req" w msg]
    by (cases "resolveCode P S (req_CustomCode req) w") auto
next
  show "fst (CreateShortURL P S req w) \<noteq> Panic msg"
    using CreateShortURL_no_panic[of P S req w msg]
    by (cases "CreateShortURL P S req w") auto
qed

text \<open>
  The theorem on its runs: an invalid URL, an invalid custom code, an unreachable store, a
  random source without entropy, a free custom code, a generated code, a custom code that
  is taken, and the results in full of the failing and of the successful resolution.
\<close>

theorem CreateShortURL_short_circuit_witness:
  "CreateShortURL go_platform (example_service mem_PBClient)
      \<lparr>req_URL = ''ftp://example.com'', req_CustomCode = None\<rparr> (world0 []) =
     (Error (SvcError (NewValidationError ''validator.ValidateURL''
        ''only HTTP and HTTPS URLs are allowed'' None)), world0 [])
   \<and> CreateShortURL go_platform (example_service mem_PBClient)
      \<lparr>req_URL = ''https://example.com/a'', req_CustomCode = Some ''ab''\<rparr> (world0 []) =
     (Error (SvcError (NewValidationError ''validator.ValidateShortCode''
        ''short code must be between 4 and 20 characters'' None)), world0 [])
   \<and> fst (CreateShortURL go_platform (example_service down_PBClient)
      \<lparr>req_URL = ''https://example.com/a'', req_CustomCode = Some ''golang''\<rparr> (world0 [])) =
     Error (SvcError (NewInternalError ''service.CreateShortURL''
        ''failed to check code existence''
        (Some (SvcError (NewInternalError ''repository.GetByShortCode''
           ''failed to lookup record'' (Some (LibError ''connection refused'')))))))
   \<and> create_calls (calls (snd (CreateShortURL go_platform (example_service down_PBClient)
      \<lparr>req_URL = ''https://example.com/a'', req_CustomCode = Some ''golang''\<rparr> (world0 []))))
       = []
   \<and> fst (CreateShortURL go_platform_no_entropy (example_service mem_PBClient)
      \<lparr>req_URL = ''https://example.com/a'', req_CustomCode = None\<rparr> (world0 [])) =
     Error (SvcError (NewInternalError ''service.CreateShortURL''
        ''failed to generate short code''
        (Some (SvcError (NewInternalError ''service.generateUniqueShortCode''
           ''failed to generate short code'' (Some (LibError ''EOF'')))))))
   \<and> calls (snd (CreateShortURL go_platform_no_entropy (example_service mem_PBClient)
      \<lparr>req_URL = ''https://example.com/a'', req_CustomCode = None\<rparr> (world0 []))) = []
   \<and> calls (snd (CreateShortURL go_platform (example_service mem_PBClient)
      \<lparr>req_URL = ''https://example.com/a'', req_CustomCode = Some ''golang''\<rparr> (world0 []))) =
     [CallExistsByShortCode ''golang'',
      CallCreate \<lparr>ID = '''', URL = ''https://example.com/a'', ShortCode = ''golang'',
                  AccessCount = 0, Created = 0, Updated = 0\<rparr>]
   \<and> calls (snd (CreateShortURL go_platform (example_service mem_PBClient)
      \<lparr>req_URL = ''https://example.com/a'', req_CustomCode = None\<rparr> (world0 []))) =
     [CallExistsByShortCode ''012345'',
      CallCreate \<lparr>ID = '''', URL = ''https://example.com/a'', ShortCode = ''012345'',
                  AccessCount = 0, Created = 0, Updated = 0\<rparr>]
   \<and> CreateShortURL go_platform (example_service mem_PBClient)
        \<lparr>req_URL = ''https://example.com/a'', req_CustomCode = Some ''golang''\<rparr>
        (world0 [golang_record]) =
       (Error (SvcError (NewDuplicateError ''service.CreateShortURL''
          ''short code already exists'')),
        \<lparr>store = [golang_record], rand_pos = 0, calls = [CallExistsByShortCode ''golang'']\<rparr>)
   \<and> create_calls (calls (snd (CreateShortURL go_platform (example_service mem_PBClient)
        \<lparr>req_URL = ''https://example.com/a'', req_CustomCode = Some ''golang''\<rparr>
        (world0 [golang_record])))) = []
   \<and> CreateShortURL go_platform (example_service down_PBClient)
        \<lparr>req_URL = ''https://example.com/a'', req_CustomCode = Some ''golang''\<rparr> (world0 []) =
       (Error (SvcError (NewInternalError ''service.CreateShortURL''
          ''failed to check code existence''
          (Some (SvcError (NewInternalError ''repository.GetByShortCode''
             ''failed to lookup record'' (Some (LibError ''connection refused''))))))),
        \<lparr>store = [], rand_pos = 0, calls = [CallExistsByShortCode ''golang'']\<rparr>)
   \<and> CreateShortURL go_platform_no_entropy (example_service mem_PBClient)
        \<lparr>req_URL = ''https://example.com/a'', req_CustomCode = None\<rparr> (world0 []) =
       (Error (SvcError (NewInternalError ''service.CreateShortURL''
          ''failed to generate short code''
          (Some (SvcError (NewInternalError ''service.generateUniqueShortCode''
             ''failed to generate short code'' (Some (LibError ''EOF''))))))),
        \<lparr>store = [], rand_pos = 1, calls = []\<rparr>)
   \<and> CreateShortURL go_platform (example_service mem_PBClient)
        \<lparr>req_URL = ''https://example.com/a'', req_CustomCode = Some ''golang''\<rparr> (world0 []) =
       (Return \<lparr>created_ID = ''id-golang'', created_URL = ''https://example.com/a'',
                created_ShortCode = ''golang'', created_CreatedAt = 0,
                created_UpdatedAt = 0\<rparr>,
        \<lparr>store = [\<lparr>pb_ID = ''id-golang'', pb_Created = '''', pb_Updated = '''',
                   pb_URL = ''https://example.com/a'', pb_ShortCode = ''golang'',
                   pb_AccessCount = 0\<rparr>],
         rand_pos = 0,
         calls = [CallExistsByShortCode ''golang'',
           CallCreate \<lparr>ID = '''', URL = ''https://example.com/a'', ShortCode = ''golang'',
                       AccessCount = 0, Created = 0, Updated = 0\<rparr>]\<rparr>)"
proof -
  note T = CreateShortURL_short_circuit
  let ?mem = "example_service mem_PBClient"
  let ?a = "''https://example.com/a''"
  have ne: "ValidateURL go_platform_no_entropy NewURLValidator ?a = None"
    by (simp add: ValidateURL_cases validator_consts go_platform_no_entropy_def
          go_platform_def parse_https_example_a strings_ToLower_examples)
  have c1: "CreateShortURL go_platform ?mem
      \<lparr>req_URL = ''ftp://example.com'', req_CustomCode = None\<rparr> (world0 []) =
     (Error (SvcError (NewValidationError ''validator.ValidateURL''
        ''only HTTP and HTTPS URLs are allowed'' None)), world0 [])"
    using T[where P = go_platform and S = ?mem and w = "world0 []"
        and req = "\<lparr>req_URL = ''ftp://example.com'', req_CustomCode = None\<rparr>"
        and err = "SvcError (NewValidationError ''validator.ValidateURL''
          ''only HTTP and HTTPS URLs are allowed'' None)"]
    by (simp add: example_service_sel ValidateURL_example_ftp)
  have c2: "CreateShortURL go_platform ?mem
      \<lparr>req_URL = ?a, req_CustomCode = Some ''ab''\<rparr> (world0 []) =
     (Error (SvcError (NewValidationError ''validator.ValidateShortCode''
        ''short code must be between 4 and 20 characters'' None)), world0 [])"
    using T[where P = go_platform and S = ?mem and w = "world0 []"
        and req = "\<lparr>req_URL = ?a, req_CustomCode = Some ''ab''\<rparr>" and c = "''ab''"
        and err = "SvcError (NewValidationError ''validator.ValidateShortCode''
          ''short code must be between 4 and 20 characters'' None)"]
    by (simp add: example_service_sel ValidateURL_example_a ValidateShortCode_examples)
  have c3: "fst (CreateShortURL go_platform (example_service down_PBClient)
      \<lparr>req_URL = ?a, req_CustomCode = Some ''golang''\<rparr> (world0 [])) =
     Error (SvcError (NewInternalError ''service.CreateShortURL''
        ''failed to check code existence''
        (Some (SvcError (NewInternalError ''repository.GetByShortCode''
           ''failed to lookup record'' (Some (LibError ''connection refused'')))))))
    \<and> create_calls (calls (snd (CreateShortURL go_platform (example_service down_PBClient)
      \<lparr>req_URL = ?a, req_CustomCode = Some ''golang''\<rparr> (world0 [])))) = []"
    using T[where P = go_platform and S = "example_service down_PBClient" and w = "world0 []"
        and req = "\<lparr>req_URL = ?a, req_CustomCode = Some ''golang''\<rparr>" and c = "''golang''"
        and err = "SvcError (NewInternalError ''repository.GetByShortCode''
           ''failed to lookup record'' (Some (LibError ''connection refused'')))"
        and st = "[]"]
    by (simp add: example_service_sel ValidateURL_example_a ValidateShortCode_examples
          down_Exists world0_def)
  have c4: "fst (CreateShortURL go_platform_no_entropy ?mem
      \<lparr>req_URL = ?a, req_CustomCode = None\<rparr> (world0 [])) =
     Error (SvcError (NewInternalError ''service.CreateShortURL''
        ''failed to generate short code''
        (Some (SvcError (NewInternalError ''service.generateUniqueShortCode''
           ''failed to generate short code'' (Some (LibError ''EOF'')))))))
    \<and> calls (snd (CreateShortURL go_platform_no_entropy ?mem
      \<lparr>req_URL = ?a, req_CustomCode = None\<rparr> (world0 []))) = []"
    using T[where P = go_platform_no_entropy and S = ?mem and w = "world0 []"
        and req = "\<lparr>req_URL = ?a, req_CustomCode = None\<rparr>"
        and err = "SvcError (NewInternalError ''service.generateUniqueShortCode''
           ''failed to generate short code'' (Some (LibError ''EOF'')))"
        and ?w1.0 = "\<lparr>store = [], rand_pos = 1, calls = []\<rparr>"]
    by (simp add: example_service_sel ne run_no_entropy_generate)
  have c5: "calls (snd (CreateShortURL go_platform ?mem
      \<lparr>req_URL = ?a, req_CustomCode = Some ''golang''\<rparr> (world0 []))) =
     [CallExistsByShortCode ''golang'',
      CallCreate \<lparr>ID = '''', URL = ?a, ShortCode = ''golang'',
                  AccessCount = 0, Created = 0, Updated = 0\<rparr>]"
    using T[where P = go_platform and S = ?mem and w = "world0 []"
        and req = "\<lparr>req_URL = ?a, req_CustomCode = Some ''golang''\<rparr>" and c = "''golang''"
        and st = "[]"]
    by (simp add: example_service_sel ValidateURL_example_a ValidateShortCode_examples
          mem_Exists world0_def)
  have c6: "calls (snd (CreateShortURL go_platform ?mem
      \<lparr>req_URL = ?a, req_CustomCode = None\<rparr> (world0 []))) =
     [CallExistsByShortCode ''012345'',
      CallCreate \<lparr>ID = '''', URL = ?a, ShortCode = ''012345'',
                  AccessCount = 0, Created = 0, Updated = 0\<rparr>]"
    using T[where P = go_platform and S = ?mem and w = "world0 []"
        and req = "\<lparr>req_URL = ?a, req_CustomCode = None\<rparr>" and code = "''012345''"
        and ?w1.0 = "\<lparr>store = [], rand_pos = 6, calls = [CallExistsByShortCode ''012345'']\<rparr>"]
    by (simp add: example_service_sel ValidateURL_example_a run_mem_generate)
  let ?dn = "SvcError (NewInternalError ''repository.GetByShortCode''
           ''failed to lookup record'' (Some (LibError ''connection refused'')))"
  let ?ge = "SvcError (NewInternalError ''service.generateUniqueShortCode''
           ''failed to generate short code'' (Some (LibError ''EOF'')))"
  let ?rec = "\<lparr>ID = '''', URL = ?a, ShortCode = ''golang'', AccessCount = 0,
               Created = 0, Updated = 0\<rparr>"
  let ?pb = "\<lparr>pb_ID = ''id-golang'', pb_Created = '''', pb_Updated = '''',
              pb_URL = ?a, pb_ShortCode = ''golang'', pb_AccessCount = 0\<rparr>"
  have x: "ExistsByShortCode (repo ?mem) ''golang'' [golang_record]
     = (Inr True, [golang_record])"
    by (simp add: example_service_sel mem_Exists golang_record_def)
  have c7: "CreateShortURL go_platform ?mem
        \<lparr>req_URL = ?a, req_CustomCode = Some ''golang''\<rparr> (world0 [golang_record]) =
       (Error (SvcError (NewDuplicateError ''service.CreateShortURL''
          ''short code already exists'')),
        \<lparr>store = [golang_record], rand_pos = 0, calls = [CallExistsByShortCode ''golang'']\<rparr>)
    \<and> create_calls (calls (snd (CreateShortURL go_platform ?mem
        \<lparr>req_URL = ?a, req_CustomCode = Some ''golang''\<rparr> (world0 [golang_record])))) = []"
    using T[where P = go_platform and S = ?mem and w = "world0 [golang_record]"
        and req = "\<lparr>req_URL = ?a, req_CustomCode = Some ''golang''\<rparr>" and c = "''golang''"
        and st = "[golang_record]"] x
    by (simp add: example_service_sel ValidateURL_example_a ValidateShortCode_examples
          world0_def)
  have c8: "CreateShortURL go_platform (example_service down_PBClient)
        \<lparr>req_URL = ?a, req_CustomCode = Some ''golang''\<rparr> (world0 []) =
       (Error (SvcError (NewInternalError ''service.CreateShortURL''
          ''failed to check code existence'' (Some ?dn))),
        \<lparr>store = [], rand_pos = 0, calls = [CallExistsByShortCode ''golang'']\<rparr>)"
    using T[where P = go_platform and S = "example_service down_PBClient" and w = "world0 []"
        and req = "\<lparr>req_URL = ?a, req_CustomCode = Some ''golang''\<rparr>" and c = "''golang''"
        and err = ?dn and st = "[]"]
    by (simp add: example_service_sel ValidateURL_example_a ValidateShortCode_examples
          down_Exists world0_def)
  have r9: "resolveCode go_platform_no_entropy ?mem None (world0 []) =
       (Error (SvcError (NewInternalError ''service.CreateShortURL''
          ''failed to generate short code'' (Some ?ge))),
        \<lparr>store = [], rand_pos = 1, calls = []\<rparr>)"
    by (simp add: resolveCode_generation_failed[OF run_no_entropy_generate])
  have c9: "CreateShortURL go_platform_no_entropy ?mem
        \<lparr>req_URL = ?a, req_CustomCode = None\<rparr> (world0 []) =
       (Error (SvcError (NewInternalError ''service.CreateShortURL''
          ''failed to generate short code'' (Some ?ge))),
        \<lparr>store = [], rand_pos = 1, calls = []\<rparr>)"
    using T[where P = go_platform_no_entropy and S = ?mem and w = "world0 []"
        and req = "\<lparr>req_URL = ?a, req_CustomCode = None\<rparr>"
        and err = "SvcError (NewInternalError ''service.CreateShortURL''
          ''failed to generate short code'' (Some ?ge))"
        and ?w1.0 = "\<lparr>store = [], rand_pos = 1, calls = []\<rparr>"] r9
    by (simp add: example_service_sel ne)
  have r10: "resolveCode go_platform ?mem (Some ''golang'') (world0 []) =
       (Return ''golang'',
        \<lparr>store = [], rand_pos = 0, calls = [CallExistsByShortCode ''golang'']\<rparr>)"
    by (simp add: resolveCode_custom[where st = "[]" and e = "Inr False"]
          example_service_sel ValidateShortCode_examples mem_Exists world0_def)
  have cr: "Create (repo ?mem) ?rec [] = (Inr (?rec\<lparr>ID := ''id-golang''\<rparr>), [?pb])"
    by (simp add: example_service_sel example_repo_def)
  have c10: "CreateShortURL go_platform ?mem
        \<lparr>req_URL = ?a, req_CustomCode = Some ''golang''\<rparr> (world0 []) =
       (Return \<lparr>created_ID = ''id-golang'', created_URL = ?a,
                created_ShortCode = ''golang'', created_CreatedAt = 0,
                created_UpdatedAt = 0\<rparr>,
        \<lparr>store = [?pb], rand_pos = 0,
         calls = [CallExistsByShortCode ''golang'', CallCreate ?rec]\<rparr>)"
    using T[where P = go_platform and S = ?mem and w = "world0 []"
        and req = "\<lparr>req_URL = ?a, req_CustomCode = Some ''golang''\<rparr>"
        and code = "''golang''"
        and ?w1.0 = "\<lparr>store = [], rand_pos = 0, calls = [CallExistsByShortCode ''golang'']\<rparr>"
        and res = "Inr (?rec\<lparr>ID := ''id-golang''\<rparr>)" and st' = "[?pb]"] r10 cr
    by (simp add: example_service_sel ValidateURL_example_a)
  from c1 c2 c3 c4 c5 c6 c7 c8 c9 c10 show ?thesis by simp
qed

text \<open>
  C10. For every string \<open>shortCode\<close>, whatever its length and characters, the read,
  statistics and delete operations start by handing it, as it is, to the repository
  (\<open>GetByShortCode\<close>, \<open>GetByShortCode\<close>, \<open>Delete\<close>), and the answer of the repository
  decides the result: an error of that call is what they return, a record it finds is what
  they answer with (the read after \<open>IncrementAccessCount\<close>, whose error it wraps), and the
  result of \<open>Delete\<close> is the result of the delete operation. No function of the validator is
  consulted: the three operations do the same with any other validator, and an error they
  return is the repository's. The update operation validates the new URL only: when the
  URL is valid it hands \<open>shortCode\<close> as it is to \<open>Update\<close> and returns its error or the
  record it gives; when the URL is invalid it returns the URL's validation error and calls
  nothing. \<open>ValidateShortCode\<close> is applied by \<open>CreateShortURL\<close> alone, to the custom code.
\<close>

theorem shortCode_forwarded_unvalidated:
  "(GetByShortCode (repo S) shortCode (store w) = (Inl err, st) \<longrightarrow>
      GetOriginalURL S shortCode w =
        (Error err, w\<lparr>store := st, calls := calls w @ [CallGetByShortCode shortCode]\<rparr>)
      \<and> GetStatistics S shortCode w =
        (Error err, w\<lparr>store := st, calls := calls w @ [CallGetByShortCode shortCode]\<rparr>))
   \<and> (Delete (repo S) shortCode (store w) = (res, st) \<longrightarrow>
      DeleteShortURL S shortCode w =
        (res, w\<lparr>store := st, calls := calls w @ [CallDelete shortCode]\<rparr>))
   \<and> (ValidateURL P (validator S) (upd_URL req) = None
        \<and> Update (repo S) shortCode (upd_URL req) (store w) = (Inl err, st) \<longrightarrow>
      UpdateShortURL P S shortCode req w =
        (Error err,
         w\<lparr>store := st, calls := calls w @ [CallUpdate shortCode (upd_URL req)]\<rparr>))
   \<and> (ValidateURL P (validator S) (upd_URL req) = Some err \<longrightarrow>
      UpdateShortURL P S shortCode req w = (Error err, w))
   \<and> take (Suc (length (calls w))) (calls (snd (GetOriginalURL S shortCode w)))
        = calls w @ [CallGetByShortCode shortCode]
   \<and> calls (snd (GetStatistics S shortCode w)) = calls w @ [CallGetByShortCode shortCode]
   \<and> calls (snd (DeleteShortURL S shortCode w)) = calls w @ [CallDelete shortCode]
   \<and> (ValidateURL P (validator S) (upd_URL req) = None \<longrightarrow>
      calls (snd (UpdateShortURL P S shortCode req w))
        = calls w @ [CallUpdate shortCode (upd_URL req)])
   \<and> (ValidateURL P (validator S) (req_URL creq) = None \<and> req_CustomCode creq = Some c
        \<and> ValidateShortCode (validator S) c = Some err \<longrightarrow>
      CreateShortURL P S creq w = (Error err, w))
   \<and> (GetByShortCode (repo S) shortCode (store w) = (Inr (Some u), st) \<longrightarrow>
      GetStatistics S shortCode w =
        (Return \<lparr>stats_ID = ID u, stats_URL = URL u, stats_ShortCode = ShortCode u,
                 stats_AccessCount = AccessCount u, stats_CreatedAt = Created u,
                 stats_UpdatedAt = Updated u\<rparr>,
         w\<lparr>store := st, calls := calls w @ [CallGetByShortCode shortCode]\<rparr>))
   \<and> (GetByShortCode (repo S) shortCode (store w) = (Inr (Some u), st)
        \<and> IncrementAccessCount (repo S) shortCode st = (None, st2) \<longrightarrow>
      GetOriginalURL S shortCode w =
        (Return \<lparr>got_ID = ID u, got_URL = URL u, got_ShortCode = ShortCode u,
                 got_AccessCount = 0, got_CreatedAt = Created u,
                 got_UpdatedAt = Updated u\<rparr>,
         w\<lparr>store := st2, calls := calls w @
            [CallGetByShortCode shortCode, CallIncrementAccessCount shortCode]\<rparr>))
   \<and> (GetByShortCode (repo S) shortCode (store w) = (Inr ptr, st)
        \<and> IncrementAccessCount (repo S) shortCode st = (Some err, st2) \<longrightarrow>
      GetOriginalURL S shortCode w =
        (Error (SvcError (NewInternalError ''service.GetOriginalURL''
           ''failed to increment access count'' (Some err))),
         w\<lparr>store := st2, calls := calls w @
            [CallGetByShortCode shortCode, CallIncrementAccessCount shortCode]\<rparr>))
   \<and> (ValidateURL P (validator S) (upd_URL req) = None
        \<and> Update (repo S) shortCode (upd_URL req) (store w) = (Inr (Some u), st) \<longrightarrow>
      UpdateShortURL P S shortCode req w =
        (Return \<lparr>updated_ID = ID u, updated_URL = URL u, updated_ShortCode = ShortCode u,
                 updated_AccessCount = AccessCount u, updated_CreatedAt = Created u,
                 updated_UpdatedAt = Updated u\<rparr>,
         w\<lparr>store := st, calls := calls w @ [CallUpdate shortCode (upd_URL req)]\<rparr>))
   \<and> (GetByShortCode (repo S) shortCode (store w) = (Inr None, st) \<longrightarrow>
      GetStatistics S shortCode w =
        (Panic nil_dereference,
         w\<lparr>store := st, calls := calls w @ [CallGetByShortCode shortCode]\<rparr>))
   \<and> (GetByShortCode (repo S) shortCode (store w) = (Inr None, st)
        \<and> IncrementAccessCount (repo S) shortCode st = (None, st2) \<longrightarrow>
      GetOriginalURL S shortCode w =
        (Panic nil_dereference,
         w\<lparr>store := st2, calls := calls w @
            [CallGetByShortCode shortCode, CallIncrementAccessCount shortCode]\<rparr>))
   \<and> (ValidateURL P (validator S) (upd_URL req) = None
        \<and> Update (repo S) shortCode (upd_URL req) (store w) = (Inr None, st) \<longrightarrow>
      UpdateShortURL P S shortCode req w =
        (Panic nil_dereference,
         w\<lparr>store := st, calls := calls w @ [CallUpdate shortCode (upd_URL req)]\<rparr>))
   \<and> GetOriginalURL (S\<lparr>validator := v\<rparr>) shortCode w = GetOriginalURL S shortCode w
   \<and> GetStatistics (S\<lparr>validator := v\<rparr>) shortCode w = GetStatistics S shortCode w
   \<and> DeleteShortURL (S\<lparr>validator := v\<rparr>) shortCode w = DeleteShortURL S shortCode w
   \<and> (ValidateURL P v (upd_URL req) = ValidateURL P (validator S) (upd_URL req) \<longrightarrow>
      UpdateShortURL P (S\<lparr>validator := v\<rparr>) shortCode req w
        = UpdateShortURL P S shortCode req w)
   \<and> (fst (GetStatistics S shortCode w) = Error err \<longrightarrow>
      fst (GetByShortCode (repo S) shortCode (store w)) = Inl err)
   \<and> (fst (GetOriginalURL S shortCode w) = Error err \<longrightarrow>
      fst (GetByShortCode (repo S) shortCode (store w)) = Inl err
      \<or> (\<exists>e. fst (IncrementAccessCount (repo S) shortCode
                  (snd (GetByShortCode (repo S) shortCode (store w)))) = Some e
            \<and> err = SvcError (NewInternalError ''service.GetOriginalURL''
                ''failed to increment access count'' (Some e))))
   \<and> fst (DeleteShortURL S shortCode w) = fst (Delete (repo S) shortCode (store w))
   \<and> (ValidateURL P (validator S) (upd_URL req) = None
        \<and> fst (UpdateShortURL P S shortCode req w) = Error err \<longrightarrow>
      fst (Update (repo S) shortCode (upd_URL req) (store w)) = Inl err)"
proof (intro conjI impI)
  assume "GetByShortCode (repo S) shortCode (store w) = (Inl err, st)"
  then show "GetOriginalURL S shortCode w =
        (Error err, w\<lparr>store := st, calls := calls w @ [CallGetByShortCode shortCode]\<rparr>)"
    and "GetStatistics S shortCode w =
        (Error err, w\<lparr>store := st, calls := calls w @ [CallGetByShortCode shortCode]\<rparr>)"
    by (simp_all add: GetOriginalURL_def GetStatistics_def repo_GetByShortCode_def)
next
  assume "Delete (repo S) shortCode (store w) = (res, st)"
  then show "DeleteShortURL S shortCode w =
        (res, w\<lparr>store := st, calls := calls w @ [CallDelete shortCode]\<rparr>)"
    by (simp add: DeleteShortURL_def repo_Delete_def)
next
  assume "ValidateURL P (validator S) (upd_URL req) = None
        \<and> Update (repo S) shortCode (upd_URL req) (store w) = (Inl err, st)"
  then show "UpdateShortURL P S shortCode req w =
        (Error err,
         w\<lparr>store := st, calls := calls w @ [CallUpdate shortCode (upd_URL req)]\<rparr>)"
    by (simp add: UpdateShortURL_def repo_Update_def)
next
  assume "ValidateURL P (validator S) (upd_URL req) = Some err"
  then show "UpdateShortURL P S shortCode req w = (Error err, w)"
    by (simp add: UpdateShortURL_def)
next
  show "take (Suc (length (calls w))) (calls (snd (GetOriginalURL S shortCode w)))
        = calls w @ [CallGetByShortCode shortCode]"
    by (simp add: GetOriginalURL_def repo_GetByShortCode_def repo_IncrementAccessCount_def
          split: prod.splits sum.splits option.splits)
next
  show "calls (snd (GetStatistics S shortCode w)) = calls w @ [CallGetByShortCode shortCode]"
    by (simp add: GetStatistics_def repo_GetByShortCode_def
          split: prod.splits sum.splits option.splits)
next
  show "calls (snd (DeleteShortURL S shortCode w)) = calls w @ [CallDelete shortCode]"
    by (simp add: DeleteShortURL_def repo_Delete_def split: prod.splits)
next
  assume "ValidateURL P (validator S) (upd_URL req) = None"
  then show "calls (snd (UpdateShortURL P S shortCode req w))
        = calls w @ [CallUpdate shortCode (upd_URL req)]"
    by (simp add: UpdateShortURL_def repo_Update_def
          split: prod.splits sum.splits option.splits)
next
  assume "ValidateURL P (validator S) (req_URL creq) = None \<and> req_CustomCode creq = Some c
        \<and> ValidateShortCode (validator S) c = Some err"
  then show "CreateShortURL P S creq w = (Error err, w)"
    by (simp add: CreateShortURL_invalid_code)
next
  assume "GetByShortCode (repo S) shortCode (store w) = (Inr (Some u), st)"
  then show "GetStatistics S shortCode w =
        (Return \<lparr>stats_ID = ID u, stats_URL = URL u, stats_ShortCode = ShortCode u,
                 stats_AccessCount = AccessCount u, stats_CreatedAt = Created u,
                 stats_UpdatedAt = Updated u\<rparr>,
         w\<lparr>store := st, calls := calls w @ [CallGetByShortCode shortCode]\<rparr>)"
    by (simp add: GetStatistics_def repo_GetByShortCode_def)
next
  assume "GetByShortCode (repo S) shortCode (store w) = (Inr (Some u), st)
        \<and> IncrementAccessCount (repo S) shortCode st = (None, st2)"
  then show "GetOriginalURL S shortCode w =
        (Return \<lparr>got_ID = ID u, got_URL = URL u, got_ShortCode = ShortCode u,
                 got_AccessCount = 0, got_CreatedAt = Created u,
                 got_UpdatedAt = Updated u\<rparr>,
         w\<lparr>store := st2, calls := calls w @
            [CallGetByShortCode shortCode, CallIncrementAccessCount shortCode]\<rparr>)"
    by (simp add: GetOriginalURL_def repo_GetByShortCode_def repo_IncrementAccessCount_def)
next
  assume "GetByShortCode (repo S) shortCode (store w) = (Inr ptr, st)
        \<and> IncrementAccessCount (repo S) shortCode st = (Some err, st2)"
  then show "GetOriginalURL S shortCode w =
        (Error (SvcError (NewInternalError ''service.GetOriginalURL''
           ''failed to increment access count'' (Some err))),
         w\<lparr>store := st2, calls := calls w @
            [CallGetByShortCode shortCode, CallIncrementAccessCount shortCode]\<rparr>)"
    by (simp add: GetOriginalURL_def repo_GetByShortCode_def repo_IncrementAccessCount_def)
next
  assume "ValidateURL P (validator S) (upd_URL req) = None
        \<and> Update (repo S) shortCode (upd_URL req) (store w) = (Inr (Some u), st)"
  then show "UpdateShortURL P S shortCode req w =
        (Return \<lparr>updated_ID = ID u, updated_URL = URL u, updated_ShortCode = ShortCode u,
                 updated_AccessCount = AccessCount u, updated_CreatedAt = Created u,
                 updated_UpdatedAt = Updated u\<rparr>,
         w\<lparr>store := st, calls := calls w @ [CallUpdate shortCode (upd_URL req)]\<rparr>)"
    by (simp add: UpdateShortURL_def repo_Update_def)
next
  assume "GetByShortCode (repo S) shortCode (store w) = (Inr None, st)"
  then show "GetStatistics S shortCode w =
        (Panic nil_dereference,
         w\<lparr>store := st, calls := calls w @ [CallGetByShortCode shortCode]\<rparr>)"
    by (simp add: GetStatistics_def repo_GetByShortCode_def)
next
  assume "GetByShortCode (repo S) shortCode (store w) = (Inr None, st)
        \<and> IncrementAccessCount (repo S) shortCode st = (None, st2)"
  then show "GetOriginalURL S shortCode w =
        (Panic nil_dereference,
         w\<lparr>store := st2, calls := calls w @
            [CallGetByShortCode shortCode, CallIncrementAccessCount shortCode]\<rparr>)"
    by (simp add: GetOriginalURL_def repo_GetByShortCode_def repo_IncrementAccessCount_def)
next
  assume "ValidateURL P (validator S) (upd_URL req) = None
        \<and> Update (repo S) shortCode (upd_URL req) (store w) = (Inr None, st)"
  then show "UpdateShortURL P S shortCode req w =
        (Panic nil_dereference,
         w\<lparr>store := st, calls := calls w @ [CallUpdate shortCode (upd_URL req)]\<rparr>)"
    by (simp add: UpdateShortURL_def repo_Update_def)
next
  have "repo_IncrementAccessCount (S\<lparr>validator := v\<rparr>) shortCode w1
      = repo_IncrementAccessCount S shortCode w1" for w1
    by (simp add: repo_IncrementAccessCount_def)
  then show "GetOriginalURL (S\<lparr>validator := v\<rparr>) shortCode w = GetOriginalURL S shortCode w"
    by (simp add: GetOriginalURL_def repo_GetByShortCode_def
          split: prod.splits sum.splits)
next
  show "GetStatistics (S\<lparr>validator := v\<rparr>) shortCode w = GetStatistics S shortCode w"
    by (simp add: GetStatistics_def repo_GetByShortCode_def)
next
  show "DeleteShortURL (S\<lparr>validator := v\<rparr>) shortCode w = DeleteShortURL S shortCode w"
    by (simp add: DeleteShortURL_def repo_Delete_def)
next
  assume "ValidateURL P v (upd_URL req) = ValidateURL P (validator S) (upd_URL req)"
  moreover have "repo_Update (S\<lparr>validator := v\<rparr>) shortCode (upd_URL req) w
      = repo_Update S shortCode (upd_URL req) w"
    by (simp add: repo_Update_def)
  ultimately show "UpdateShortURL P (S\<lparr>validator := v\<rparr>) shortCode req w
        = UpdateShortURL P S shortCode req w"
    by (simp add: UpdateShortURL_def split: option.splits)
next
  assume "fst (GetStatistics S shortCode w) = Error err"
  then show "fst (GetByShortCode (repo S) shortCode (store w)) = Inl err"
    by (auto simp: GetStatistics_def repo_GetByShortCode_def
          split: prod.splits sum.splits option.splits)
next
  assume "fst (GetOriginalURL S shortCode w) = Error err"
  then show "fst (GetByShortCode (repo S) shortCode (store w)) = Inl err
      \<or> (\<exists>e. fst (IncrementAccessCount (repo S) shortCode
                  (snd (GetByShortCode (repo S) shortCode (store w)))) = Some e
            \<and> err = SvcError (NewInternalError ''service.GetOriginalURL''
                ''failed to increment access count'' (Some e)))"
    by (auto simp: GetOriginalURL_def repo_GetByShortCode_def repo_IncrementAccessCount_def
          split: prod.splits sum.splits option.splits)
next
  show "fst (DeleteShortURL S shortCode w) = fst (Delete (repo S) shortCode (store w))"
    by (simp add: DeleteShortURL_def repo_Delete_def split: prod.splits)
next
  assume "ValidateURL P (validator S) (upd_URL req) = None
        \<and> fst (UpdateShortURL P S shortCode req w) = Error err"
  then show "fst (Update (repo S) shortCode (upd_URL req) (store w)) = Inl err"
    by (auto simp: UpdateShortURL_def repo_Update_def
          split: prod.splits sum.splits option.splits)
qed

text \<open>
  The theorem on \<open>ab\<close>, a code that \<open>ValidateShortCode\<close> rejects. With a store that
  does not hold it, each of the four operations ends with the repository's not-found error
  (not a validation error) after one call that carries \<open>ab\<close>. With a store that holds a
  record of that code, each of them succeeds: the statistics and the read answer with the
  record, the update with the updated record, the delete with no error.
\<close>

theorem shortCode_forwarded_unvalidated_witness:
  "ValidateShortCode NewURLValidator ''ab'' =
     Some (SvcError (NewValidationError ''validator.ValidateShortCode''
       ''short code must be between 4 and 20 characters'' None))
   \<and> GetOriginalURL (example_service mem_PBClient) ''ab'' (world0 [golang_record]) =
       (Error (SvcError (NewNotFoundError ''repository.GetByShortCode''
          ''short URL not found'')),
        \<lparr>store = [golang_record], rand_pos = 0, calls = [CallGetByShortCode ''ab'']\<rparr>)
   \<and> GetStatistics (example_service mem_PBClient) ''ab'' (world0 [golang_record]) =
       (Error (SvcError (NewNotFoundError ''repository.GetByShortCode''
          ''short URL not found'')),
        \<lparr>store = [golang_record], rand_pos = 0, calls = [CallGetByShortCode ''ab'']\<rparr>)
   \<and> DeleteShortURL (example_service mem_PBClient) ''ab'' (world0 [golang_record]) =
       (Some (SvcError (NewNotFoundError ''repository.GetByShortCode''
          ''short URL not found'')),
        \<lparr>store = [golang_record], rand_pos = 0, calls = [CallDelete ''ab'']\<rparr>)
   \<and> UpdateShortURL go_platform (example_service mem_PBClient) ''ab''
        \<lparr>upd_URL = ''https://example.com/a''\<rparr> (world0 [golang_record]) =
       (Error (SvcError (NewNotFoundError ''repository.GetByShortCode''
          ''short URL not found'')),
        \<lparr>store = [golang_record], rand_pos = 0,
         calls = [CallUpdate ''ab'' ''https://example.com/a'']\<rparr>)
   \<and> UpdateShortURL go_platform (example_service mem_PBClient) ''ab''
        \<lparr>upd_URL = ''ftp://example.com''\<rparr> (world0 [golang_record]) =
       (Error (SvcError (NewValidationError ''validator.ValidateURL''
          ''only HTTP and HTTPS URLs are allowed'' None)), world0 [golang_record])
   \<and> GetStatistics (example_service mem_PBClient) ''ab'' (world0 [ab_record]) =
       (Return \<lparr>stats_ID = ''id-ab'', stats_URL = ''https://example.com/ab'',
                stats_ShortCode = ''ab'', stats_AccessCount = 7, stats_CreatedAt = 0,
                stats_UpdatedAt = 0\<rparr>,
        \<lparr>store = [ab_record], rand_pos = 0, calls = [CallGetByShortCode ''ab'']\<rparr>)
   \<and> GetOriginalURL (example_service mem_PBClient) ''ab'' (world0 [ab_record]) =
       (Return \<lparr>got_ID = ''id-ab'', got_URL = ''https://example.com/ab'',
                got_ShortCode = ''ab'', got_AccessCount = 0, got_CreatedAt = 0,
                got_UpdatedAt = 0\<rparr>,
        \<lparr>store = [ab_record\<lparr>pb_AccessCount := 8\<rparr>], rand_pos = 0,
         calls = [CallGetByShortCode ''ab'', CallIncrementAccessCount ''ab'']\<rparr>)
   \<and> UpdateShortURL go_platform (example_service mem_PBClient) ''ab''
        \<lparr>upd_URL = ''https://example.com/a''\<rparr> (world0 [ab_record]) =
       (Return \<lparr>updated_ID = ''id-ab'', updated_URL = ''https://example.com/a'',
                updated_ShortCode = ''ab'', updated_AccessCount = 7, updated_CreatedAt = 0,
                updated_UpdatedAt = 0\<rparr>,
        \<lparr>store = [ab_record\<lparr>pb_URL := ''https://example.com/a''\<rparr>], rand_pos = 0,
         calls = [CallUpdate ''ab'' ''https://example.com/a'']\<rparr>)
   \<and> DeleteShortURL (example_service mem_PBClient) ''ab'' (world0 [ab_record]) =
       (None, \<lparr>store = [], rand_pos = 0, calls = [CallDelete ''ab'']\<rparr>)"
proof -
  let ?nf = "SvcError (NewNotFoundError ''repository.GetByShortCode'' ''short URL not found'')"
  let ?S = "example_service mem_PBClient"
  note T = shortCode_forwarded_unvalidated[where S = ?S and shortCode = "''ab''"
      and w = "world0 [golang_record]" and st = "[golang_record]" and P = go_platform
      and c = "''ab''"
      and creq = "\<lparr>req_URL = ''https://example.com/a'', req_CustomCode = Some ''ab''\<rparr>"]
  have look: "urlRepositoryImpl_GetByShortCode go_platform mem_PBClient ''ab'' [golang_record]
      = (Inl ?nf, [golang_record])"
    by (simp add: mem_GetByShortCode golang_record_def)
  have get: "GetByShortCode (repo ?S) ''ab'' (store (world0 [golang_record]))
      = (Inl ?nf, [golang_record])"
    using look by (simp add: example_service_sel example_repo_def world0_def)
  have del: "Delete (repo ?S) ''ab'' (store (world0 [golang_record]))
      = (Some ?nf, [golang_record])"
    using look by (simp add: example_service_sel example_repo_def world0_def)
  have upd: "Update (repo ?S) ''ab'' ''https://example.com/a'' (store (world0 [golang_record]))
      = (Inl ?nf, [golang_record])"
    using look by (simp add: example_service_sel example_repo_def world0_def)
  have a: "GetOriginalURL ?S ''ab'' (world0 [golang_record]) =
       (Error ?nf, \<lparr>store = [golang_record], rand_pos = 0,
          calls = [CallGetByShortCode ''ab'']\<rparr>)"
    "GetStatistics ?S ''ab'' (world0 [golang_record]) =
       (Error ?nf, \<lparr>store = [golang_record], rand_pos = 0,
          calls = [CallGetByShortCode ''ab'']\<rparr>)"
    using T[where err = ?nf and res = "Some ?nf"
        and req = "\<lparr>upd_URL = ''https://example.com/a''\<rparr>"] get
    by (simp_all add: world0_def)
  have b: "DeleteShortURL ?S ''ab'' (world0 [golang_record]) =
       (Some ?nf, \<lparr>store = [golang_record], rand_pos = 0, calls = [CallDelete ''ab'']\<rparr>)"
    using T[where err = ?nf and res = "Some ?nf"
        and req = "\<lparr>upd_URL = ''https://example.com/a''\<rparr>"] del
    by (simp add: world0_def)
  have c: "UpdateShortURL go_platform ?S ''ab''
        \<lparr>upd_URL = ''https://example.com/a''\<rparr> (world0 [golang_record]) =
       (Error ?nf, \<lparr>store = [golang_record], rand_pos = 0,
         calls = [CallUpdate ''ab'' ''https://example.com/a'']\<rparr>)"
    using T[where err = ?nf and res = "Some ?nf"
        and req = "\<lparr>upd_URL = ''https://example.com/a''\<rparr>"] upd
    by (simp add: world0_def example_service_sel ValidateURL_example_a)
  have d: "UpdateShortURL go_platform ?S ''ab''
        \<lparr>upd_URL = ''ftp://example.com''\<rparr> (world0 [golang_record]) =
       (Error (SvcError (NewValidationError ''validator.ValidateURL''
          ''only HTTP and HTTPS URLs are allowed'' None)), world0 [golang_record])"
    using T[where err = "SvcError (NewValidationError ''validator.ValidateURL''
          ''only HTTP and HTTPS URLs are allowed'' None)" and res = "Some ?nf"
        and req = "\<lparr>upd_URL = ''ftp://example.com''\<rparr>"]
    by (simp add: example_service_sel ValidateURL_example_ftp)
  let ?a = "''https://example.com/a''"
  let ?u = "\<lparr>ID = ''id-ab'', URL = ''https://example.com/ab'', ShortCode = ''ab'',
             AccessCount = 7, Created = 0, Updated = 0\<rparr>"
  note T2 = shortCode_forwarded_unvalidated[where S = ?S and shortCode = "''ab''"
      and w = "world0 [ab_record]" and P = go_platform and c = "''ab''"
      and creq = "\<lparr>req_URL = ?a, req_CustomCode = Some ''ab''\<rparr>"
      and req = "\<lparr>upd_URL = ?a\<rparr>" and err = ?nf and ptr = "Some ?u"
      and v = NewURLValidator]
  have look_ab: "urlRepositoryImpl_GetByShortCode go_platform mem_PBClient ''ab'' [ab_record]
      = (Inr (Some ?u), [ab_record])"
    by (simp add: mem_GetByShortCode ab_record_def parsePBTime_def)
  have get_ab: "GetByShortCode (repo ?S) ''ab'' (store (world0 [ab_record]))
      = (Inr (Some ?u), [ab_record])"
    using look_ab by (simp add: example_service_sel example_repo_def world0_def)
  have inc_ab: "IncrementAccessCount (repo ?S) ''ab'' [ab_record]
      = (None, [ab_record\<lparr>pb_AccessCount := 8\<rparr>])"
    using look_ab by (simp add: example_service_sel example_repo_def ab_record_def)
  have upd_ab: "Update (repo ?S) ''ab'' ?a (store (world0 [ab_record]))
      = (Inr (Some (?u\<lparr>URL := ?a\<rparr>)), [ab_record\<lparr>pb_URL := ?a\<rparr>])"
    using look_ab by (simp add: example_service_sel example_repo_def world0_def ab_record_def)
  have del_ab: "Delete (repo ?S) ''ab'' (store (world0 [ab_record])) = (None, [])"
    using look_ab by (simp add: example_service_sel example_repo_def world0_def ab_record_def)
  have e: "GetStatistics ?S ''ab'' (world0 [ab_record]) =
       (Return \<lparr>stats_ID = ''id-ab'', stats_URL = ''https://example.com/ab'',
                stats_ShortCode = ''ab'', stats_AccessCount = 7, stats_CreatedAt = 0,
                stats_UpdatedAt = 0\<rparr>,
        \<lparr>store = [ab_record], rand_pos = 0, calls = [CallGetByShortCode ''ab'']\<rparr>)"
    using T2[where u = ?u and st = "[ab_record]" and res = None
        and ?st2.0 = "[ab_record\<lparr>pb_AccessCount := 8\<rparr>]"] get_ab
    by (simp add: world0_def)
  have f: "GetOriginalURL ?S ''ab'' (world0 [ab_record]) =
       (Return \<lparr>got_ID = ''id-ab'', got_URL = ''https://example.com/ab'',
                got_ShortCode = ''ab'', got_AccessCount = 0, got_CreatedAt = 0,
                got_UpdatedAt = 0\<rparr>,
        \<lparr>store = [ab_record\<lparr>pb_AccessCount := 8\<rparr>], rand_pos = 0,
         calls = [CallGetByShortCode ''ab'', CallIncrementAccessCount ''ab'']\<rparr>)"
    using T2[where u = ?u and st = "[ab_record]" and res = None
        and ?st2.0 = "[ab_record\<lparr>pb_AccessCount := 8\<rparr>]"] get_ab inc_ab
    by (simp add: world0_def)
  have g: "UpdateShortURL go_platform ?S ''ab'' \<lparr>upd_URL = ?a\<rparr> (world0 [ab_record]) =
       (Return \<lparr>updated_ID = ''id-ab'', updated_URL = ?a,
                updated_ShortCode = ''ab'', updated_AccessCount = 7, updated_CreatedAt = 0,
                updated_UpdatedAt = 0\<rparr>,
        \<lparr>store = [ab_record\<lparr>pb_URL := ?a\<rparr>], rand_pos = 0,
         calls = [CallUpdate ''ab'' ?a]\<rparr>)"
    using T2[where u = "?u\<lparr>URL := ?a\<rparr>" and st = "[ab_record\<lparr>pb_URL := ?a\<rparr>]"
        and res = None and ?st2.0 = "[]"] upd_ab
    by (simp add: world0_def example_service_sel ValidateURL_example_a)
  have h: "DeleteShortURL ?S ''ab'' (world0 [ab_record]) =
       (None, \<lparr>store = [], rand_pos = 0, calls = [CallDelete ''ab'']\<rparr>)"
    using T2[where u = ?u and st = "[]" and res = None and ?st2.0 = "[]"] del_ab
    by (simp add: world0_def)
  from a b c d e f g h ValidateShortCode_examples(2) show ?thesis by simp
qed


end
